theory Spec2Isabelle
  imports Complex_Main
begin

section \<open>Conventions of the embedding\<close>

text \<open>
  The program is a single Python module, \<^verbatim>\<open>src/api/index.py\<close>: a FastAPI backend that
  prices consulting proposals. Every endpoint is embedded as a HOL function of its request
  and of the process-wide state it reads (\<^verbatim>\<open>SERVICES_CATALOG\<close>,
  \<^verbatim>\<open>DEFAULT_OVERHEAD_COSTS\<close>, \<^verbatim>\<open>proposals_storage\<close>), returning \<open>exc + 'a\<close>
  where the Python raises.

  Numbers. A Python \<^verbatim>\<open>float\<close> is an IEEE-754 double: a \<open>pyfloat\<close>, that is a real
  number, an infinity or a NaN, and every arithmetic operation rounds its exact result to
  the nearest double (\<open>fl\<close> below). The two zeros of the format are one value here: no
  operation of the program tells them apart except printing. A Python \<^verbatim>\<open>int\<close> is an
  \<open>int\<close>; where a value may be either (the overhead rates) it is a \<open>pynum\<close>. A field
  of a request holds a double; what is proved for every \<open>Fin r\<close> holds for the doubles
  among them, and the examples use doubles only.

  Strings are byte lists; a code point outside ASCII is written as its UTF-8 bytes. The one
  string whose characters the program inspects, the text returned by the text-generation
  service, is a list of Unicode code points.
\<close>

subsection \<open>Double-precision numbers\<close>

text \<open>Rounding to the nearest integer, a tie going to the even neighbour.\<close>

definition round_half_even :: "real \<Rightarrow> int" where
  "round_half_even y =
     (let f = \<lfloor>y\<rfloor>; r = y - of_int f
      in if r < 1/2 then f
         else if 1/2 < r then f + 1
         else if even f then f else f + 1)"

datatype pyfloat = Fin real | PInf | NInf | NaN

text \<open>
  \<open>rd x\<close> is the real \<open>x\<close> rounded to the nearest number with a significand of 53 bits
  and an exponent of at least \<open>-1022\<close>, a tie going to the even significand: below
  2 to the power \<open>-1022\<close> the spacing stays 2 to the power \<open>-1074\<close> (gradual
  underflow). \<open>fl x\<close> is the double that an operation with exact result \<open>x\<close> delivers:
  a result that rounds beyond the largest double is an infinity.
\<close>

definition max_double :: real where
  "max_double = (2 ^ 53 - 1) * 2 ^ 971"

definition rd :: "real \<Rightarrow> real" where
  "rd x =
     (if x = 0 then 0
      else (let e = max \<lfloor>log 2 \<bar>x\<bar>\<rfloor> (- 1022);
                ulp = 2 powr (of_int e - 52)
            in of_int (round_half_even (x / ulp)) * ulp))"

definition fl :: "real \<Rightarrow> pyfloat" where
  "fl x = (let y = rd x
           in if max_double < y then PInf else if y < - max_double then NInf else Fin y)"

text \<open>
  The arithmetic of \<^verbatim>\<open>float\<close>: \<^verbatim>\<open>+\<close>, unary and binary \<^verbatim>\<open>-\<close>, \<^verbatim>\<open>*\<close>, \<^verbatim>\<open>abs\<close>, and
  \<^verbatim>\<open>/\<close> by a divisor that is not zero. None of them raises; an operation without a value
  (\<open>\<infinity> - \<infinity>\<close>, \<open>0 * \<infinity>\<close>, \<open>\<infinity> / \<infinity>\<close>) gives NaN.
\<close>

definition signed_inf :: "real \<Rightarrow> pyfloat" where
  "signed_inf s = (if 0 < s then PInf else if s < 0 then NInf else NaN)"

fun sign_of :: "pyfloat \<Rightarrow> real" where
  "sign_of (Fin a) = sgn a"
| "sign_of PInf = 1"
| "sign_of NInf = - 1"
| "sign_of NaN = 0"

fun fadd :: "pyfloat \<Rightarrow> pyfloat \<Rightarrow> pyfloat" where
  "fadd (Fin a) (Fin b) = fl (a + b)"
| "fadd NaN y = NaN"
| "fadd x NaN = NaN"
| "fadd PInf NInf = NaN"
| "fadd NInf PInf = NaN"
| "fadd PInf y = PInf"
| "fadd x PInf = PInf"
| "fadd NInf y = NInf"
| "fadd x NInf = NInf"

fun fneg :: "pyfloat \<Rightarrow> pyfloat" where
  "fneg (Fin a) = Fin (- a)"
| "fneg PInf = NInf"
| "fneg NInf = PInf"
| "fneg NaN = NaN"

definition fsub :: "pyfloat \<Rightarrow> pyfloat \<Rightarrow> pyfloat" where
  "fsub x y = fadd x (fneg y)"

fun fabs :: "pyfloat \<Rightarrow> pyfloat" where
  "fabs (Fin a) = Fin \<bar>a\<bar>"
| "fabs PInf = PInf"
| "fabs NInf = PInf"
| "fabs NaN = NaN"

fun fmul :: "pyfloat \<Rightarrow> pyfloat \<Rightarrow> pyfloat" where
  "fmul (Fin a) (Fin b) = fl (a * b)"
| "fmul NaN y = NaN"
| "fmul x NaN = NaN"
| "fmul PInf y = signed_inf (sign_of y)"
| "fmul NInf y = signed_inf (- sign_of y)"
| "fmul x PInf = signed_inf (sign_of x)"
| "fmul x NInf = signed_inf (- sign_of x)"

fun fquot :: "pyfloat \<Rightarrow> pyfloat \<Rightarrow> pyfloat" where
  "fquot (Fin a) (Fin b) = fl (a / b)"
| "fquot NaN y = NaN"
| "fquot x NaN = NaN"
| "fquot (Fin a) y = Fin 0"
| "fquot x (Fin b) = signed_inf (sign_of x * sgn b)"
| "fquot PInf y = NaN"
| "fquot NInf y = NaN"

text \<open>The comparisons \<^verbatim>\<open><\<close> and \<^verbatim>\<open><=\<close>; \<^verbatim>\<open>a > b\<close> is \<open>flt b a\<close>. A NaN compares false.\<close>

fun flt :: "pyfloat \<Rightarrow> pyfloat \<Rightarrow> bool" where
  "flt (Fin a) (Fin b) = (a < b)"
| "flt NaN y = False"
| "flt x NaN = False"
| "flt x NInf = False"
| "flt PInf y = False"
| "flt NInf y = True"
| "flt x PInf = True"

fun fle :: "pyfloat \<Rightarrow> pyfloat \<Rightarrow> bool" where
  "fle (Fin a) (Fin b) = (a \<le> b)"
| "fle NaN y = False"
| "fle x NaN = False"
| "fle NInf y = True"
| "fle x PInf = True"
| "fle PInf y = False"
| "fle x NInf = False"

text \<open>The number that a finite double stands for.\<close>

fun value_of :: "pyfloat \<Rightarrow> real" where
  "value_of (Fin a) = a"
| "value_of PInf = 0"
| "value_of NInf = 0"
| "value_of NaN = 0"

text \<open>
  The literals \<^verbatim>\<open>0.15\<close>, \<^verbatim>\<open>0.01\<close> and \<^verbatim>\<open>30.44\<close> denote the doubles nearest to them.
\<close>

definition lit_0_15 :: pyfloat where
  "lit_0_15 = fl (15 / 100)"

definition lit_0_01 :: pyfloat where
  "lit_0_01 = fl (1 / 100)"

definition lit_30_44 :: pyfloat where
  "lit_30_44 = fl (3044 / 100)"

subsection \<open>Exceptions and formatted text\<close>

text \<open>
  \<open>HTTPException status detail\<close> is FastAPI's exception; \<open>ValueError\<close> is what
  \<^verbatim>\<open>strptime\<close> raises, \<open>OverflowError\<close> what the conversion of a too large \<^verbatim>\<open>int\<close> to
  \<^verbatim>\<open>float\<close> raises, \<open>OtherError\<close> stands for whatever a library call raises.
  An f-string is kept as the list of its pieces: literal text, a string
  (\<^verbatim>\<open>{deliv_data.service_id}\<close>), an integer (\<^verbatim>\<open>{i}\<close>), a number
  (\<^verbatim>\<open>{total_percentage}\<close>), a number with thousands separators and two decimals
  (\<^verbatim>\<open>{x:,.2f}\<close>), or an exception (\<^verbatim>\<open>{e}\<close>, that is \<^verbatim>\<open>str(e)\<close>; for an
  \<open>HTTPException\<close> the framework renders its status and its detail).
\<close>

datatype exc =
    HTTPException nat "fragment list"
  | ZeroDivisionError
  | OverflowError
  | ValueError string
  | OtherError string
and fragment =
    Lit string
  | Str string
  | Whole int
  | Num pyfloat
  | Money pyfloat
  | Exc exc

subsection \<open>Python built-ins used by the module\<close>

text \<open>\<^verbatim>\<open>a / b\<close> on floats raises on a zero divisor.\<close>

definition py_truediv :: "pyfloat \<Rightarrow> pyfloat \<Rightarrow> exc + pyfloat" where
  "py_truediv a b = (if b = Fin 0 then Inl ZeroDivisionError else Inr (fquot a b))"

text \<open>
  \<^verbatim>\<open>round(x, n)\<close> on a float: the double nearest to the decimal with \<open>n\<close> places that is
  nearest to the exact value of \<open>x\<close>, a tie going to the even last place. An infinity or a
  NaN is returned as it is.
\<close>

definition py_round :: "real \<Rightarrow> nat \<Rightarrow> real" where
  "py_round x ndigits = of_int (round_half_even (x * 10 ^ ndigits)) / 10 ^ ndigits"

definition py_round_float :: "pyfloat \<Rightarrow> nat \<Rightarrow> pyfloat" where
  "py_round_float x ndigits = (case x of Fin r \<Rightarrow> fl (py_round r ndigits) | _ \<Rightarrow> x)"

text \<open>\<^verbatim>\<open>round(x)\<close> on a float gives an \<^verbatim>\<open>int\<close>, and raises on an infinity or a NaN.\<close>

definition py_round_int :: "pyfloat \<Rightarrow> exc + int" where
  "py_round_int x =
     (case x of
        Fin r \<Rightarrow> Inr (round_half_even r)
      | NaN \<Rightarrow> Inl (ValueError ''cannot convert float NaN to integer'')
      | _ \<Rightarrow> Inl OverflowError)"

text \<open>
  \<^verbatim>\<open>sum(xs)\<close> over floats: the accumulator starts at the \<^verbatim>\<open>int\<close> \<open>0\<close>, which converts to
  \<open>0.0\<close> exactly, and the items are added left to right, each addition rounded (the
  summation of CPython up to 3.11; later versions carry a compensation term through a sum
  of three or more floats). The empty sum is the \<^verbatim>\<open>int\<close> \<open>0\<close>, written \<open>Fin 0\<close> here
  as the float it equals.
\<close>

definition py_sum :: "pyfloat list \<Rightarrow> pyfloat" where
  "py_sum xs = foldl fadd (Fin 0) xs"

text \<open>
  Numbers that may be an \<^verbatim>\<open>int\<close> or a \<^verbatim>\<open>float\<close>. Integer arithmetic is exact. In a mixed
  operation the \<^verbatim>\<open>int\<close> is converted, rounding to the nearest double, and the conversion
  raises \<open>OverflowError\<close> when the result is beyond the largest double.
\<close>

datatype pynum = PyInt int | PyFloat pyfloat

definition float_of_int :: "int \<Rightarrow> exc + pyfloat" where
  "float_of_int i = (case fl (of_int i) of Fin y \<Rightarrow> Inr (Fin y) | _ \<Rightarrow> Inl OverflowError)"

fun to_float :: "pynum \<Rightarrow> exc + pyfloat" where
  "to_float (PyInt i) = float_of_int i"
| "to_float (PyFloat x) = Inr x"

text \<open>A number that is not negative, and not a NaN.\<close>

fun num_nonneg :: "pynum \<Rightarrow> bool" where
  "num_nonneg (PyInt i) = (0 \<le> i)"
| "num_nonneg (PyFloat x) = fle (Fin 0) x"

definition float_op ::
  "(pyfloat \<Rightarrow> pyfloat \<Rightarrow> pyfloat) \<Rightarrow> pynum \<Rightarrow> pynum \<Rightarrow> exc + pynum" where
  "float_op f a b =
     (case to_float a of
        Inl e \<Rightarrow> Inl e
      | Inr x \<Rightarrow> (case to_float b of Inl e \<Rightarrow> Inl e | Inr y \<Rightarrow> Inr (PyFloat (f x y))))"

fun num_add :: "pynum \<Rightarrow> pynum \<Rightarrow> exc + pynum" where
  "num_add (PyInt i) (PyInt j) = Inr (PyInt (i + j))"
| "num_add a b = float_op fadd a b"

fun num_mul :: "pynum \<Rightarrow> pynum \<Rightarrow> exc + pynum" where
  "num_mul (PyInt i) (PyInt j) = Inr (PyInt (i * j))"
| "num_mul a b = float_op fmul a b"

text \<open>\<^verbatim>\<open>sum(xs)\<close> over such numbers, from the \<^verbatim>\<open>int\<close> \<open>0\<close>.\<close>

fun sum_from :: "pynum \<Rightarrow> pynum list \<Rightarrow> exc + pynum" where
  "sum_from acc [] = Inr acc"
| "sum_from acc (x # xs) =
     (case num_add acc x of Inl e \<Rightarrow> Inl e | Inr acc' \<Rightarrow> sum_from acc' xs)"

definition py_sum_num :: "pynum list \<Rightarrow> exc + pynum" where
  "py_sum_num xs = sum_from (PyInt 0) xs"

section \<open>Pre-loaded data\<close>

text \<open>A catalog entry: the duration is an \<^verbatim>\<open>int\<close>, the price a \<^verbatim>\<open>float\<close> literal.\<close>

record service =
  svc_name :: string
  svc_description :: string
  svc_unit :: string
  svc_duration :: int
  svc_price :: pyfloat

type_synonym catalog = "string \<rightharpoonup> service"

definition SERVICES_CATALOG_items :: "(string \<times> service) list" where
  "SERVICES_CATALOG_items = [
  (''1.0'', \<lparr>svc_name = ''AI Strategy & Governance'',
    svc_description = '''',
    svc_unit = ''Service'', svc_duration = 24, svc_price = Fin 80000\<rparr>),
  (''1.1'', \<lparr>svc_name = ''AI Governance Framework Development'',
    svc_description = ''This includes developing AI governance frameworks aligned with international standards (e.g. ISO/IEC 42001:2023) and the client's vision and objectives'',
    svc_unit = ''Service'', svc_duration = 12, svc_price = Fin 40000\<rparr>),
  (''1.2'', \<lparr>svc_name = ''AI Trustworthiness & Risk Assessment'',
    svc_description = ''Incorporates AI risk management models to ensure ethical, bias-mitigated, and secure AI deployment'',
    svc_unit = ''Service'', svc_duration = 2, svc_price = Fin 30000\<rparr>),
  (''1.3'', \<lparr>svc_name = ''Ethical AI Policy & Compliance Strategy'',
    svc_description = ''Establishes AI ethics guidelines and ensures alignment with regulatory requirements (e.g. Saudi NDMO policies)'',
    svc_unit = ''Service'', svc_duration = 3, svc_price = Fin 15000\<rparr>),
  (''1.4'', \<lparr>svc_name = ''Set up AI Office in compliance with SDAIA'',
    svc_description = ''Assess maturity of AI compliance and set up operating model for AI offices'',
    svc_unit = ''Service'', svc_duration = 2, svc_price = Fin 10000\<rparr>),
  (''2.0'', \<lparr>svc_name = ''AI Project & Portfolio Management'',
    svc_description = '''',
    svc_unit = ''Service'', svc_duration = 18, svc_price = Fin 950000\<rparr>),
  (''2.1'', \<lparr>svc_name = ''AI-Driven PMO Setup & Consultancy'',
    svc_description = ''Establishing or upgrading a Project Management Office with AI capabilities for automation and real-time project tracking. (Includes integrating AI tools into project workflows for status reporting and schedule optimization.)'',
    svc_unit = ''Service'', svc_duration = 12, svc_price = Fin 300000\<rparr>),
  (''2.2'', \<lparr>svc_name = ''AI Project Tracker & Risk Prediction Tool'',
    svc_description = ''Deployment of an 'AI Project Manager' solution that uses predictive analytics to forecast project risks and delays. (For example, AI-based dashboards that predict schedule slippages and resource needs, valued in mid-six figures based on past tech deployments.)'',
    svc_unit = ''Service'', svc_duration = 4, svc_price = Fin 350000\<rparr>),
  (''2.3'', \<lparr>svc_name = ''AI Portfolio Roadmap Development'',
    svc_description = ''Creating an AI-enhanced portfolio roadmap with project interdependencies and strategic alignment. (Often delivered as a consulting output rather than a separately priced item.)'',
    svc_unit = ''Service'', svc_duration = 10, svc_price = Fin 400000\<rparr>),
  (''3.0'', \<lparr>svc_name = ''AI Risk Management & Compliance'',
    svc_description = '''',
    svc_unit = ''Service'', svc_duration = 6, svc_price = Fin 500000\<rparr>),
  (''3.1'', \<lparr>svc_name = ''AI Maturity & Impact Assessment'',
    svc_description = ''Evaluating the organization's AI maturity level and readiness, and assessing potential impact and risks of AI use cases. (Includes workshops and an AI maturity model assessment.)'',
    svc_unit = ''Service'', svc_duration = 2, svc_price = Fin 200000\<rparr>),
  (''3.2'', \<lparr>svc_name = ''AI Risk & Compliance Framework'',
    svc_description = ''Developing tools and processes for AI risk identification, bias mitigation, and compliance monitoring (e.g. TRM - Transformation Risk Manager)'',
    svc_unit = ''Service'', svc_duration = 3, svc_price = Fin 300000\<rparr>),
  (''3.3'', \<lparr>svc_name = ''Regulatory Alignment & Audit Preparation'',
    svc_description = ''Ensuring AI initiatives comply with local and international regulations, and preparing documentation for audits or certifications (such as NDMO guidelines or OECD AI principles)'',
    svc_unit = ''Service'', svc_duration = 3, svc_price = Fin 250000\<rparr>),
  (''4.0'', \<lparr>svc_name = ''AI Enablement & Implementation'',
    svc_description = '''',
    svc_unit = ''Service'', svc_duration = 36, svc_price = Fin 3000000\<rparr>),
  (''4.1'', \<lparr>svc_name = ''AI Solution Design & MVP Development'',
    svc_description = ''End-to-end development of a proof-of-concept or MVP (Minimum Viable Product) for an AI solution tailored to the client's use case'',
    svc_unit = ''Solution'', svc_duration = 2, svc_price = Fin 725000\<rparr>),
  (''4.2'', \<lparr>svc_name = ''Advanced Analytics & BI Integration'',
    svc_description = ''Implementing AI-powered analytics, business intelligence dashboards, and real-time data processing for decision support'',
    svc_unit = ''Solution'', svc_duration = 9, svc_price = Fin 925000\<rparr>),
  (''4.3'', \<lparr>svc_name = ''Custom AI Use Case Development'',
    svc_description = ''Developing industry-specific AI use cases or models (e.g. predictive maintenance, customer service chatbots) and integrating them into business processes'',
    svc_unit = ''Document'', svc_duration = 10, svc_price = Fin 600000\<rparr>),
  (''4.4'', \<lparr>svc_name = ''User Interface & Experience Implementation'',
    svc_description = ''Building intuitive, multi-language user interfaces for AI applications, ensuring accessibility (e.g. compliance with WCAG standards).'',
    svc_unit = ''Software'', svc_duration = 8, svc_price = Fin 1000000\<rparr>),
  (''4.5'', \<lparr>svc_name = ''Integration & Deployment'',
    svc_description = ''Integration of AI solutions into the client's environment (CRM, ERP, etc.), including testing and deployment on cloud or on-prem infrastructure'',
    svc_unit = ''Software & Hardware'', svc_duration = 12, svc_price = Fin 1250000\<rparr>),
  (''4.6'', \<lparr>svc_name = ''Chatbot Development & Automation'',
    svc_description = ''Mutawazi's ChatBot capabilities are incorporated here as a key AI use-case. Developing a modular conversational AI assistant (e.g. for customer service or internal support) falls under AI Enablement'',
    svc_unit = ''Subscription'', svc_duration = 1, svc_price = Fin 10000\<rparr>),
  (''5.0'', \<lparr>svc_name = ''Training & Capacity Building'',
    svc_description = '''',
    svc_unit = ''Service'', svc_duration = 36, svc_price = Fin 400000\<rparr>),
  (''5.1'', \<lparr>svc_name = ''AI Competency Development Programs'',
    svc_description = ''A series of workshops, 'AI bootcamps,' and hands-on training sessions to build the client team's AI skills'',
    svc_unit = ''Service'', svc_duration = 36, svc_price = Fin 250000\<rparr>),
  (''5.2'', \<lparr>svc_name = ''Executive Leadership Workshops'',
    svc_description = ''High-level seminars for leadership on AI strategy, transformation, and change management'',
    svc_unit = ''Employee'', svc_duration = 6, svc_price = Fin 25000\<rparr>),
  (''5.3'', \<lparr>svc_name = ''Certification Training (ISO/IEC 42001)'',
    svc_description = ''Focused training to prepare teams for AI management system certification'',
    svc_unit = ''Employee'', svc_duration = 1, svc_price = Fin 10000\<rparr>),
  (''5.4'', \<lparr>svc_name = ''Certification Training ('' @ [CHR 0xE2, CHR 0x81, CHR 0xA0] @ ''ISO 14001)'',
    svc_description = ''Certified training'',
    svc_unit = ''Employee'', svc_duration = 1, svc_price = Fin 10000\<rparr>),
  (''5.5'', \<lparr>svc_name = ''Certification Training ('' @ [CHR 0xE2, CHR 0x81, CHR 0xA0] @ ''ISO 45001)'',
    svc_description = ''Certified training'',
    svc_unit = ''Employee'', svc_duration = 1, svc_price = Fin 10000\<rparr>),
  (''5.6'', \<lparr>svc_name = ''Certification Training ('' @ [CHR 0xE2, CHR 0x81, CHR 0xA0] @ ''ISO 9001)'',
    svc_description = ''Certified training'',
    svc_unit = ''Employee'', svc_duration = 1, svc_price = Fin 10000\<rparr>),
  (''5.7'', \<lparr>svc_name = ''Certification Training ('' @ [CHR 0xE2, CHR 0x81, CHR 0xA0] @ ''ISO 50001)'',
    svc_description = ''Certified training'',
    svc_unit = ''Employee'', svc_duration = 1, svc_price = Fin 10000\<rparr>),
  (''6.0'', \<lparr>svc_name = ''Data Management & AI Infrastructure'',
    svc_description = '''',
    svc_unit = ''Service'', svc_duration = 36, svc_price = Fin 3500000\<rparr>),
  (''6.1'', \<lparr>svc_name = ''AI/Data Architecture Design'',
    svc_description = ''Designing the overall system and data architecture for AI solutions, including databases, data pipelines, and cloud infrastructure'',
    svc_unit = ''Service'', svc_duration = 6, svc_price = Fin 700000\<rparr>),
  (''6.2'', \<lparr>svc_name = ''Data Collection & Integration'',
    svc_description = ''Setting up data integration pipelines to gather and unify data from various sources (internal systems or external APIs) for AI use'',
    svc_unit = ''Service'', svc_duration = 12, svc_price = Fin 675000\<rparr>),
  (''6.3'', \<lparr>svc_name = ''Secure Data Storage & Cybersecurity'',
    svc_description = ''Implementing secure data lakes/warehouses and applying cybersecurity best practices (encryption, access controls) to protect sensitive data.'',
    svc_unit = ''Software & Hardware'', svc_duration = 6, svc_price = Fin 800000\<rparr>),
  (''6.4'', \<lparr>svc_name = ''AI Infrastructure & Cloud Deployment'',
    svc_description = ''Provisioning cloud or on-premise environments for AI model training and deployment, ensuring scalability and compliance with data residency requirements'',
    svc_unit = ''Software & Hardware'', svc_duration = 18, svc_price = Fin 700000\<rparr>),
  (''6.5'', \<lparr>svc_name = ''Interoperability & API Integration'',
    svc_description = ''Ensuring the AI systems can interconnect with other enterprise systems and external services'',
    svc_unit = ''Service'', svc_duration = 8, svc_price = Fin 700000\<rparr>),
  (''6.6'', \<lparr>svc_name = ''Maintenance & Support Services'',
    svc_description = ''Ongoing technical support, system monitoring, and model maintenance post-implementation'',
    svc_unit = ''Service'', svc_duration = 1, svc_price = Fin 650000\<rparr>)]"

definition SERVICES_CATALOG :: catalog where
  "SERVICES_CATALOG = map_of SERVICES_CATALOG_items"

text \<open>
  A Python \<^verbatim>\<open>dict\<close> of rates, in insertion order; \<^verbatim>\<open>.values()\<close> lists the second
  components. The rates of the module are \<^verbatim>\<open>int\<close>s; the endpoint that replaces them
  stores \<^verbatim>\<open>float\<close>s.
\<close>

type_synonym rate_table = "(string \<times> pynum) list"

definition dict_values :: "rate_table \<Rightarrow> pynum list" where
  "dict_values d = map snd d"

definition DEFAULT_OVERHEAD_COSTS :: rate_table where
  "DEFAULT_OVERHEAD_COSTS =
     [(''salaries'', PyInt 50000), (''utilities'', PyInt 15000),
      (''transportation'', PyInt 10000), (''visas'', PyInt 8000),
      (''office_rent'', PyInt 20000), (''insurance'', PyInt 5000)]"

section \<open>Utility functions\<close>

text \<open>
  \<^verbatim>\<open>calculate_overhead(base_costs, overhead_costs, duration_months=1)\<close>: fifteen percent of
  the base costs plus the fixed monthly overheads over the duration. \<^verbatim>\<open>base_costs\<close> is a
  \<^verbatim>\<open>float\<close> and \<^verbatim>\<open>duration_months\<close> an \<^verbatim>\<open>int\<close>; the last addition converts the total
  overhead to a \<^verbatim>\<open>float\<close> when it is an \<^verbatim>\<open>int\<close>.
\<close>

definition calculate_overhead :: "pyfloat \<Rightarrow> rate_table \<Rightarrow> int \<Rightarrow> exc + pyfloat" where
  "calculate_overhead base_costs overhead_costs duration_months =
     (case py_sum_num (dict_values overhead_costs) of
        Inl e \<Rightarrow> Inl e
      | Inr monthly_overhead \<Rightarrow>
          (case num_mul monthly_overhead (PyInt duration_months) of
             Inl e \<Rightarrow> Inl e
           | Inr total_overhead \<Rightarrow>
               (case to_float total_overhead of
                  Inl e \<Rightarrow> Inl e
                | Inr t \<Rightarrow> Inr (fadd (fmul base_costs lit_0_15) t))))"

section \<open>Request and response shapes of the cash-flow endpoint\<close>

text \<open>
  \<^verbatim>\<open>DeliverableData\<close>: \<^verbatim>\<open>service_id\<close> and \<^verbatim>\<open>amount\<close> are optional. The field
  constraints (\<^verbatim>\<open>gt=0\<close>, \<^verbatim>\<open>ge=0\<close>) are checked by the framework before the endpoint
  runs; \<open>valid_DeliverableData\<close> states them. They admit an infinity and exclude a NaN.
\<close>

record DeliverableData =
  dd_name :: string
  dd_due_date :: string
  dd_service_id :: "string option"
  dd_amount :: "pyfloat option"
  dd_salaries :: pyfloat
  dd_tools :: pyfloat
  dd_others :: pyfloat

definition valid_DeliverableData :: "DeliverableData \<Rightarrow> bool" where
  "valid_DeliverableData d =
     ((case dd_amount d of None \<Rightarrow> True | Some a \<Rightarrow> flt (Fin 0) a)
      \<and> fle (Fin 0) (dd_salaries d) \<and> fle (Fin 0) (dd_tools d) \<and> fle (Fin 0) (dd_others d))"

record CashFlowRequest =
  req_deliverables :: "DeliverableData list"

text \<open>The dictionaries the endpoint builds: one per deliverable, and the summary.\<close>

record service_info =
  si_name :: string
  si_catalog_price :: pyfloat
  si_duration :: int
  si_unit :: string

record deliverable =
  deliverable_name :: string
  due_date :: string
  service_id :: "string option"
  cash_in :: pyfloat
  salaries :: pyfloat
  tools :: pyfloat
  others :: pyfloat
  overhead :: pyfloat
  cash_out :: pyfloat
  net_flow :: pyfloat
  cumulative_net_flow :: pyfloat
  is_profitable :: bool
  service_info :: "service_info option"

record summary =
  total_revenue :: pyfloat
  total_costs :: pyfloat
  total_profit :: pyfloat
  profit_margin :: pyfloat
  summary_is_profitable :: bool

record cashflow_response =
  resp_deliverables :: "deliverable list"
  resp_summary :: summary

section \<open>The deliverable cash-flow endpoint\<close>

text \<open>The two exceptions the loop raises, and the one the endpoint's handler raises.\<close>

definition unknown_service_error :: "string \<Rightarrow> exc" where
  "unknown_service_error sid =
     HTTPException 400 [Lit ''Service ID '', Str sid, Lit '' not found in catalog'']"

definition missing_amount_error :: exc where
  "missing_amount_error =
     HTTPException 400 [Lit ''Amount is required when service ID is not provided'']"

definition cashflow_failure :: "exc \<Rightarrow> exc" where
  "cashflow_failure e = HTTPException 500 [Lit ''Error calculating cash flow: '', Exc e]"

text \<open>
  The first part of the loop body: the catalog record and the amount of one deliverable.
  \<^verbatim>\<open>if deliv_data.service_id:\<close> is false for \<^verbatim>\<open>None\<close> and for the empty string.
\<close>

definition resolve_amount ::
  "catalog \<Rightarrow> DeliverableData \<Rightarrow> exc + (service option \<times> pyfloat)" where
  "resolve_amount cat deliv_data =
     (case (case dd_service_id deliv_data of
              None \<Rightarrow> None
            | Some sid \<Rightarrow> if sid = [] then None else Some sid) of
        Some sid \<Rightarrow>
          (case cat sid of
             None \<Rightarrow> Inl (unknown_service_error sid)
           | Some svc \<Rightarrow>
               (case dd_amount deliv_data of
                  None \<Rightarrow> Inr (Some svc, svc_price svc)
                | Some a \<Rightarrow> Inr (Some svc, a)))
      | None \<Rightarrow>
          (case dd_amount deliv_data of
             None \<Rightarrow> Inl missing_amount_error
           | Some a \<Rightarrow> Inr (None, a)))"

text \<open>
  The rest of the loop body: the dictionary of one deliverable, given the running total
  before it. The running total starts as the \<^verbatim>\<open>int\<close> \<open>0\<close>, which the first addition
  converts to \<open>0.0\<close>.
\<close>

definition make_deliverable ::
  "rate_table \<Rightarrow> pyfloat \<Rightarrow> DeliverableData \<Rightarrow> service option \<Rightarrow> pyfloat
     \<Rightarrow> exc + deliverable" where
  "make_deliverable overhead_costs cumulative deliv_data svc amount =
     (let base_costs = fadd (fadd (dd_salaries deliv_data) (dd_tools deliv_data))
                         (dd_others deliv_data);
          duration = (case svc of Some i \<Rightarrow> svc_duration i | None \<Rightarrow> 1)
      in case calculate_overhead base_costs overhead_costs duration of
           Inl e \<Rightarrow> Inl e
         | Inr ovh \<Rightarrow>
             (let cout = fadd base_costs ovh;
                  nf = fsub amount cout
              in Inr \<lparr>deliverable_name = dd_name deliv_data,
                      due_date = dd_due_date deliv_data,
                      service_id = dd_service_id deliv_data,
                      cash_in = amount,
                      salaries = dd_salaries deliv_data,
                      tools = dd_tools deliv_data,
                      others = dd_others deliv_data,
                      overhead = ovh,
                      cash_out = cout,
                      net_flow = nf,
                      cumulative_net_flow = fadd cumulative nf,
                      is_profitable = flt (Fin 0) nf,
                      service_info =
                        (case svc of
                           None \<Rightarrow> None
                         | Some i \<Rightarrow>
                             Some \<lparr>si_name = svc_name i, si_catalog_price = svc_price i,
                                   si_duration = svc_duration i, si_unit = svc_unit i\<rparr>)\<rparr>))"

text \<open>
  The \<^verbatim>\<open>for\<close> loop, with its two variables \<^verbatim>\<open>deliverables\<close> and
  \<^verbatim>\<open>cumulative_net_flow\<close>. A \<^verbatim>\<open>raise\<close> leaves the loop at once.
\<close>

fun cashflow_loop ::
  "catalog \<Rightarrow> rate_table \<Rightarrow> DeliverableData list \<Rightarrow> deliverable list \<Rightarrow> pyfloat
     \<Rightarrow> exc + (deliverable list \<times> pyfloat)" where
  "cashflow_loop cat overhead_costs [] deliverables cumulative = Inr (deliverables, cumulative)"
| "cashflow_loop cat overhead_costs (deliv_data # rest) deliverables cumulative =
     (case resolve_amount cat deliv_data of
        Inl e \<Rightarrow> Inl e
      | Inr (svc, amount) \<Rightarrow>
          (case make_deliverable overhead_costs cumulative deliv_data svc amount of
             Inl e \<Rightarrow> Inl e
           | Inr d \<Rightarrow>
               cashflow_loop cat overhead_costs rest (deliverables @ [d])
                 (cumulative_net_flow d)))"

text \<open>
  The summary computed after the loop. The division is guarded by
  \<^verbatim>\<open>total_revenue > 0\<close>; the unguarded margin is the \<^verbatim>\<open>int\<close> \<open>0\<close>.
\<close>

definition calculate_summary :: "deliverable list \<Rightarrow> exc + summary" where
  "calculate_summary deliverables =
     (let revenue = py_sum (map cash_in deliverables);
          costs = py_sum (map cash_out deliverables);
          profit = fsub revenue costs
      in case (if flt (Fin 0) revenue
               then (case py_truediv profit revenue of
                       Inl e \<Rightarrow> Inl e
                     | Inr q \<Rightarrow> Inr (fmul q (Fin 100)))
               else Inr (Fin 0)) of
           Inl e \<Rightarrow> Inl e
         | Inr margin \<Rightarrow>
             Inr \<lparr>total_revenue = revenue,
                  total_costs = costs,
                  total_profit = profit,
                  profit_margin = py_round_float margin 2,
                  summary_is_profitable = flt (Fin 0) profit\<rparr>)"

text \<open>
  The endpoint. Its whole body is inside \<^verbatim>\<open>try\<close>, and the handler
  \<^verbatim>\<open>except Exception as e\<close> also catches the \<^verbatim>\<open>HTTPException\<close>s raised in the loop:
  every failure leaves as status 500 with the caught exception formatted into the detail.
\<close>

definition calculate_deliverable_cashflow ::
  "catalog \<Rightarrow> rate_table \<Rightarrow> CashFlowRequest \<Rightarrow> exc + cashflow_response" where
  "calculate_deliverable_cashflow cat overhead_costs request =
     (case (case cashflow_loop cat overhead_costs (req_deliverables request) [] (Fin 0) of
              Inl e \<Rightarrow> Inl e
            | Inr (deliverables, cumulative) \<Rightarrow>
                (case calculate_summary deliverables of
                   Inl e \<Rightarrow> Inl e
                 | Inr s \<Rightarrow> Inr \<lparr>resp_deliverables = deliverables, resp_summary = s\<rparr>)) of
        Inl e \<Rightarrow> Inl (cashflow_failure e)
      | Inr r \<Rightarrow> Inr r)"

section \<open>Clock, quotation codes and the proposal store\<close>

text \<open>
  \<^verbatim>\<open>datetime.now()\<close> and \<^verbatim>\<open>uuid.uuid4()\<close> are inputs of the model: \<open>clock n\<close> is
  the \<open>n\<close>-th reading of the clock within one call, with the three renderings the module
  uses, and \<open>uuid\<close> is the text of the fresh UUID.
\<close>

record datetime =
  strftime_Ymd :: string
  strftime_Y_m_d :: string
  isoformat :: string

type_synonym clock = "nat \<Rightarrow> datetime"

text \<open>\<^verbatim>\<open>str.upper\<close> on ASCII letters, which is all a UUID's text has.\<close>

definition py_upper :: "char \<Rightarrow> char" where
  "py_upper c =
     (case map_of (zip ''abcdefghijklmnopqrstuvwxyz'' ''ABCDEFGHIJKLMNOPQRSTUVWXYZ'') c of
        Some u \<Rightarrow> u
      | None \<Rightarrow> c)"

definition generate_quotation_code :: "datetime \<Rightarrow> string \<Rightarrow> string" where
  "generate_quotation_code now uuid =
     ''MUT-'' @ strftime_Ymd now @ ''-'' @ map py_upper (take 8 uuid)"

record ProjectMetadata =
  project_name_en :: string
  project_name_ar :: string
  client_name_en :: string
  client_name_ar :: string
  project_type :: string
  boq_type :: string
  num_deliverables :: int
  start_date :: string
  end_date :: string
  rfp_code :: string

record processed_metadata = ProjectMetadata +
  duration_months :: int
  quotation_code :: string
  version_name :: string
  created_on :: string

record PaymentTerm =
  pt_description :: string
  pt_percentage :: pyfloat

record ProposalItem =
  pi_description :: string
  pi_quantity :: int
  pi_unit_price :: pyfloat
  pi_total_price :: pyfloat

definition valid_PaymentTerm :: "PaymentTerm \<Rightarrow> bool" where
  "valid_PaymentTerm t = (flt (Fin 0) (pt_percentage t) \<and> fle (pt_percentage t) (Fin 100))"

definition valid_ProposalItem :: "ProposalItem \<Rightarrow> bool" where
  "valid_ProposalItem i =
     (0 < pi_quantity i \<and> flt (Fin 0) (pi_unit_price i) \<and> flt (Fin 0) (pi_total_price i))"

record FinalProposalRequest =
  proposal_items :: "ProposalItem list"
  payment_terms_in :: "PaymentTerm list"

record payment_term_with_amount =
  description :: string
  percentage :: pyfloat
  amount :: pyfloat

record proposal =
  date :: string
  offer_number :: string
  items :: "ProposalItem list"
  total_amount :: pyfloat
  payment_terms :: "payment_term_with_amount list"
  currency :: string
  created_at :: string

text \<open>
  A value of \<^verbatim>\<open>proposals_storage\<close>: a dictionary that has the key \<^verbatim>\<open>'created_at'\<close>
  and may have the keys \<^verbatim>\<open>'metadata'\<close> and \<^verbatim>\<open>'proposal'\<close>.
\<close>

record stored =
  st_metadata :: "processed_metadata option"
  st_proposal :: "proposal option"
  st_created_at :: string

type_synonym storage = "string \<rightharpoonup> stored"

section \<open>The metadata endpoint\<close>

text \<open>
  \<^verbatim>\<open>datetime.strptime(s, '%Y-%m-%d')\<close> is a parameter: it gives the day number of a
  well-formed date and raises \<open>ValueError\<close> otherwise. Two midnights compare as their day
  numbers do, and \<^verbatim>\<open>(end - start).days\<close> is the difference of the day numbers, an
  \<^verbatim>\<open>int\<close> that the division by \<^verbatim>\<open>30.44\<close> converts to a \<^verbatim>\<open>float\<close>.
\<close>

type_synonym strptime = "string \<Rightarrow> exc + int"

definition calculate_duration_months :: "strptime \<Rightarrow> string \<Rightarrow> string \<Rightarrow> exc + int" where
  "calculate_duration_months strptime start_d end_d =
     (case strptime start_d of
        Inl e \<Rightarrow> Inl e
      | Inr start \<Rightarrow>
          (case strptime end_d of
             Inl e \<Rightarrow> Inl e
           | Inr end' \<Rightarrow>
               (case float_of_int (end' - start) of
                  Inl e \<Rightarrow> Inl e
                | Inr days \<Rightarrow>
                    (case py_truediv days lit_30_44 of
                       Inl e \<Rightarrow> Inl e
                     | Inr q \<Rightarrow> py_round_int q))))"

record metadata_response =
  mr_success :: bool
  mr_quotation_code :: string
  mr_metadata :: processed_metadata

definition create_project_metadata ::
  "strptime \<Rightarrow> clock \<Rightarrow> string \<Rightarrow> storage \<Rightarrow> ProjectMetadata
     \<Rightarrow> (exc + metadata_response) \<times> storage" where
  "create_project_metadata strptime clk uuid proposals_storage metadata =
     (case (case strptime (start_date metadata) of
              Inl e \<Rightarrow> Inl e
            | Inr start \<Rightarrow>
                (case strptime (end_date metadata) of
                   Inl e \<Rightarrow> Inl e
                 | Inr end' \<Rightarrow>
                     if end' \<le> start
                     then Inl (HTTPException 400 [Lit ''End date must be after start date''])
                     else (case calculate_duration_months strptime
                                  (start_date metadata) (end_date metadata) of
                             Inl e \<Rightarrow> Inl e
                           | Inr months \<Rightarrow>
                               (let code = generate_quotation_code (clk 0) uuid;
                                    processed = ProjectMetadata.extend metadata
                                      (processed_metadata.fields months code ''v1.0''
                                         (strftime_Y_m_d (clk 1)))
                                in Inr (code, processed))))) of
        Inl (ValueError m) \<Rightarrow>
          (Inl (HTTPException 400 [Lit ''Invalid date format: '', Exc (ValueError m)]),
           proposals_storage)
      | Inl e \<Rightarrow>
          (Inl (HTTPException 500 [Lit ''Error processing metadata: '', Exc e]),
           proposals_storage)
      | Inr (code, processed) \<Rightarrow>
          (Inr \<lparr>mr_success = True, mr_quotation_code = code, mr_metadata = processed\<rparr>,
           proposals_storage(code \<mapsto>
             \<lparr>st_metadata = Some processed, st_proposal = None,
              st_created_at = isoformat (clk 2)\<rparr>)))"

section \<open>The proposal endpoint\<close>

definition payment_terms_error :: "pyfloat \<Rightarrow> exc" where
  "payment_terms_error total_percentage =
     HTTPException 400
       [Lit ''Payment terms must sum to 100%. Current sum: '', Num total_percentage, Lit ''%'']"

definition proposal_failure :: "exc \<Rightarrow> exc" where
  "proposal_failure e = HTTPException 500 [Lit ''Error creating proposal: '', Exc e]"

record proposal_response =
  pr_success :: bool
  pr_quotation_code :: string
  pr_proposal :: proposal

text \<open>
  The validation of the payment terms: \<^verbatim>\<open>abs(total_percentage - 100) > 0.01\<close>, on
  floats.
\<close>

definition terms_rejected :: "pyfloat \<Rightarrow> bool" where
  "terms_rejected total_percentage = flt lit_0_01 (fabs (fsub total_percentage (Fin 100)))"

text \<open>
  As in the cash-flow endpoint, the handler \<^verbatim>\<open>except Exception\<close> catches the
  \<^verbatim>\<open>HTTPException\<close> of the validation and raises status 500 around it. The store is
  written only after the validation. The amount of a term is
  \<^verbatim>\<open>total_amount * (term.percentage / 100)\<close>: a division, then a multiplication, each
  rounded.
\<close>

definition create_financial_proposal ::
  "clock \<Rightarrow> string \<Rightarrow> storage \<Rightarrow> FinalProposalRequest
     \<Rightarrow> (exc + proposal_response) \<times> storage" where
  "create_financial_proposal clk uuid proposals_storage request =
     (let total_percentage = py_sum (map pt_percentage (payment_terms_in request))
      in if terms_rejected total_percentage
         then (Inl (proposal_failure (payment_terms_error total_percentage)), proposals_storage)
         else
           (let total = py_sum (map pi_total_price (proposal_items request));
                payment_terms_with_amounts =
                  map (\<lambda>term. \<lparr>description = pt_description term,
                                 percentage = pt_percentage term,
                                 amount = fmul total (fquot (pt_percentage term) (Fin 100))\<rparr>)
                      (payment_terms_in request);
                code = generate_quotation_code (clk 0) uuid;
                prop = \<lparr>date = strftime_Y_m_d (clk 1),
                         offer_number = code,
                         items = proposal_items request,
                         total_amount = total,
                         payment_terms = payment_terms_with_amounts,
                         currency = ''SAR'',
                         created_at = isoformat (clk 2)\<rparr>
            in (Inr \<lparr>pr_success = True, pr_quotation_code = code, pr_proposal = prop\<rparr>,
                proposals_storage(code \<mapsto>
                  \<lparr>st_metadata = None, st_proposal = Some prop,
                   st_created_at = isoformat (clk 3)\<rparr>))))"

section \<open>Reading and deleting stored proposals\<close>

definition not_found :: exc where
  "not_found = HTTPException 404 [Lit ''Proposal not found'']"

definition NL :: fragment where
  "NL = Lit [CHR 0x0A]"

text \<open>The lines of one item and of one payment term, numbered from 1.\<close>

definition item_lines :: "nat \<times> ProposalItem \<Rightarrow> fragment list" where
  "item_lines p =
     (case p of (i, item) \<Rightarrow>
        [Whole (int i), Lit ''. '', Str (pi_description item), NL,
         Lit ''   Quantity: '', Whole (pi_quantity item), Lit '' | Unit Price: '',
         Money (pi_unit_price item), Lit '' SAR'', NL,
         Lit ''   Total: '', Money (pi_total_price item), Lit '' SAR'', NL, NL])"

definition term_line :: "nat \<times> payment_term_with_amount \<Rightarrow> fragment list" where
  "term_line p =
     (case p of (i, term) \<Rightarrow>
        [Whole (int i), Lit ''. '', Str (description term), Lit '': '', Num (percentage term),
         Lit ''% = '', Money (amount term), Lit '' SAR'', NL])"

definition format_summary :: "processed_metadata \<Rightarrow> proposal \<Rightarrow> fragment list" where
  "format_summary metadata prop =
     [NL, Lit ''=== MUTAWAZI FINANCIAL PROPOSAL ==='', NL, NL,
      Lit ''Project: '', Str (project_name_en metadata), Lit '' / '',
      Str (project_name_ar metadata), NL,
      Lit ''Client: '', Str (client_name_en metadata), Lit '' / '',
      Str (client_name_ar metadata), NL,
      Lit ''RFP Code: '', Str (rfp_code metadata), NL,
      Lit ''Offer Number: '', Str (offer_number prop), NL,
      Lit ''Date: '', Str (date prop), NL,
      Lit ''Duration: '', Whole (duration_months metadata), Lit '' months'', NL, NL,
      Lit ''PROJECT ITEMS:'', NL]
     @ concat (map item_lines (zip [1..<Suc (length (items prop))] (items prop)))
     @ [NL, Lit ''TOTAL PROJECT VALUE: '', Money (total_amount prop), Lit '' SAR'', NL, NL,
        Lit ''PAYMENT TERMS:'', NL]
     @ concat (map term_line
         (zip [1..<Suc (length (payment_terms prop))] (payment_terms prop)))"

definition get_proposal_summary :: "storage \<Rightarrow> string \<Rightarrow> exc + fragment list" where
  "get_proposal_summary proposals_storage code =
     (case proposals_storage code of
        None \<Rightarrow> Inl not_found
      | Some data \<Rightarrow>
          (case (st_metadata data, st_proposal data) of
             (Some metadata, Some prop) \<Rightarrow> Inr (format_summary metadata prop)
           | _ \<Rightarrow> Inr [Lit ''Incomplete proposal data'']))"

definition get_proposal :: "storage \<Rightarrow> string \<Rightarrow> exc + stored" where
  "get_proposal proposals_storage code =
     (case proposals_storage code of
        None \<Rightarrow> Inl not_found
      | Some data \<Rightarrow> Inr data)"

definition delete_proposal :: "storage \<Rightarrow> string \<Rightarrow> (exc + bool) \<times> storage" where
  "delete_proposal proposals_storage code =
     (case proposals_storage code of
        None \<Rightarrow> (Inl not_found, proposals_storage)
      | Some data \<Rightarrow> (Inr True, proposals_storage(code := None)))"

text \<open>
  The states of \<^verbatim>\<open>proposals_storage\<close> that the process can reach: it starts empty, and
  the three endpoints above that write it are the only ones that do.
\<close>

inductive reachable :: "storage \<Rightarrow> bool" where
  initial: "reachable Map.empty"
| metadata: "reachable s \<Longrightarrow> create_project_metadata strptime clk uuid s m = (res, s')
               \<Longrightarrow> reachable s'"
| proposal: "reachable s \<Longrightarrow> create_financial_proposal clk uuid s request = (res, s')
               \<Longrightarrow> reachable s'"
| delete: "reachable s \<Longrightarrow> delete_proposal s code = (res, s') \<Longrightarrow> reachable s'"

section \<open>Price justification\<close>

text \<open>
  The text-generation service is a parameter. Given the API key and what the prompt is
  built from (the catalog record and the proposed price), configuring the client and
  calling it either raises or returns a response, which may be \<^verbatim>\<open>None\<close>; reading
  \<^verbatim>\<open>response.text\<close> either raises or gives a string, a list of code points.
\<close>

type_synonym unicode = "nat list"

datatype response_text = TextRaises exc | Text unicode

datatype provider_outcome = Raises exc | Returns "response_text option"

type_synonym provider = "string \<Rightarrow> service \<Rightarrow> pyfloat \<Rightarrow> provider_outcome"

text \<open>
  \<^verbatim>\<open>str.strip()\<close>: leading and trailing whitespace removed. The whitespace of a Python
  string is the code points for which \<^verbatim>\<open>str.isspace\<close> holds: those of ASCII, and
  U+0085, U+00A0, U+1680, U+2000 to U+200A, U+2028, U+2029, U+202F, U+205F and U+3000.
\<close>

definition py_isspace :: "nat \<Rightarrow> bool" where
  "py_isspace c =
     (c \<in> {0x09, 0x0A, 0x0B, 0x0C, 0x0D, 0x1C, 0x1D, 0x1E, 0x1F, 0x20, 0x85, 0xA0, 0x1680,
            0x2000, 0x2001, 0x2002, 0x2003, 0x2004, 0x2005, 0x2006, 0x2007, 0x2008, 0x2009,
            0x200A, 0x2028, 0x2029, 0x202F, 0x205F, 0x3000})"

definition py_strip :: "unicode \<Rightarrow> unicode" where
  "py_strip s = rev (dropWhile py_isspace (rev (dropWhile py_isspace s)))"

text \<open>A string literal of the module, all ASCII, as code points.\<close>

definition literal :: "string \<Rightarrow> unicode" where
  "literal s = map of_char s"

definition fallback_not_found :: unicode where
  "fallback_not_found = literal ''Service not found in catalog''"

definition fallback_no_key :: unicode where
  "fallback_no_key = literal ''Please configure GEMINI_API_KEY in your environment variables. Contact your system administrator to set up AI price analysis.''"

definition fallback_empty :: unicode where
  "fallback_empty = literal ''AI analysis indicates this pricing is competitive for the Saudi market and reflects our premium service quality and expertise.''"

definition fallback_error :: unicode where
  "fallback_error = literal ''Our pricing analysis shows this service is competitively priced for the Saudi AI consulting market. The price reflects Mutawazi's expertise, proven methodologies, and comprehensive service delivery approach that ensures successful project outcomes.''"

text \<open>The body of the \<^verbatim>\<open>try\<close> block, then the function with its handler.\<close>

definition justification_body ::
  "catalog \<Rightarrow> string option \<Rightarrow> provider \<Rightarrow> string \<Rightarrow> pyfloat \<Rightarrow> exc + unicode" where
  "justification_body cat gemini_api_key generate sid proposed_price =
     (case cat sid of
        None \<Rightarrow> Inr fallback_not_found
      | Some svc \<Rightarrow>
          (case (case gemini_api_key of
                   None \<Rightarrow> None
                 | Some k \<Rightarrow> if k = [] then None else Some k) of
             None \<Rightarrow> Inr fallback_no_key
           | Some k \<Rightarrow>
               (case generate k svc proposed_price of
                  Raises e \<Rightarrow> Inl e
                | Returns None \<Rightarrow> Inr fallback_empty
                | Returns (Some (TextRaises e)) \<Rightarrow> Inl e
                | Returns (Some (Text t)) \<Rightarrow>
                    if t \<noteq> [] then Inr (py_strip t) else Inr fallback_empty)))"

definition generate_price_justification ::
  "catalog \<Rightarrow> string option \<Rightarrow> provider \<Rightarrow> string \<Rightarrow> pyfloat \<Rightarrow> exc + unicode" where
  "generate_price_justification cat gemini_api_key generate sid proposed_price =
     (case justification_body cat gemini_api_key generate sid proposed_price of
        Inl e \<Rightarrow> Inr fallback_error
      | Inr s \<Rightarrow> Inr s)"

record PriceJustificationRequest =
  pj_service_id :: string
  pj_proposed_price :: pyfloat

record justification_response =
  jr_service_id :: string
  jr_proposed_price :: pyfloat
  jr_justification :: unicode

text \<open>The endpoint has a handler of its own around the call.\<close>

definition generate_price_justification_endpoint ::
  "catalog \<Rightarrow> string option \<Rightarrow> provider \<Rightarrow> PriceJustificationRequest
     \<Rightarrow> exc + justification_response" where
  "generate_price_justification_endpoint cat gemini_api_key generate request =
     (case generate_price_justification cat gemini_api_key generate
             (pj_service_id request) (pj_proposed_price request) of
        Inl e \<Rightarrow>
          Inl (HTTPException 500 [Lit ''Error generating price justification: '', Exc e])
      | Inr justification \<Rightarrow>
          Inr \<lparr>jr_service_id = pj_service_id request,
               jr_proposed_price = pj_proposed_price request,
               jr_justification = justification\<rparr>)"

section \<open>Example inputs\<close>

text \<open>
  Concrete requests and the values the endpoints compute on them. A double that is not a
  short decimal is written as the fraction it is; \<open>fl (10001 / 10)\<close> is the double that
  the literal \<^verbatim>\<open>1000.10\<close> denotes.
\<close>

definition example_D1 :: "string \<Rightarrow> DeliverableData" where
  "example_D1 due = \<lparr>dd_name = ''D1'', dd_due_date = due, dd_service_id = Some ''1.2'',
     dd_amount = None, dd_salaries = Fin 1000, dd_tools = Fin 200, dd_others = Fin 50\<rparr>"

definition example_override :: DeliverableData where
  "example_override = \<lparr>dd_name = ''D2'', dd_due_date = ''2025-06-30'', dd_service_id = Some ''1.2'',
     dd_amount = Some (Fin 250000), dd_salaries = Fin 1000, dd_tools = Fin 200,
     dd_others = Fin 50\<rparr>"

definition example_unknown :: DeliverableData where
  "example_unknown = \<lparr>dd_name = ''D3'', dd_due_date = ''2025-06-30'', dd_service_id = Some ''9.9'',
     dd_amount = Some (Fin 100), dd_salaries = Fin 0, dd_tools = Fin 0, dd_others = Fin 0\<rparr>"

definition example_missing :: DeliverableData where
  "example_missing = \<lparr>dd_name = ''D4'', dd_due_date = ''2025-06-30'', dd_service_id = None,
     dd_amount = None, dd_salaries = Fin 0, dd_tools = Fin 0, dd_others = Fin 0\<rparr>"

definition example_svc :: service where
  "example_svc = \<lparr>svc_name = ''AI Trustworthiness & Risk Assessment'',
    svc_description = ''Incorporates AI risk management models to ensure ethical, bias-mitigated, and secure AI deployment'',
    svc_unit = ''Service'', svc_duration = 2, svc_price = Fin 30000\<rparr>"

text \<open>
  The results for \<open>[example_override, example_D1]\<close>: the margin is the double nearest to
  \<open>-55.31\<close>.
\<close>

definition example_result_D2 :: deliverable where
  "example_result_D2 =
     \<lparr>deliverable_name = ''D2'', due_date = ''2025-06-30'', service_id = Some ''1.2'',
      cash_in = Fin 250000, salaries = Fin 1000, tools = Fin 200, others = Fin 50,
      overhead = Fin (432375 / 2), cash_out = Fin (434875 / 2),
      net_flow = Fin (65125 / 2), cumulative_net_flow = Fin (65125 / 2),
      is_profitable = True,
      service_info = Some \<lparr>si_name = ''AI Trustworthiness & Risk Assessment'',
        si_catalog_price = Fin 30000, si_duration = 2, si_unit = ''Service''\<rparr>\<rparr>"

definition example_result_D1 :: deliverable where
  "example_result_D1 =
     \<lparr>deliverable_name = ''D1'', due_date = ''2025-03-31'', service_id = Some ''1.2'',
      cash_in = Fin 30000, salaries = Fin 1000, tools = Fin 200, others = Fin 50,
      overhead = Fin (432375 / 2), cash_out = Fin (434875 / 2),
      net_flow = Fin (- (374875 / 2)), cumulative_net_flow = Fin (- 154875),
      is_profitable = False,
      service_info = Some \<lparr>si_name = ''AI Trustworthiness & Risk Assessment'',
        si_catalog_price = Fin 30000, si_duration = 2, si_unit = ''Service''\<rparr>\<rparr>"

definition example_summary :: summary where
  "example_summary =
     \<lparr>total_revenue = Fin 280000, total_costs = Fin 434875, total_profit = Fin (- 154875),
      profit_margin = Fin (- (973023810116649 / 17592186044416)), summary_is_profitable = False\<rparr>"

text \<open>
  Two deliverables charged 1000.10 and 2000.20, without costs of their own: the net flows
  are the doubles nearest to \<open>-106999.9\<close> and \<open>-105999.8\<close>, the last running total the
  double nearest to \<open>-212999.7\<close>.
\<close>

definition example_result_cents_1 :: deliverable where
  "example_result_cents_1 =
     \<lparr>deliverable_name = ''Phase 1'', due_date = ''2025-03-31'', service_id = None,
      cash_in = Fin (8796972631510221 / 8796093022208), salaries = Fin 0, tools = Fin 0, others = Fin 0,
      overhead = Fin 108000, cash_out = Fin 108000,
      net_flow = Fin (- (3676488569402163 / 34359738368)), cumulative_net_flow = Fin (- (3676488569402163 / 34359738368)),
      is_profitable = False,
      service_info = None\<rparr>"

definition example_result_cents_2 :: deliverable where
  "example_result_cents_2 =
     \<lparr>deliverable_name = ''Phase 2'', due_date = ''2025-06-30'', service_id = None,
      cash_in = Fin (8796972631510221 / 4398046511104), salaries = Fin 0, tools = Fin 0, others = Fin 0,
      overhead = Fin 108000, cash_out = Fin 108000,
      net_flow = Fin (- (7284250790120653 / 68719476736)), cumulative_net_flow = Fin (- (3659306982231245 / 17179869184)),
      is_profitable = False,
      service_info = None\<rparr>"

definition example_summary_cents :: summary where
  "example_summary_cents =
     \<lparr>total_revenue = Fin (3298864736816333 / 1099511627776), total_costs = Fin 216000, total_profit = Fin (- (3659306982231245 / 17179869184)),
      profit_margin = Fin (- (7805740908837601 / 1099511627776)), summary_is_profitable = False\<rparr>"

text \<open>
  One deliverable charged 148000 with salaries of 31340: the profit is 3959, and the margin
  is the double nearest to \<open>2.67\<close>.
\<close>

definition example_result_margin :: deliverable where
  "example_result_margin =
     \<lparr>deliverable_name = ''Audit'', due_date = ''2025-03-31'', service_id = None,
      cash_in = Fin 148000, salaries = Fin 31340, tools = Fin 0, others = Fin 0,
      overhead = Fin 112701, cash_out = Fin 144041,
      net_flow = Fin 3959, cumulative_net_flow = Fin 3959,
      is_profitable = True,
      service_info = None\<rparr>"

definition example_summary_margin :: summary where
  "example_summary_margin =
     \<lparr>total_revenue = Fin 148000, total_costs = Fin 144041, total_profit = Fin 3959,
      profit_margin = Fin (1503076375634903 / 562949953421312), summary_is_profitable = True\<rparr>"

definition example_cents_1 :: DeliverableData where
  "example_cents_1 = \<lparr>dd_name = ''Phase 1'', dd_due_date = ''2025-03-31'', dd_service_id = None,
     dd_amount = Some (fl (10001 / 10)), dd_salaries = Fin 0, dd_tools = Fin 0,
     dd_others = Fin 0\<rparr>"

definition example_cents_2 :: DeliverableData where
  "example_cents_2 = \<lparr>dd_name = ''Phase 2'', dd_due_date = ''2025-06-30'', dd_service_id = None,
     dd_amount = Some (fl (20002 / 10)), dd_salaries = Fin 0, dd_tools = Fin 0,
     dd_others = Fin 0\<rparr>"

definition example_margin :: DeliverableData where
  "example_margin = \<lparr>dd_name = ''Audit'', dd_due_date = ''2025-03-31'', dd_service_id = None,
     dd_amount = Some (Fin 148000), dd_salaries = Fin 31340, dd_tools = Fin 0,
     dd_others = Fin 0\<rparr>"

definition example_items :: "ProposalItem list" where
  "example_items =
     [\<lparr>pi_description = ''Assessment'', pi_quantity = 1, pi_unit_price = Fin 200000,
       pi_total_price = Fin 200000\<rparr>,
      \<lparr>pi_description = ''Workshops'', pi_quantity = 3, pi_unit_price = Fin 100000,
       pi_total_price = Fin 300000\<rparr>]"

definition example_terms :: "pyfloat list \<Rightarrow> PaymentTerm list" where
  "example_terms ps = map (\<lambda>p. \<lparr>pt_description = ''Instalment'', pt_percentage = p\<rparr>) ps"

definition example_rounding_request :: FinalProposalRequest where
  "example_rounding_request =
     \<lparr>proposal_items =
        [\<lparr>pi_description = ''Workshop'', pi_quantity = 1, pi_unit_price = Fin 3,
          pi_total_price = Fin 3\<rparr>],
      payment_terms_in = example_terms [Fin 20, Fin 80]\<rparr>"

text \<open>
  The amounts of 20 and 80 percent of 3: the doubles \<^verbatim>\<open>0.6000000000000001\<close> and
  \<^verbatim>\<open>2.4000000000000004\<close>.
\<close>

definition example_rounding_proposal :: proposal where
  "example_rounding_proposal =
     \<lparr>date = ''2025-03-01'',
      offer_number = ''MUT-20250301-0F8FAD5B'',
      items = proposal_items example_rounding_request,
      total_amount = Fin 3,
      payment_terms =
        [\<lparr>description = ''Instalment'', percentage = Fin 20,
          amount = Fin (1351079888211149 / 2251799813685248)\<rparr>,
         \<lparr>description = ''Instalment'', percentage = Fin 80,
          amount = Fin (1351079888211149 / 562949953421312)\<rparr>],
      currency = ''SAR'',
      created_at = ''2025-03-01T09:00:00.000000''\<rparr>"

definition example_clock :: clock where
  "example_clock n = \<lparr>strftime_Ymd = ''20250301'', strftime_Y_m_d = ''2025-03-01'',
     isoformat = ''2025-03-01T09:00:00.000000''\<rparr>"

definition example_uuid_1 :: string where
  "example_uuid_1 = ''0f8fad5b-d9cb-469f-a165-70867728950e''"

definition example_uuid_2 :: string where
  "example_uuid_2 = ''7c9e6679-7425-40de-944b-e07fc1f90ae7''"

definition example_request :: FinalProposalRequest where
  "example_request =
     \<lparr>proposal_items = example_items, payment_terms_in = example_terms [Fin 40, Fin 60]\<rparr>"

definition example_strptime :: strptime where
  "example_strptime s =
     (if s = ''2025-01-01'' then Inr 739252
      else if s = ''2025-12-31'' then Inr 739616
      else Inl (ValueError s))"

definition example_metadata :: ProjectMetadata where
  "example_metadata =
     \<lparr>project_name_en = ''AI Office'', project_name_ar = ''AI Office (ar)'',
      client_name_en = ''Ministry'', client_name_ar = ''Ministry (ar)'',
      project_type = ''fixed'', boq_type = ''deliverable-based'', num_deliverables = 2,
      start_date = ''2025-01-01'', end_date = ''2025-12-31'', rfp_code = ''RFP-17''\<rparr>"

definition example_store_1 :: storage where
  "example_store_1 =
     snd (create_project_metadata example_strptime example_clock example_uuid_1 Map.empty
            example_metadata)"

definition example_store_2 :: storage where
  "example_store_2 =
     snd (create_financial_proposal example_clock example_uuid_2 example_store_1 example_request)"

definition example_provider :: "provider_outcome \<Rightarrow> provider" where
  "example_provider out k svc price = out"

text \<open>
  A text with a no-break space in front and an em space behind, as the text-generation
  service may return it.
\<close>

definition example_text :: unicode where
  "example_text = 0xA0 # literal ''Priced fairly.'' @ [0x2003]"

section \<open>An invariant of the cash-flow loop\<close>

text \<open>
  What holds of the two loop variables before every iteration: the running total is the
  left-to-right sum of the net flows emitted so far, and each emitted dictionary carries
  the sum up to itself.
\<close>

definition running_inv :: "deliverable list \<Rightarrow> pyfloat \<Rightarrow> bool" where
  "running_inv acc c = (c = py_sum (map net_flow acc) \<and>
     (\<forall>i<length acc. cumulative_net_flow (acc ! i) = py_sum (map net_flow (take (Suc i) acc))))"

text \<open>The rewrite rules that evaluate single operations on concrete doubles.\<close>

named_theorems fl_eval

section \<open>Properties of the arithmetic\<close>

subsection \<open>Rounding\<close>

lemma round_half_even_error: "\<bar>of_int (round_half_even y) - y\<bar> \<le> 1 / 2"
proof -
  have "of_int \<lfloor>y\<rfloor> \<le> y" "y < of_int \<lfloor>y\<rfloor> + 1" by linarith+
  then show ?thesis
    by (auto simp: round_half_even_def Let_def)
qed

lemma round_half_even_of_int: "round_half_even (of_int n) = n"
  by (simp add: round_half_even_def)

lemma round_half_even_nonneg: "0 \<le> y \<Longrightarrow> 0 \<le> round_half_even y"
  by (auto simp: round_half_even_def Let_def)

lemma rd_0: "rd 0 = 0"
  by (simp add: rd_def)

lemma rd_normal:
  assumes "x \<noteq> 0" and "2 powr of_int k \<le> \<bar>x\<bar>" and "\<bar>x\<bar> < 2 powr (of_int k + 1)"
    and "- 1022 \<le> k"
  shows "rd x = of_int (round_half_even (x / 2 powr (of_int k - 52))) * 2 powr (of_int k - 52)"
proof -
  have "\<lfloor>log 2 \<bar>x\<bar>\<rfloor> = k"
    using assms by (simp add: floor_log_eq_powr_iff)
  with assms(1,4) show ?thesis by (simp add: rd_def Let_def max_def)
qed

lemma rd_subnormal:
  assumes "x \<noteq> 0" and "\<bar>x\<bar> < 2 powr (- 1022)"
  shows "rd x = of_int (round_half_even (x / 2 powr (- 1074))) * 2 powr (- 1074)"
proof -
  have "log 2 \<bar>x\<bar> < - 1022"
    using assms by (simp add: log_less_iff)
  then have "\<lfloor>log 2 \<bar>x\<bar>\<rfloor> \<le> - 1022"
    by linarith
  then have "max \<lfloor>log 2 \<bar>x\<bar>\<rfloor> (- 1022) = - 1022" by simp
  with assms(1) show ?thesis by (simp add: rd_def Let_def)
qed

lemma rd_nonneg: "0 \<le> x \<Longrightarrow> 0 \<le> rd x"
  by (auto simp: rd_def Let_def intro!: mult_nonneg_nonneg round_half_even_nonneg)

lemma rd_error: "\<bar>rd x - x\<bar> \<le> \<bar>x\<bar> / 2 ^ 53 + 1 / 2 ^ 1075"
proof (cases "x = 0")
  case True
  then show ?thesis by (simp add: rd_def)
next
  case False
  define e where "e = max \<lfloor>log 2 \<bar>x\<bar>\<rfloor> (- 1022)"
  define ulp :: real where "ulp = 2 powr (of_int e - 52)"
  define r :: real where "r = of_int (round_half_even (x / ulp))"
  have ulp_pos: "0 < ulp" by (simp add: ulp_def)
  have b: "rd x = r * ulp"
    using False by (simp add: rd_def Let_def e_def ulp_def r_def)
  have "r * ulp - x = (r - x / ulp) * ulp"
    using ulp_pos by (simp add: field_simps)
  then have "\<bar>rd x - x\<bar> = \<bar>r - x / ulp\<bar> * ulp"
    using ulp_pos by (simp add: b abs_mult)
  also have "\<dots> \<le> (1 / 2) * ulp"
    using round_half_even_error[of "x / ulp"] ulp_pos
    unfolding r_def by (intro mult_right_mono) auto
  also have "(1 / 2) * ulp = 2 powr of_int e / 2 ^ 53"
    by (simp add: ulp_def powr_diff)
  also have "\<dots> \<le> \<bar>x\<bar> / 2 ^ 53 + 1 / 2 ^ 1075"
  proof (cases "- 1022 \<le> \<lfloor>log 2 \<bar>x\<bar>\<rfloor>")
    case True
    then have "e = \<lfloor>log 2 \<bar>x\<bar>\<rfloor>" by (simp add: e_def)
    then have "2 powr of_int e \<le> \<bar>x\<bar>"
      using False floor_log_eq_powr_iff[of "\<bar>x\<bar>" 2 e] by simp
    then have "2 powr of_int e / 2 ^ 53 \<le> \<bar>x\<bar> / 2 ^ 53"
      by (simp add: divide_right_mono)
    then show ?thesis by simp
  next
    case False
    then have "e = - 1022" by (simp add: e_def)
    then have "2 powr of_int e / 2 ^ 53 = (1 / 2 ^ 1075 :: real)"
      by (simp add: powr_minus divide_simps)
    then show ?thesis by simp
  qed
  finally show ?thesis .
qed

lemma powr_neg_int: "0 \<le> j \<Longrightarrow> (2::real) powr (- of_int j) = 1 / 2 ^ nat j"
proof -
  assume "0 \<le> j"
  then have "(2::real) powr (of_int j) = 2 ^ nat j"
    by (metis of_int_of_nat_eq powr_realpow zero_less_numeral int_nat_eq of_int_of_nat_eq)
  then show ?thesis by (simp add: powr_minus divide_simps)
qed

lemma rd_of_int:
  assumes "\<bar>n\<bar> \<le> 2 ^ 53"
  shows "rd (of_int n) = of_int n"
proof (cases "n = 0")
  case True
  then show ?thesis by (simp add: rd_def)
next
  case False
  define x :: real where "x = of_int n"
  define e where "e = \<lfloor>log 2 \<bar>x\<bar>\<rfloor>"
  have x1: "1 \<le> \<bar>x\<bar>" using False by (simp add: x_def)
  have x2: "\<bar>x\<bar> \<le> 2 ^ 53"
  proof -
    have "real_of_int \<bar>n\<bar> \<le> real_of_int (2 ^ 53)" using assms by (simp only: of_int_le_iff)
    then show ?thesis by (simp add: x_def)
  qed
  have xn: "x \<noteq> 0" using x1 by auto
  have e0: "0 \<le> e"
    using x1 by (simp add: e_def)
  have "log 2 \<bar>x\<bar> \<le> 53"
    using x1 x2 by (simp add: log_le_iff)
  then have e53: "e \<le> 53" by (simp add: e_def floor_le_iff)
  have lo: "2 powr of_int e \<le> \<bar>x\<bar>"
    using xn floor_log_eq_powr_iff[of "\<bar>x\<bar>" 2 e] by (simp add: e_def)
  have m: "max e (- 1022) = e" using e0 by simp
  have r: "rd x = of_int (round_half_even (x / 2 powr (of_int e - 52))) * 2 powr (of_int e - 52)"
    using xn by (simp add: rd_def Let_def e_def[symmetric] m)
  show ?thesis
  proof (cases "e \<le> 52")
    case True
    define j where "j = 52 - e"
    have j: "0 \<le> j" using True by (simp add: j_def)
    have u: "(2::real) powr (of_int e - 52) = 1 / 2 ^ nat j"
      using powr_neg_int[OF j] by (simp add: j_def)
    have "x / (1 / 2 ^ nat j) = of_int (n * 2 ^ nat j)"
      by (simp add: x_def)
    then have "round_half_even (x / 2 powr (of_int e - 52)) = n * 2 ^ nat j"
      by (simp only: u round_half_even_of_int)
    then have "rd x = of_int (n * 2 ^ nat j) * (1 / 2 ^ nat j)"
      by (simp only: r u)
    then show ?thesis by (simp add: x_def)
  next
    case False
    with e53 have e: "e = 53" by simp
    from lo e have "2 ^ 53 \<le> \<bar>x\<bar>" by simp
    with x2 have ax: "\<bar>x\<bar> = 2 ^ 53" by simp
    then have "x = 2 ^ 53 \<or> x = - (2 ^ 53)" by linarith
    then show ?thesis
    proof
      assume a: "x = 2 ^ 53"
      have "rd x = x"
        using r by (simp add: e a round_half_even_def)
      then show ?thesis by (simp add: x_def)
    next
      assume a: "x = - (2 ^ 53)"
      have "rd x = x"
        using r by (simp add: e a round_half_even_def)
      then show ?thesis by (simp add: x_def)
    qed
  qed
qed

lemma rd_numeral: "numeral w \<le> (2 ^ 53 :: int) \<Longrightarrow> rd (numeral w) = numeral w"
  using rd_of_int[of "numeral w"] by simp

lemma rd_neg_numeral: "numeral w \<le> (2 ^ 53 :: int) \<Longrightarrow> rd (- numeral w) = - numeral w"
  using rd_of_int[of "- numeral w"] by simp

lemma rd_1: "rd 1 = 1"
  using rd_of_int[of 1] by simp

subsection \<open>Results of single operations\<close>

lemma fl_0 [simp]: "fl 0 = Fin 0"
  by (simp add: fl_def rd_def max_double_def)

lemma fl_of_int:
  assumes "\<bar>n\<bar> \<le> 2 ^ 53"
  shows "fl (of_int n) = Fin (of_int n)"
proof -
  have "real_of_int \<bar>n\<bar> \<le> real_of_int (2 ^ 53)"
    using assms by (simp only: of_int_le_iff)
  then have "\<bar>real_of_int n\<bar> \<le> 2 ^ 53" by simp
  moreover have "(2::real) ^ 53 \<le> max_double" by (simp add: max_double_def)
  ultimately have "\<bar>real_of_int n\<bar> \<le> max_double" by linarith
  then show ?thesis by (auto simp: fl_def Let_def rd_of_int[OF assms] abs_le_iff)
qed

lemma fl_1 [simp]: "fl 1 = Fin 1"
  using fl_of_int[of 1] by simp

lemma fl_numeral [simp]: "numeral w \<le> (2 ^ 53 :: int) \<Longrightarrow> fl (numeral w) = Fin (numeral w)"
  using fl_of_int[of "numeral w"] by simp

lemma fl_neg_numeral [simp]:
  "numeral w \<le> (2 ^ 53 :: int) \<Longrightarrow> fl (- numeral w) = Fin (- numeral w)"
  using fl_of_int[of "- numeral w"] by simp

lemma fl_cases: "fl x = Fin (rd x) \<or> fl x = PInf \<or> fl x = NInf"
  by (simp add: fl_def Let_def)

lemma fl_nonneg: "0 \<le> x \<Longrightarrow> fle (Fin 0) (fl x)"
  using rd_nonneg[of x] by (simp add: fl_def Let_def max_double_def)

lemma fl_Fin:
  assumes "\<bar>x\<bar> \<le> 2 ^ 1023"
  shows "fl x = Fin (rd x)"
proof -
  have "\<bar>rd x\<bar> \<le> \<bar>x\<bar> + \<bar>x\<bar> / 2 ^ 53 + 1 / 2 ^ 1075"
    using rd_error[of x] by linarith
  also have "\<dots> \<le> 2 ^ 1023 + 2 ^ 1023 / 2 ^ 53 + 1 / 2 ^ 1075"
    using assms by (intro add_mono divide_right_mono) auto
  also have "\<dots> \<le> max_double" by (simp add: max_double_def)
  finally show ?thesis by (auto simp: fl_def Let_def abs_le_iff)
qed

subsection \<open>Signs\<close>

lemma flt_imp_fle: "flt x y \<Longrightarrow> fle x y"
  by (cases x; cases y) auto

lemma fadd_nonneg: "fle (Fin 0) x \<Longrightarrow> fle (Fin 0) y \<Longrightarrow> fle (Fin 0) (fadd x y)"
  by (cases x; cases y) (auto simp: fl_nonneg)

lemma fmul_nonneg_pos: "fle (Fin 0) x \<Longrightarrow> 0 < c \<Longrightarrow> fle (Fin 0) (fmul x (Fin c))"
  by (cases x) (auto simp: fl_nonneg signed_inf_def)

lemma foldl_fadd_nonneg:
  "fle (Fin 0) a \<Longrightarrow> \<forall>x\<in>set xs. fle (Fin 0) x \<Longrightarrow> fle (Fin 0) (foldl fadd a xs)"
  by (induction xs arbitrary: a) (auto simp: fadd_nonneg)

lemma py_sum_nonneg: "\<forall>x\<in>set xs. fle (Fin 0) x \<Longrightarrow> fle (Fin 0) (py_sum xs)"
  by (simp add: py_sum_def foldl_fadd_nonneg)

lemma py_sum_Nil [simp]: "py_sum [] = Fin 0"
  by (simp add: py_sum_def)

lemma py_sum_snoc: "py_sum (xs @ [x]) = fadd (py_sum xs) x"
  by (simp add: py_sum_def)

lemma fl_fact_1 [fl_eval]: "fl (3 / 20) = Fin (5404319552844595 / 36028797018963968)"
  using rd_normal[of "3 / 20" "- 3"]
  by (simp add: fl_def max_double_def powr_minus round_half_even_def)

lemma fl_fact_2 [fl_eval]: "fl (1 / 100) = Fin (5764607523034235 / 576460752303423488)"
  using rd_normal[of "1 / 100" "- 7"]
  by (simp add: fl_def max_double_def powr_minus round_half_even_def)

lemma fl_fact_3 [fl_eval]: "fl (761 / 25) = Fin (8568098291072369 / 281474976710656)"
  using rd_normal[of "761 / 25" "4"]
  by (simp add: fl_def max_double_def powr_minus round_half_even_def)

lemma fl_fact_4 [fl_eval]: "fl (3377699720527871875 / 18014398509481984) = Fin (375 / 2)"
  using rd_normal[of "3377699720527871875 / 18014398509481984" "7"]
  by (simp add: fl_def max_double_def powr_minus round_half_even_def)

lemma fl_fact_5 [fl_eval]: "fl (432375 / 2) = Fin (432375 / 2)"
  using rd_normal[of "432375 / 2" "17"]
  by (simp add: fl_def max_double_def powr_minus round_half_even_def)

lemma fl_fact_6 [fl_eval]: "fl (434875 / 2) = Fin (434875 / 2)"
  using rd_normal[of "434875 / 2" "17"]
  by (simp add: fl_def max_double_def powr_minus round_half_even_def)

lemma fl_fact_7 [fl_eval]: "fl (65125 / 2) = Fin (65125 / 2)"
  using rd_normal[of "65125 / 2" "14"]
  by (simp add: fl_def max_double_def powr_minus round_half_even_def)

lemma fl_fact_8 [fl_eval]: "fl (- (374875 / 2)) = Fin (- (374875 / 2))"
  using rd_normal[of "- (374875 / 2)" "17"]
  by (simp add: fl_def max_double_def powr_minus round_half_even_def)

lemma fl_fact_9 [fl_eval]: "fl (- (177 / 320)) = Fin (- (4982107087778611 / 9007199254740992))"
  using rd_normal[of "- (177 / 320)" "- 1"]
  by (simp add: fl_def max_double_def powr_minus round_half_even_def)

lemma fl_fact_10 [fl_eval]: "fl (- (124552677194465275 / 2251799813685248)) = Fin (- (885 / 16))"
  using rd_normal[of "- (124552677194465275 / 2251799813685248)" "5"]
  by (simp add: fl_def max_double_def powr_minus round_half_even_def)

lemma fl_fact_11 [fl_eval]: "fl (- (5531 / 100)) = Fin (- (973023810116649 / 17592186044416))"
  using rd_normal[of "- (5531 / 100)" "5"]
  by (simp add: fl_def max_double_def powr_minus round_half_even_def)

lemma fl_fact_12 [fl_eval]: "fl (- (2999 / 480)) = Fin (- (3517264396480239 / 562949953421312))"
  using rd_normal[of "- (2999 / 480)" "2"]
  by (simp add: fl_def max_double_def powr_minus round_half_even_def)

lemma fl_fact_13 [fl_eval]: "fl (- (87931609912005975 / 140737488355328)) = Fin (- (5495725619500373 / 8796093022208))"
  using rd_normal[of "- (87931609912005975 / 140737488355328)" "9"]
  by (simp add: fl_def max_double_def powr_minus round_half_even_def)

lemma fl_fact_14 [fl_eval]: "fl (- (62479 / 100)) = Fin (- (686963869918167 / 1099511627776))"
  using rd_normal[of "- (62479 / 100)" "9"]
  by (simp add: fl_def max_double_def powr_minus round_half_even_def)

lemma fl_fact_15 [fl_eval]: "fl (2361195851513779156855 / 36028797018963968) = Fin (4503623679187353 / 68719476736)"
  using rd_normal[of "2361195851513779156855 / 36028797018963968" "16"]
  by (simp add: fl_def max_double_def powr_minus round_half_even_def)

lemma fl_fact_16 [fl_eval]: "fl (11925327166675353 / 68719476736) = Fin (1490665895834419 / 8589934592)"
  using rd_normal[of "11925327166675353 / 68719476736" "17"]
  by (simp add: fl_def max_double_def powr_minus round_half_even_def)

lemma fl_fact_17 [fl_eval]: "fl (10001 / 10) = Fin (8796972631510221 / 8796093022208)"
  using rd_normal[of "10001 / 10" "9"]
  by (simp add: fl_def max_double_def powr_minus round_half_even_def)

lemma fl_fact_18 [fl_eval]: "fl (10001 / 5) = Fin (8796972631510221 / 4398046511104)"
  using rd_normal[of "10001 / 5" "10"]
  by (simp add: fl_def max_double_def powr_minus round_half_even_def)

lemma fl_fact_19 [fl_eval]: "fl (- (941181073766953779 / 8796093022208)) = Fin (- (3676488569402163 / 34359738368))"
  using rd_normal[of "- (941181073766953779 / 8796093022208)" "16"]
  by (simp add: fl_def max_double_def powr_minus round_half_even_def)

lemma fl_fact_20 [fl_eval]: "fl (- (3676488569402163 / 34359738368)) = Fin (- (3676488569402163 / 34359738368))"
  using rd_normal[of "- (3676488569402163 / 34359738368)" "16"]
  by (simp add: fl_def max_double_def powr_minus round_half_even_def)

lemma fl_fact_21 [fl_eval]: "fl (- (466192050567721779 / 4398046511104)) = Fin (- (7284250790120653 / 68719476736))"
  using rd_normal[of "- (466192050567721779 / 4398046511104)" "16"]
  by (simp add: fl_def max_double_def powr_minus round_half_even_def)

lemma fl_fact_22 [fl_eval]: "fl (- (14637227928924979 / 68719476736)) = Fin (- (3659306982231245 / 17179869184))"
  using rd_normal[of "- (14637227928924979 / 68719476736)" "17"]
  by (simp add: fl_def max_double_def powr_minus round_half_even_def)

lemma fl_fact_23 [fl_eval]: "fl (8796972631510221 / 8796093022208) = Fin (8796972631510221 / 8796093022208)"
  using rd_normal[of "8796972631510221 / 8796093022208" "9"]
  by (simp add: fl_def max_double_def powr_minus round_half_even_def)

lemma fl_fact_24 [fl_eval]: "fl (26390917894530663 / 8796093022208) = Fin (3298864736816333 / 1099511627776)"
  using rd_normal[of "26390917894530663 / 8796093022208" "11"]
  by (simp add: fl_def max_double_def powr_minus round_half_even_def)

lemma fl_fact_25 [fl_eval]: "fl (- (234195646862799667 / 1099511627776)) = Fin (- (3659306982231245 / 17179869184))"
  using rd_normal[of "- (234195646862799667 / 1099511627776)" "17"]
  by (simp add: fl_def max_double_def powr_minus round_half_even_def)

lemma fl_fact_26 [fl_eval]: "fl (- (234195646862799680 / 3298864736816333)) = Fin (- (4995674232316495 / 70368744177664))"
  using rd_normal[of "- (234195646862799680 / 3298864736816333)" "6"]
  by (simp add: fl_def max_double_def powr_minus round_half_even_def)

lemma fl_fact_27 [fl_eval]: "fl (- (124891855807912375 / 17592186044416)) = Fin (- (7805740987994523 / 1099511627776))"
  using rd_normal[of "- (124891855807912375 / 17592186044416)" "12"]
  by (simp add: fl_def max_double_def powr_minus round_half_even_def)

lemma fl_fact_28 [fl_eval]: "fl (- (177482 / 25)) = Fin (- (7805740908837601 / 1099511627776))"
  using rd_normal[of "- (177482 / 25)" "12"]
  by (simp add: fl_def max_double_def powr_minus round_half_even_def)

lemma fl_fact_29 [fl_eval]: "fl (42342843696537401825 / 9007199254740992) = Fin 4701"
  using rd_normal[of "42342843696537401825 / 9007199254740992" "12"]
  by (simp add: fl_def max_double_def powr_minus round_half_even_def)

lemma fl_fact_30 [fl_eval]: "fl (107 / 4000) = Fin (7710162562058289 / 288230376151711744)"
  using rd_normal[of "107 / 4000" "- 6"]
  by (simp add: fl_def max_double_def powr_minus round_half_even_def)

lemma fl_fact_31 [fl_eval]: "fl (192754064051457225 / 72057594037927936) = Fin (3011782250804019 / 1125899906842624)"
  using rd_normal[of "192754064051457225 / 72057594037927936" "1"]
  by (simp add: fl_def max_double_def powr_minus round_half_even_def)

lemma fl_fact_32 [fl_eval]: "fl (267 / 100) = Fin (1503076375634903 / 562949953421312)"
  using rd_normal[of "267 / 100" "1"]
  by (simp add: fl_def max_double_def powr_minus round_half_even_def)

lemma fl_fact_33 [fl_eval]: "fl (67 / 25) = Fin (6034823500676465 / 2251799813685248)"
  using rd_normal[of "67 / 25" "1"]
  by (simp add: fl_def max_double_def powr_minus round_half_even_def)

lemma fl_fact_34 [fl_eval]: "fl (1001 / 100) = Fin (5635129033747333 / 562949953421312)"
  using rd_normal[of "1001 / 100" "3"]
  by (simp add: fl_def max_double_def powr_minus round_half_even_def)

lemma fl_fact_35 [fl_eval]: "fl (5635129033747333 / 562949953421312) = Fin (5635129033747333 / 562949953421312)"
  using rd_normal[of "5635129033747333 / 562949953421312" "3"]
  by (simp add: fl_def max_double_def powr_minus round_half_even_def)

lemma fl_fact_36 [fl_eval]: "fl (56300624841665413 / 562949953421312) = Fin (7037578105208177 / 70368744177664)"
  using rd_normal[of "56300624841665413 / 562949953421312" "6"]
  by (simp add: fl_def max_double_def powr_minus round_half_even_def)

lemma fl_fact_37 [fl_eval]: "fl (703687441777 / 70368744177664) = Fin (703687441777 / 70368744177664)"
  using rd_normal[of "703687441777 / 70368744177664" "- 7"]
  by (simp add: fl_def max_double_def powr_minus round_half_even_def)

lemma fl_fact_38 [fl_eval]: "fl (999 / 100) = Fin (5623870034678907 / 562949953421312)"
  using rd_normal[of "999 / 100" "3"]
  by (simp add: fl_def max_double_def powr_minus round_half_even_def)

lemma fl_fact_39 [fl_eval]: "fl (5623870034678907 / 562949953421312) = Fin (5623870034678907 / 562949953421312)"
  using rd_normal[of "5623870034678907 / 562949953421312" "3"]
  by (simp add: fl_def max_double_def powr_minus round_half_even_def)

lemma fl_fact_40 [fl_eval]: "fl (56289365842596987 / 562949953421312) = Fin (7036170730324623 / 70368744177664)"
  using rd_normal[of "56289365842596987 / 562949953421312" "6"]
  by (simp add: fl_def max_double_def powr_minus round_half_even_def)

lemma fl_fact_41 [fl_eval]: "fl (- (703687441777 / 70368744177664)) = Fin (- (703687441777 / 70368744177664))"
  using rd_normal[of "- (703687441777 / 70368744177664)" "- 7"]
  by (simp add: fl_def max_double_def powr_minus round_half_even_def)

lemma fl_fact_42 [fl_eval]: "fl (1 / 5) = Fin (3602879701896397 / 18014398509481984)"
  using rd_normal[of "1 / 5" "- 3"]
  by (simp add: fl_def max_double_def powr_minus round_half_even_def)

lemma fl_fact_43 [fl_eval]: "fl (10808639105689191 / 18014398509481984) = Fin (1351079888211149 / 2251799813685248)"
  using rd_normal[of "10808639105689191 / 18014398509481984" "- 1"]
  by (simp add: fl_def max_double_def powr_minus round_half_even_def)

lemma fl_fact_44 [fl_eval]: "fl (4 / 5) = Fin (3602879701896397 / 4503599627370496)"
  using rd_normal[of "4 / 5" "- 1"]
  by (simp add: fl_def max_double_def powr_minus round_half_even_def)

lemma fl_fact_45 [fl_eval]: "fl (10808639105689191 / 4503599627370496) = Fin (1351079888211149 / 562949953421312)"
  using rd_normal[of "10808639105689191 / 4503599627370496" "1"]
  by (simp add: fl_def max_double_def powr_minus round_half_even_def)

lemma fl_fact_46 [fl_eval]: "fl (2 / 5) = Fin (3602879701896397 / 9007199254740992)"
  using rd_normal[of "2 / 5" "- 2"]
  by (simp add: fl_def max_double_def powr_minus round_half_even_def)

lemma fl_fact_47 [fl_eval]: "fl (56294995342131203125 / 281474976710656) = Fin 200000"
  using rd_normal[of "56294995342131203125 / 281474976710656" "17"]
  by (simp add: fl_def max_double_def powr_minus round_half_even_def)

lemma fl_fact_48 [fl_eval]: "fl (3 / 5) = Fin (5404319552844595 / 9007199254740992)"
  using rd_normal[of "3 / 5" "- 1"]
  by (simp add: fl_def max_double_def powr_minus round_half_even_def)

lemma fl_fact_49 [fl_eval]: "fl (84442493013196796875 / 281474976710656) = Fin 300000"
  using rd_normal[of "84442493013196796875 / 281474976710656" "18"]
  by (simp add: fl_def max_double_def powr_minus round_half_even_def)

lemma fl_fact_50 [fl_eval]: "fl (3 / 10) = Fin (5404319552844595 / 18014398509481984)"
  using rd_normal[of "3 / 10" "- 2"]
  by (simp add: fl_def max_double_def powr_minus round_half_even_def)

lemma fl_fact_51 [fl_eval]: "fl (84442493013196796875 / 562949953421312) = Fin 150000"
  using rd_normal[of "84442493013196796875 / 562949953421312" "17"]
  by (simp add: fl_def max_double_def powr_minus round_half_even_def)

lemma fl_fact_52 [fl_eval]: "fl (14636698788954112 / 1224014041581767) = Fin (6731727432501891 / 562949953421312)"
  using rd_normal[of "14636698788954112 / 1224014041581767" "3"]
  by (simp add: fl_def max_double_def powr_minus round_half_even_def)

lemma fl_fact_53 [fl_eval]: "fl (- (1069999 / 10)) = Fin (- (3676488569402163 / 34359738368))"
  using rd_normal[of "- (1069999 / 10)" "16"]
  by (simp add: fl_def max_double_def powr_minus round_half_even_def)

lemma fl_fact_54 [fl_eval]: "fl (- (529999 / 5)) = Fin (- (7284250790120653 / 68719476736))"
  using rd_normal[of "- (529999 / 5)" "16"]
  by (simp add: fl_def max_double_def powr_minus round_half_even_def)

lemma fl_fact_55 [fl_eval]: "fl (- (2129997 / 10)) = Fin (- (3659306982231245 / 17179869184))"
  using rd_normal[of "- (2129997 / 10)" "17"]
  by (simp add: fl_def max_double_def powr_minus round_half_even_def)

lemma fl_fact_56 [fl_eval]: "fl (3470727 / 20) = Fin (5962663583337677 / 34359738368)"
  using rd_normal[of "3470727 / 20" "17"]
  by (simp add: fl_def max_double_def powr_minus round_half_even_def)

lemma fl_fact_57 [fl_eval]: "fl (10001 / 100) = Fin (7037578105208177 / 70368744177664)"
  using rd_normal[of "10001 / 100" "6"]
  by (simp add: fl_def max_double_def powr_minus round_half_even_def)

lemma fl_fact_58 [fl_eval]: "fl (1351079888211149 / 2251799813685248) = Fin (1351079888211149 / 2251799813685248)"
  using rd_normal[of "1351079888211149 / 2251799813685248" "- 1"]
  by (simp add: fl_def max_double_def powr_minus round_half_even_def)

lemma fl_fact_59 [fl_eval]: "fl (6755399441055745 / 2251799813685248) = Fin (6755399441055745 / 2251799813685248)"
  using rd_normal[of "6755399441055745 / 2251799813685248" "1"]
  by (simp add: fl_def max_double_def powr_minus round_half_even_def)

lemma fl_overflow [fl_eval]:
  "fl 19415085856513011803476496060521467123074151372576910985530448765035128986994104018332515550820013890280972299026110482627149295031956995229227522509063205432798932489885472409840639716934578164900932958825180623034520273692985991199182615938409341613641855153935320209914302561355809360922218483599416206819328000 = PInf"
  using rd_normal[of "19415085856513011803476496060521467123074151372576910985530448765035128986994104018332515550820013890280972299026110482627149295031956995229227522509063205432798932489885472409840639716934578164900932958825180623034520273692985991199182615938409341613641855153935320209914302561355809360922218483599416206819328000" "1040"]
  by (simp add: fl_def max_double_def round_half_even_def)

section \<open>Facts about the pre-loaded data\<close>

lemma catalog_1_2:
  "SERVICES_CATALOG ''1.2'' = Some \<lparr>svc_name = ''AI Trustworthiness & Risk Assessment'',
    svc_description = ''Incorporates AI risk management models to ensure ethical, bias-mitigated, and secure AI deployment'',
    svc_unit = ''Service'', svc_duration = 2, svc_price = Fin 30000\<rparr>"
  by (simp add: SERVICES_CATALOG_def SERVICES_CATALOG_items_def)

lemma catalog_example_svc: "SERVICES_CATALOG ''1.2'' = Some example_svc"
  by (simp add: catalog_1_2 example_svc_def)

lemma catalog_9_9: "SERVICES_CATALOG ''9.9'' = None"
  by (simp add: SERVICES_CATALOG_def SERVICES_CATALOG_items_def)

lemma catalog_prices_pos: "\<forall>s\<in>ran SERVICES_CATALOG. flt (Fin 0) (svc_price s)"
proof
  fix s assume "s \<in> ran SERVICES_CATALOG"
  then obtain k where "map_of SERVICES_CATALOG_items k = Some s"
    by (auto simp: ran_def SERVICES_CATALOG_def)
  then have "(k, s) \<in> set SERVICES_CATALOG_items" by (rule map_of_SomeD)
  moreover have "\<forall>(k, s)\<in>set SERVICES_CATALOG_items. flt (Fin 0) (svc_price s)"
    by (simp add: SERVICES_CATALOG_items_def)
  ultimately show "flt (Fin 0) (svc_price s)" by blast
qed

section \<open>Sums of rates and the overhead calculator\<close>

lemma float_of_int_Inl: "float_of_int i = Inl e \<Longrightarrow> e = OverflowError"
  by (auto simp: float_of_int_def split: pyfloat.splits)

lemma float_of_int_small: "\<bar>i\<bar> \<le> 2 ^ 53 \<Longrightarrow> float_of_int i = Inr (Fin (of_int i))"
  by (simp add: float_of_int_def fl_of_int)

lemma to_float_Inl: "to_float a = Inl e \<Longrightarrow> e = OverflowError"
  by (cases a) (auto dest: float_of_int_Inl)

lemma float_op_Inl: "float_op f a b = Inl e \<Longrightarrow> e = OverflowError"
  by (auto simp: float_op_def split: sum.splits dest: to_float_Inl)

lemma num_add_Inl: "num_add a b = Inl e \<Longrightarrow> e = OverflowError"
  by (cases a; cases b) (auto dest: float_op_Inl)

lemma num_mul_Inl: "num_mul a b = Inl e \<Longrightarrow> e = OverflowError"
  by (cases a; cases b) (auto dest: float_op_Inl)

lemma sum_from_Inl: "sum_from a xs = Inl e \<Longrightarrow> e = OverflowError"
  by (induction xs arbitrary: a) (auto split: sum.splits dest: num_add_Inl)

lemma calculate_overhead_Inl: "calculate_overhead b rates d = Inl e \<Longrightarrow> e = OverflowError"
  by (auto simp: calculate_overhead_def py_sum_num_def split: sum.splits
      dest: sum_from_Inl num_mul_Inl to_float_Inl)

lemma sum_from_ints: "sum_from (PyInt a) (map PyInt ns) = Inr (PyInt (a + sum_list ns))"
  by (induction ns arbitrary: a) (simp_all add: add.assoc)

lemma py_sum_num_ints: "py_sum_num (map PyInt ns) = Inr (PyInt (sum_list ns))"
  by (simp add: py_sum_num_def sum_from_ints)

lemma sum_from_floats: "sum_from (PyFloat a) (map PyFloat xs) = Inr (PyFloat (foldl fadd a xs))"
  by (induction xs arbitrary: a) (simp_all add: float_op_def)

lemma py_sum_num_floats:
  "xs \<noteq> [] \<Longrightarrow> py_sum_num (map PyFloat xs) = Inr (PyFloat (py_sum xs))"
  by (cases xs) (simp_all add: py_sum_num_def py_sum_def float_op_def float_of_int_def
      sum_from_floats)

lemma default_overhead_sum: "py_sum_num (dict_values DEFAULT_OVERHEAD_COSTS) = Inr (PyInt 108000)"
  by (simp add: DEFAULT_OVERHEAD_COSTS_def dict_values_def py_sum_num_def)

lemma calculate_overhead_ints:
  assumes "py_sum_num (dict_values rates) = Inr (PyInt m)"
  shows "calculate_overhead b rates d =
           (case float_of_int (m * d) of Inl e \<Rightarrow> Inl e
            | Inr t \<Rightarrow> Inr (fadd (fmul b lit_0_15) t))"
  by (simp add: calculate_overhead_def assms)

lemma calculate_overhead_floats:
  assumes "py_sum_num (dict_values rates) = Inr (PyFloat m)"
  shows "calculate_overhead b rates d =
           (case float_of_int d of Inl e \<Rightarrow> Inl e
            | Inr t \<Rightarrow> Inr (fadd (fmul b lit_0_15) (fmul m t)))"
  by (simp add: calculate_overhead_def assms float_op_def split: sum.splits)

section \<open>The cash-flow loop\<close>

lemma make_deliverable_Inr:
  assumes "make_deliverable oh c dd svc a = Inr d"
  shows "cumulative_net_flow d = fadd c (net_flow d)"
    and "cash_in d = a"
    and "deliverable_name d = dd_name dd"
  using assms by (auto simp: make_deliverable_def Let_def split: sum.splits)

lemma make_deliverable_Inl: "make_deliverable oh c dd svc a = Inl e \<Longrightarrow> e = OverflowError"
  by (auto simp: make_deliverable_def Let_def split: sum.splits dest: calculate_overhead_Inl)

lemma running_inv_snoc:
  assumes "running_inv acc c" and "cumulative_net_flow d = fadd c (net_flow d)"
  shows "running_inv (acc @ [d]) (cumulative_net_flow d)"
  using assms unfolding running_inv_def
  by (auto simp: nth_append less_Suc_eq py_sum_snoc)

lemma cashflow_loop_running:
  "cashflow_loop cat oh ds acc c = Inr (out, c') \<Longrightarrow> running_inv acc c \<Longrightarrow> running_inv out c'"
proof (induction ds arbitrary: acc c)
  case Nil
  then show ?case by simp
next
  case (Cons dd ds)
  from Cons.prems(1) obtain svc a d where
    m: "make_deliverable oh c dd svc a = Inr d" and
    l: "cashflow_loop cat oh ds (acc @ [d]) (cumulative_net_flow d) = Inr (out, c')"
    by (auto split: sum.splits)
  from running_inv_snoc[OF Cons.prems(2) make_deliverable_Inr(1)[OF m]]
  show ?case by (rule Cons.IH[OF l])
qed

lemma cashflow_loop_names:
  "cashflow_loop cat oh ds acc c = Inr (out, c') \<Longrightarrow>
     map deliverable_name out = map deliverable_name acc @ map dd_name ds"
proof (induction ds arbitrary: acc c)
  case Nil
  then show ?case by simp
next
  case (Cons dd ds)
  from Cons.prems obtain svc a d where
    m: "make_deliverable oh c dd svc a = Inr d" and
    l: "cashflow_loop cat oh ds (acc @ [d]) (cumulative_net_flow d) = Inr (out, c')"
    by (auto split: sum.splits)
  from Cons.IH[OF l] make_deliverable_Inr(3)[OF m] show ?case by simp
qed

lemma cashflow_loop_shape:
  "cashflow_loop cat oh ds acc c = Inr (out, c') \<Longrightarrow>
     length out = length acc + length ds \<and> take (length acc) out = acc \<and>
     (\<forall>i<length ds. \<exists>svc a cum. resolve_amount cat (ds ! i) = Inr (svc, a) \<and>
         make_deliverable oh cum (ds ! i) svc a = Inr (out ! (length acc + i)))"
proof (induction ds arbitrary: acc c)
  case Nil
  then show ?case by simp
next
  case (Cons dd ds)
  from Cons.prems obtain svc a d where
    r: "resolve_amount cat dd = Inr (svc, a)" and
    m: "make_deliverable oh c dd svc a = Inr d" and
    l: "cashflow_loop cat oh ds (acc @ [d]) (cumulative_net_flow d) = Inr (out, c')"
    by (auto split: sum.splits)
  from Cons.IH[OF l] have
    len: "length out = Suc (length acc) + length ds" and
    tk: "take (Suc (length acc)) out = acc @ [d]" and
    nth: "\<forall>i<length ds. \<exists>svc a cum. resolve_amount cat (ds ! i) = Inr (svc, a) \<and>
         make_deliverable oh cum (ds ! i) svc a = Inr (out ! (Suc (length acc) + i))"
    by simp_all
  have t: "take (length acc) out = acc"
  proof -
    have "take (length acc) (take (Suc (length acc)) out) = take (length acc) (acc @ [d])"
      by (simp only: tk)
    then show ?thesis by (simp add: min_def)
  qed
  have h: "out ! length acc = d"
  proof -
    have "take (Suc (length acc)) out ! length acc = (acc @ [d]) ! length acc"
      by (simp only: tk)
    then show ?thesis by simp
  qed
  have "\<exists>svc a cum. resolve_amount cat ((dd # ds) ! i) = Inr (svc, a) \<and>
         make_deliverable oh cum ((dd # ds) ! i) svc a = Inr (out ! (length acc + i))"
    if "i < length (dd # ds)" for i
  proof (cases i)
    case 0
    with r m h show ?thesis by auto
  next
    case (Suc j)
    with that nth show ?thesis by auto
  qed
  with len t show ?case by simp
qed

lemma resolve_amount_Inr_amount:
  assumes "resolve_amount cat d = Inr (svc, a)"
  shows "dd_amount d = Some a \<or> (dd_amount d = None \<and> (\<exists>sid s. dd_service_id d = Some sid \<and> sid \<noteq> [] \<and> cat sid = Some s \<and> svc = Some s \<and> a = svc_price s))"
  using assms by (auto simp: resolve_amount_def split: option.splits if_splits) metis

lemma resolve_amount_nonneg:
  assumes "resolve_amount cat d = Inr (svc, a)" "valid_DeliverableData d"
    "\<forall>s\<in>ran cat. fle (Fin 0) (svc_price s)"
  shows "fle (Fin 0) a"
  using resolve_amount_Inr_amount[OF assms(1)] assms(2,3)
  by (auto simp: valid_DeliverableData_def ran_def flt_imp_fle)

lemma resolve_amount_Inl:
  assumes "resolve_amount cat d = Inl e"
  shows "(e = missing_amount_error \<and> dd_amount d = None \<and> (dd_service_id d = None \<or> dd_service_id d = Some []))
       \<or> (\<exists>sid. dd_service_id d = Some sid \<and> sid \<noteq> [] \<and> cat sid = None \<and> e = unknown_service_error sid)"
  using assms by (auto simp: resolve_amount_def split: option.splits if_splits)

lemma cashflow_loop_Inl:
  "cashflow_loop cat oh ds acc c = Inl e \<Longrightarrow>
     e = OverflowError \<or> (\<exists>d\<in>set ds. resolve_amount cat d = Inl e)"
proof (induction ds arbitrary: acc c)
  case Nil
  then show ?case by simp
next
  case (Cons dd ds)
  then show ?case by (fastforce split: sum.splits dest: make_deliverable_Inl)
qed

lemma cashflow_loop_cash_in_nonneg:
  assumes "cashflow_loop cat oh ds [] c = Inr (out, c')"
    and "\<forall>d\<in>set ds. valid_DeliverableData d" and "\<forall>s\<in>ran cat. fle (Fin 0) (svc_price s)"
  shows "\<forall>x\<in>set out. fle (Fin 0) (cash_in x)"
proof
  fix x assume "x \<in> set out"
  then obtain i where i: "i < length out" "x = out ! i" by (auto simp: in_set_conv_nth)
  from cashflow_loop_shape[OF assms(1)] i obtain svc a cum where
    "i < length ds" "resolve_amount cat (ds ! i) = Inr (svc, a)"
    "make_deliverable oh cum (ds ! i) svc a = Inr x"
    by auto
  with assms(2,3) show "fle (Fin 0) (cash_in x)"
    by (auto simp: make_deliverable_Inr(2) intro: resolve_amount_nonneg)
qed

lemma flt_zero_neq: "flt (Fin 0) x \<Longrightarrow> x \<noteq> Fin 0"
  by (cases x) auto

lemma fle_zero_neq: "fle (Fin 0) x \<Longrightarrow> x \<noteq> Fin 0 \<Longrightarrow> flt (Fin 0) x"
  by (cases x) auto

lemma calculate_summary_total:
  "calculate_summary ds =
     Inr \<lparr>total_revenue = py_sum (map cash_in ds),
          total_costs = py_sum (map cash_out ds),
          total_profit = fsub (py_sum (map cash_in ds)) (py_sum (map cash_out ds)),
          profit_margin =
            (if flt (Fin 0) (py_sum (map cash_in ds))
             then py_round_float
                    (fmul (fquot (fsub (py_sum (map cash_in ds)) (py_sum (map cash_out ds)))
                                 (py_sum (map cash_in ds))) (Fin 100)) 2
             else Fin 0),
          summary_is_profitable =
            flt (Fin 0) (fsub (py_sum (map cash_in ds)) (py_sum (map cash_out ds)))\<rparr>"
  by (simp add: calculate_summary_def py_truediv_def Let_def flt_zero_neq py_round_float_def
      py_round_def round_half_even_def)

lemma cashflow_Inr:
  "calculate_deliverable_cashflow cat oh request = Inr r \<Longrightarrow>
    \<exists>c. cashflow_loop cat oh (req_deliverables request) [] (Fin 0) = Inr (resp_deliverables r, c)
       \<and> calculate_summary (resp_deliverables r) = Inr (resp_summary r)"
  by (auto simp: calculate_deliverable_cashflow_def split: sum.splits)

lemma cashflow_Inl:
  "calculate_deliverable_cashflow cat oh request = Inl e \<Longrightarrow>
    \<exists>e'. e = cashflow_failure e'
       \<and> cashflow_loop cat oh (req_deliverables request) [] (Fin 0) = Inl e'"
  by (auto simp: calculate_deliverable_cashflow_def calculate_summary_total split: sum.splits)

lemma exc_distinct:
  "missing_amount_error \<noteq> ZeroDivisionError" "unknown_service_error sid \<noteq> ZeroDivisionError"
  by (simp_all add: missing_amount_error_def unknown_service_error_def)

lemma cashflow_failure_inj: "cashflow_failure e = cashflow_failure e' \<longleftrightarrow> e = e'"
  by (simp add: cashflow_failure_def)

subsection \<open>The endpoint on the example requests\<close>

lemma lit_0_15_value [fl_eval]: "lit_0_15 = Fin (5404319552844595 / 36028797018963968)"
  by (simp add: lit_0_15_def fl_eval)

lemma default_overhead_months [fl_eval]:
  "\<bar>d\<bar> \<le> 10 ^ 10 \<Longrightarrow>
     calculate_overhead b DEFAULT_OVERHEAD_COSTS d = Inr (fadd (fmul b lit_0_15) (Fin (of_int (108000 * d))))"
proof -
  assume "\<bar>d\<bar> \<le> 10 ^ 10"
  then have "\<bar>108000 * d\<bar> \<le> 2 ^ 53" by (simp add: abs_mult)
  then show ?thesis
    by (simp add: calculate_overhead_ints[OF default_overhead_sum] float_of_int_small)
qed

lemma example_two_result:
  "calculate_deliverable_cashflow SERVICES_CATALOG DEFAULT_OVERHEAD_COSTS
     \<lparr>req_deliverables = [example_override, example_D1 ''2025-03-31'']\<rparr> =
   Inr \<lparr>resp_deliverables = [example_result_D2, example_result_D1],
        resp_summary = example_summary\<rparr>"
proof -
  have d1: "make_deliverable DEFAULT_OVERHEAD_COSTS (Fin 0) example_override (Some example_svc)
      (Fin 250000) = Inr example_result_D2"
    by (simp add: make_deliverable_def fsub_def example_override_def example_svc_def
        example_result_D2_def Let_def fl_eval)
  have d2: "make_deliverable DEFAULT_OVERHEAD_COSTS (cumulative_net_flow example_result_D2)
      (example_D1 ''2025-03-31'') (Some example_svc) (Fin 30000) = Inr example_result_D1"
    by (simp add: make_deliverable_def fsub_def example_D1_def example_svc_def
        example_result_D2_def example_result_D1_def Let_def fl_eval)
  have r1: "resolve_amount SERVICES_CATALOG example_override = Inr (Some example_svc, Fin 250000)"
    by (simp add: resolve_amount_def example_override_def catalog_example_svc)
  have r2: "resolve_amount SERVICES_CATALOG (example_D1 ''2025-03-31'')
      = Inr (Some example_svc, Fin 30000)"
    by (simp add: resolve_amount_def example_D1_def catalog_example_svc example_svc_def)
  have l: "cashflow_loop SERVICES_CATALOG DEFAULT_OVERHEAD_COSTS
      [example_override, example_D1 ''2025-03-31''] [] (Fin 0) =
     Inr ([example_result_D2, example_result_D1], cumulative_net_flow example_result_D1)"
    by (simp add: r1 r2 d1 d2)
  have s: "calculate_summary [example_result_D2, example_result_D1] = Inr example_summary"
    by (simp add: calculate_summary_total py_sum_def fsub_def example_result_D2_def
        example_result_D1_def example_summary_def py_round_float_def py_round_def
        round_half_even_def fl_eval)
  show ?thesis
    by (simp add: calculate_deliverable_cashflow_def l s del: cashflow_loop.simps)
qed

lemma example_cents_result:
  "calculate_deliverable_cashflow SERVICES_CATALOG DEFAULT_OVERHEAD_COSTS
     \<lparr>req_deliverables = [example_cents_1, example_cents_2]\<rparr> =
   Inr \<lparr>resp_deliverables = [example_result_cents_1, example_result_cents_2],
        resp_summary = example_summary_cents\<rparr>"
proof -
  have r1: "resolve_amount SERVICES_CATALOG example_cents_1
      = Inr (None, Fin (8796972631510221 / 8796093022208))"
    by (simp add: resolve_amount_def example_cents_1_def fl_eval)
  have r2: "resolve_amount SERVICES_CATALOG example_cents_2
      = Inr (None, Fin (8796972631510221 / 4398046511104))"
    by (simp add: resolve_amount_def example_cents_2_def fl_eval)
  have d1: "make_deliverable DEFAULT_OVERHEAD_COSTS (Fin 0) example_cents_1 None
      (Fin (8796972631510221 / 8796093022208)) = Inr example_result_cents_1"
    by (simp add: make_deliverable_def fsub_def example_cents_1_def
        example_result_cents_1_def Let_def fl_eval)
  have d2: "make_deliverable DEFAULT_OVERHEAD_COSTS (cumulative_net_flow example_result_cents_1)
      example_cents_2 None (Fin (8796972631510221 / 4398046511104)) = Inr example_result_cents_2"
    by (simp add: make_deliverable_def fsub_def example_cents_2_def
        example_result_cents_1_def example_result_cents_2_def Let_def fl_eval)
  have l: "cashflow_loop SERVICES_CATALOG DEFAULT_OVERHEAD_COSTS
      [example_cents_1, example_cents_2] [] (Fin 0) =
     Inr ([example_result_cents_1, example_result_cents_2],
          cumulative_net_flow example_result_cents_2)"
    by (simp add: r1 r2 d1 d2)
  have s: "calculate_summary [example_result_cents_1, example_result_cents_2]
      = Inr example_summary_cents"
    by (simp add: calculate_summary_total py_sum_def fsub_def example_result_cents_1_def
        example_result_cents_2_def example_summary_cents_def py_round_float_def py_round_def
        round_half_even_def fl_eval)
  show ?thesis
    by (simp add: calculate_deliverable_cashflow_def l s del: cashflow_loop.simps)
qed

lemma example_margin_result:
  "calculate_deliverable_cashflow SERVICES_CATALOG DEFAULT_OVERHEAD_COSTS
     \<lparr>req_deliverables = [example_margin]\<rparr> =
   Inr \<lparr>resp_deliverables = [example_result_margin], resp_summary = example_summary_margin\<rparr>"
proof -
  have r1: "resolve_amount SERVICES_CATALOG example_margin = Inr (None, Fin 148000)"
    by (simp add: resolve_amount_def example_margin_def)
  have d1: "make_deliverable DEFAULT_OVERHEAD_COSTS (Fin 0) example_margin None (Fin 148000)
      = Inr example_result_margin"
    by (simp add: make_deliverable_def fsub_def example_margin_def example_result_margin_def
        Let_def fl_eval)
  have l: "cashflow_loop SERVICES_CATALOG DEFAULT_OVERHEAD_COSTS [example_margin] [] (Fin 0) =
     Inr ([example_result_margin], cumulative_net_flow example_result_margin)"
    by (simp add: r1 d1)
  have s: "calculate_summary [example_result_margin] = Inr example_summary_margin"
    by (simp add: calculate_summary_total py_sum_def fsub_def example_result_margin_def
        example_summary_margin_def py_round_float_def py_round_def round_half_even_def fl_eval)
  show ?thesis
    by (simp add: calculate_deliverable_cashflow_def l s del: cashflow_loop.simps)
qed

section \<open>The overhead calculator\<close>

lemma rd_pos: "1 \<le> x \<Longrightarrow> 0 < rd x"
  using rd_error[of x] by (simp add: abs_le_iff)

lemma float_of_int_nonneg:
  "0 \<le> i \<Longrightarrow> float_of_int i = Inl OverflowError \<or> (\<exists>y. float_of_int i = Inr (Fin y) \<and> 0 \<le> y)"
  using fl_cases[of "of_int i"] rd_nonneg[of "of_int i"] by (auto simp: float_of_int_def)

lemma float_of_int_pos:
  "1 \<le> i \<Longrightarrow> float_of_int i = Inl OverflowError \<or> (\<exists>y. float_of_int i = Inr (Fin y) \<and> 0 < y)"
  using fl_cases[of "of_int i"] rd_pos[of "of_int i"] by (auto simp: float_of_int_def)

lemma to_float_nonneg:
  assumes "num_nonneg a"
  shows "to_float a = Inl OverflowError \<or> (\<exists>x. to_float a = Inr x \<and> fle (Fin 0) x)"
proof (cases a)
  case (PyInt i)
  with float_of_int_nonneg[of i] assms show ?thesis by auto
next
  case (PyFloat x)
  with assms show ?thesis by simp
qed

lemma float_op_fadd_nonneg:
  assumes "num_nonneg a" and "num_nonneg b"
  shows "float_op fadd a b = Inl OverflowError
       \<or> (\<exists>c. float_op fadd a b = Inr c \<and> num_nonneg c)"
  using to_float_nonneg[OF assms(1)] to_float_nonneg[OF assms(2)]
  by (auto simp: float_op_def fadd_nonneg)

lemma num_add_nonneg:
  assumes "num_nonneg a" and "num_nonneg b"
  shows "num_add a b = Inl OverflowError \<or> (\<exists>c. num_add a b = Inr c \<and> num_nonneg c)"
  using float_op_fadd_nonneg[OF assms] assms by (cases a; cases b) auto

lemma sum_from_nonneg:
  "num_nonneg a \<Longrightarrow> list_all num_nonneg xs \<Longrightarrow>
     sum_from a xs = Inl OverflowError \<or> (\<exists>c. sum_from a xs = Inr c \<and> num_nonneg c)"
proof (induction xs arbitrary: a)
  case Nil
  then show ?case by simp
next
  case (Cons x xs)
  from Cons.prems have x: "num_nonneg x" and xs: "list_all num_nonneg xs" by simp_all
  from num_add_nonneg[OF Cons.prems(1) x]
  consider "num_add a x = Inl OverflowError" | c where "num_add a x = Inr c" "num_nonneg c"
    by auto
  then show ?case
  proof cases
    case 1
    then show ?thesis by simp
  next
    case 2
    from Cons.IH[OF 2(2) xs] 2(1) show ?thesis by simp
  qed
qed

lemma num_mul_nonneg:
  assumes "num_nonneg a" and "1 \<le> d"
  shows "num_mul a (PyInt d) = Inl OverflowError
       \<or> (\<exists>c. num_mul a (PyInt d) = Inr c \<and> num_nonneg c)"
proof (cases a)
  case (PyInt i)
  with assms show ?thesis by simp
next
  case (PyFloat x)
  with assms float_of_int_pos[OF assms(2)] show ?thesis
    by (auto simp: float_op_def fmul_nonneg_pos)
qed

lemma calculate_overhead_nonneg:
  assumes "fle (Fin 0) b" and "list_all num_nonneg (dict_values rates)" and "1 \<le> d"
  shows "calculate_overhead b rates d = Inl OverflowError
       \<or> (\<exists>r. calculate_overhead b rates d = Inr r \<and> fle (Fin 0) r)"
proof -
  have b: "fle (Fin 0) (fmul b lit_0_15)"
    using assms(1) by (simp add: lit_0_15_value fmul_nonneg_pos)
  consider "py_sum_num (dict_values rates) = Inl OverflowError"
    | m where "py_sum_num (dict_values rates) = Inr m" "num_nonneg m"
    using sum_from_nonneg[of "PyInt 0" "dict_values rates"] assms(2)
    by (auto simp: py_sum_num_def)
  then show ?thesis
  proof cases
    case 1
    then show ?thesis by (simp add: calculate_overhead_def)
  next
    case 2
    consider "num_mul m (PyInt d) = Inl OverflowError"
      | t where "num_mul m (PyInt d) = Inr t" "num_nonneg t"
      using num_mul_nonneg[OF 2(2) assms(3)] by auto
    then show ?thesis
    proof cases
      case 1
      with 2 show ?thesis by (simp add: calculate_overhead_def)
    next
      case t: 2
      from to_float_nonneg[OF t(2)] 2 t b show ?thesis
        by (auto simp: calculate_overhead_def fadd_nonneg)
    qed
  qed
qed

text \<open>
  How far the result is from the number that the formula denotes, for a table of
  \<^verbatim>\<open>int\<close>s whose total is a double.
\<close>

lemma overhead_bound:
  fixes x t u r v :: real
  assumes hv: "v = x * (5404319552844595 / 36028797018963968)"
    and e1: "\<bar>u - v\<bar> \<le> v / 2 ^ 53 + 1 / 2 ^ 1075"
    and e2: "\<bar>r - (u + t)\<bar> \<le> (u + t) / 2 ^ 53 + 1 / 2 ^ 1075"
    and pos: "0 \<le> t" "0 \<le> x"
  shows "\<bar>r - (x * (3 / 20) + t)\<bar> \<le> (x * (3 / 20) + t) / 2 ^ 51 + 1 / 2 ^ 1073"
proof -
  define e :: real where "e = 1 / 2 ^ 1075"
  have e0: "0 \<le> e" by (simp add: e_def)
  have "(5404319552844595 / 36028797018963968 :: real) \<le> 3 / 20" by simp
  from mult_left_mono[OF this pos(2)] have v1: "v \<le> x * (3 / 20)" by (simp only: hv)
  have "(3 / 20 - 1 / 100000000000000000 :: real) \<le> 5404319552844595 / 36028797018963968"
    by simp
  from mult_left_mono[OF this pos(2)]
  have "x * (3 / 20 - 1 / 100000000000000000) \<le> v" by (simp only: hv)
  then have v2: "x * (3 / 20) - x / 100000000000000000 \<le> v"
    by (simp add: algebra_simps)
  have u1: "u \<le> v + v / 9007199254740992 + e" and u2: "v - v / 9007199254740992 - e \<le> u"
    using e1 by (simp_all add: e_def abs_le_iff)
  have r1: "r \<le> (u + t) + (u + t) / 9007199254740992 + e"
    and r2: "(u + t) - (u + t) / 9007199254740992 - e \<le> r"
    using e2 by (simp_all add: e_def abs_le_iff)
  have a: "r - (x * (3 / 20) + t) \<le> (x * (3 / 20) + t) / 2251799813685248 + 4 * e"
    using v1 v2 u1 u2 r1 r2 pos e0 by argo
  have b: "x * (3 / 20) + t - r \<le> (x * (3 / 20) + t) / 2251799813685248 + 4 * e"
    using v1 v2 u1 u2 r1 r2 pos e0 by argo
  have "\<bar>r - (x * (3 / 20) + t)\<bar> \<le> (x * (3 / 20) + t) / 2251799813685248 + 4 * e"
    using a b by linarith
  then show ?thesis by (simp add: e_def)
qed

lemma calculate_overhead_error:
  assumes "0 \<le> x" and "x \<le> 2 ^ 1000" and "0 \<le> m * d" and "m * d \<le> 2 ^ 53"
    and "py_sum_num (dict_values rates) = Inr (PyInt m)"
  shows "\<exists>r. calculate_overhead (Fin x) rates d = Inr (Fin r)
          \<and> \<bar>r - (x * 0.15 + of_int (m * d))\<bar>
              \<le> (x * 0.15 + of_int (m * d)) / 2 ^ 51 + 1 / 2 ^ 1073"
proof -
  define c :: real where "c = 5404319552844595 / 36028797018963968"
  define t :: real where "t = of_int (m * d)"
  define u where "u = rd (x * c)"
  define r where "r = rd (u + t)"
  have t0: "0 \<le> t" using assms(3) unfolding t_def by (simp only: of_int_0_le_iff)
  have "real_of_int (m * d) \<le> real_of_int (2 ^ 53)" using assms(4) by (simp only: of_int_le_iff)
  then have t1: "t \<le> 2 ^ 53" by (simp add: t_def)
  have xc0: "0 \<le> x * c" using assms(1) by (simp add: c_def)
  have xc1: "x * c \<le> x" using assms(1) by (simp add: c_def)
  have u0: "0 \<le> u" using rd_nonneg[OF xc0] by (simp add: u_def)
  have e1: "\<bar>u - x * c\<bar> \<le> x * c / 2 ^ 53 + 1 / 2 ^ 1075"
    using rd_error[of "x * c"] xc0 by (simp add: u_def)
  have e2: "\<bar>r - (u + t)\<bar> \<le> (u + t) / 2 ^ 53 + 1 / 2 ^ 1075"
    using rd_error[of "u + t"] u0 t0 by (simp add: r_def)
  have big: "(2::real) ^ 1000 + 2 ^ 1000 / 2 ^ 53 + 1 / 2 ^ 1075 + 2 ^ 53 \<le> 2 ^ 1023" by simp
  have f1: "fl (x * c) = Fin u"
    unfolding u_def using xc0 xc1 assms(2) by (intro fl_Fin) simp
  have "u \<le> x * c + x * c / 2 ^ 53 + 1 / 2 ^ 1075" using e1 by linarith
  also have "\<dots> \<le> 2 ^ 1000 + 2 ^ 1000 / 2 ^ 53 + 1 / 2 ^ 1075"
    using xc1 assms(2) by (intro add_mono divide_right_mono) auto
  finally have "u + t \<le> 2 ^ 1023" using t1 big by linarith
  then have f2: "fl (u + t) = Fin r"
    unfolding r_def using u0 t0 by (intro fl_Fin) simp
  have "\<bar>m * d\<bar> \<le> 2 ^ 53" using assms(3,4) by simp
  from float_of_int_small[OF this] have fi: "float_of_int (m * d) = Inr (Fin t)"
    by (simp only: t_def)
  have res: "calculate_overhead (Fin x) rates d = Inr (Fin r)"
    by (simp add: calculate_overhead_ints[OF assms(5)] fi lit_0_15_value c_def[symmetric] f1 f2)
  have "\<bar>r - (x * (3 / 20) + t)\<bar> \<le> (x * (3 / 20) + t) / 2 ^ 51 + 1 / 2 ^ 1073"
    using overhead_bound[of "x * c" x u r t] e1 e2 t0 assms(1) by (simp add: c_def)
  with res show ?thesis by (auto simp: t_def)
qed

text \<open>
  Claim C1, as stated: the calculator returns exactly
  \<open>baseCosts * 0.15 + sum * durationMonths\<close>, with no error condition. For base costs of
  436909, the rates of the module (which sum to 108000) and one month, that number is
  173536.35; the calculator returns the double 173536.34999999998, which is not that number
  and not even the double nearest to it. For a duration of \<open>2\<^sup>1\<^sup>0\<^sup>2\<^sup>4\<close> months the
  calculator raises \<open>OverflowError\<close>: the total overhead, an \<^verbatim>\<open>int\<close>, is too large to
  be added to a \<^verbatim>\<open>float\<close>.
\<close>

theorem calculate_overhead_counterexample:
  "list_all num_nonneg (dict_values DEFAULT_OVERHEAD_COSTS)
   \<and> calculate_overhead (Fin 436909) DEFAULT_OVERHEAD_COSTS 1
       = Inr (Fin (1490665895834419 / 8589934592))
   \<and> (1490665895834419 / 8589934592 :: real) \<noteq> 436909 * 0.15 + 108000 * 1
   \<and> calculate_overhead (Fin 436909) DEFAULT_OVERHEAD_COSTS 1
       \<noteq> Inr (fl (436909 * 0.15 + 108000 * 1))
   \<and> calculate_overhead (Fin 0) DEFAULT_OVERHEAD_COSTS (2 ^ 1024) = Inl OverflowError"
proof -
  have a: "list_all num_nonneg (dict_values DEFAULT_OVERHEAD_COSTS)"
    by (simp add: DEFAULT_OVERHEAD_COSTS_def dict_values_def)
  have b: "calculate_overhead (Fin 436909) DEFAULT_OVERHEAD_COSTS 1
       = Inr (Fin (1490665895834419 / 8589934592))"
    by (simp add: fl_eval)
  have c: "(1490665895834419 / 8589934592 :: real) \<noteq> 436909 * 0.15 + 108000 * 1"
    by simp
  have d: "calculate_overhead (Fin 436909) DEFAULT_OVERHEAD_COSTS 1
       \<noteq> Inr (fl (436909 * 0.15 + 108000 * 1))"
    by (simp add: fl_eval)
  have e: "calculate_overhead (Fin 0) DEFAULT_OVERHEAD_COSTS (2 ^ 1024) = Inl OverflowError"
    by (simp add: calculate_overhead_ints[OF default_overhead_sum] float_of_int_def fl_eval)
  show ?thesis by (intro conjI a b c d e)
qed

text \<open>
  Claim C1, amended. For every base cost that is not negative, every rate table without
  negative values and every duration of at least one month, the overhead calculator has no
  side effect and either raises \<open>OverflowError\<close>, when an \<^verbatim>\<open>int\<close> is too large to be
  converted to a \<^verbatim>\<open>float\<close>, or returns a double that is not negative (possibly the
  infinity). The result is \<open>baseCosts * 0.15 + sum * durationMonths\<close> evaluated in double
  precision: \<open>0.15\<close> is the double nearest to it and every operation on floats rounds. For
  a table of \<^verbatim>\<open>int\<close>s the sum and its product with the duration are exact and converted
  once; for a table of \<^verbatim>\<open>float\<close>s the sum is taken left to right and multiplied by the
  converted duration. For a table of \<^verbatim>\<open>int\<close>s whose total is at most \<open>2\<^sup>5\<^sup>3\<close> and a base
  cost of at most \<open>2\<^sup>1\<^sup>0\<^sup>0\<^sup>0\<close> the result is finite and differs from the number
  \<open>baseCosts * 0.15 + sum * durationMonths\<close> by at most that number divided by \<open>2\<^sup>5\<^sup>1\<close>,
  plus \<open>2\<^sup>-\<^sup>1\<^sup>0\<^sup>7\<^sup>3\<close>.
\<close>

theorem calculate_overhead_formula:
  assumes "fle (Fin 0) b" and "list_all num_nonneg (dict_values rates)" and "1 \<le> d"
  shows "(calculate_overhead b rates d = Inl OverflowError
          \<or> (\<exists>r. calculate_overhead b rates d = Inr r \<and> fle (Fin 0) r))
    \<and> (\<forall>ns. dict_values rates = map PyInt ns \<longrightarrow>
          calculate_overhead b rates d =
            (case float_of_int (sum_list ns * d) of
               Inl e \<Rightarrow> Inl e
             | Inr t \<Rightarrow> Inr (fadd (fmul b lit_0_15) t)))
    \<and> (\<forall>xs. dict_values rates = map PyFloat xs \<and> xs \<noteq> [] \<longrightarrow>
          calculate_overhead b rates d =
            (case float_of_int d of
               Inl e \<Rightarrow> Inl e
             | Inr m \<Rightarrow> Inr (fadd (fmul b lit_0_15) (fmul (foldl fadd (Fin 0) xs) m))))
    \<and> (\<forall>ns x. dict_values rates = map PyInt ns \<and> b = Fin x \<and> x \<le> 2 ^ 1000
                \<and> sum_list ns * d \<le> 2 ^ 53 \<longrightarrow>
          (\<exists>r. calculate_overhead b rates d = Inr (Fin r)
              \<and> \<bar>r - (x * 0.15 + of_int (sum_list ns * d))\<bar>
                  \<le> (x * 0.15 + of_int (sum_list ns * d)) / 2 ^ 51 + 1 / 2 ^ 1073))"
proof (intro conjI allI impI)
  show "calculate_overhead b rates d = Inl OverflowError
          \<or> (\<exists>r. calculate_overhead b rates d = Inr r \<and> fle (Fin 0) r)"
    by (rule calculate_overhead_nonneg[OF assms])
  show "calculate_overhead b rates d =
            (case float_of_int (sum_list ns * d) of
               Inl e \<Rightarrow> Inl e
             | Inr t \<Rightarrow> Inr (fadd (fmul b lit_0_15) t))"
    if "dict_values rates = map PyInt ns" for ns
    using that by (simp add: calculate_overhead_ints py_sum_num_ints)
  show "calculate_overhead b rates d =
            (case float_of_int d of
               Inl e \<Rightarrow> Inl e
             | Inr m \<Rightarrow> Inr (fadd (fmul b lit_0_15) (fmul (foldl fadd (Fin 0) xs) m)))"
    if "dict_values rates = map PyFloat xs \<and> xs \<noteq> []" for xs
    using that calculate_overhead_floats[of rates "foldl fadd (Fin 0) xs" b d]
      py_sum_num_floats[of xs]
    by (simp add: py_sum_def)
  show "\<exists>r. calculate_overhead b rates d = Inr (Fin r)
              \<and> \<bar>r - (x * 0.15 + of_int (sum_list ns * d))\<bar>
                  \<le> (x * 0.15 + of_int (sum_list ns * d)) / 2 ^ 51 + 1 / 2 ^ 1073"
    if h: "dict_values rates = map PyInt ns \<and> b = Fin x \<and> x \<le> 2 ^ 1000
                \<and> sum_list ns * d \<le> 2 ^ 53" for ns x
  proof -
    from h assms(2) have "list_all (\<lambda>n. 0 \<le> n) ns"
      by (simp add: list_all_iff)
    then have "0 \<le> sum_list ns" by (simp add: list_all_iff sum_list_nonneg)
    with assms(3) have m: "0 \<le> sum_list ns * d" by simp
    from h assms(1) have x: "0 \<le> x" by simp
    from h have s: "py_sum_num (dict_values rates) = Inr (PyInt (sum_list ns))"
      by (simp add: py_sum_num_ints)
    from calculate_overhead_error[OF x _ m _ s, of] h show ?thesis by simp
  qed
qed

theorem calculate_overhead_formula_witness:
  "fle (Fin 0) (Fin 1250)
   \<and> list_all num_nonneg (dict_values DEFAULT_OVERHEAD_COSTS)
   \<and> dict_values DEFAULT_OVERHEAD_COSTS = map PyInt [50000, 15000, 10000, 8000, 20000, 5000]
   \<and> calculate_overhead (Fin 1250) DEFAULT_OVERHEAD_COSTS 2 = Inr (Fin 216187.5)
   \<and> 1250 * 0.15 + 108000 * 2 = (216187.5 :: real)"
proof -
  have a: "fle (Fin 0) (Fin 1250)" by simp
  have b: "list_all num_nonneg (dict_values DEFAULT_OVERHEAD_COSTS)"
    by (simp add: DEFAULT_OVERHEAD_COSTS_def dict_values_def)
  have c: "dict_values DEFAULT_OVERHEAD_COSTS = map PyInt [50000, 15000, 10000, 8000, 20000, 5000]"
    by (simp add: DEFAULT_OVERHEAD_COSTS_def dict_values_def)
  have "calculate_overhead (Fin 1250) DEFAULT_OVERHEAD_COSTS 2 =
      (case float_of_int (sum_list [50000, 15000, 10000, 8000, 20000, 5000] * 2) of
         Inl e \<Rightarrow> Inl e
       | Inr t \<Rightarrow> Inr (fadd (fmul (Fin 1250) lit_0_15) t))"
    using conjunct1[OF conjunct2[OF calculate_overhead_formula[OF a b, of 2]], rule_format, OF _ c]
    by simp
  then have d: "calculate_overhead (Fin 1250) DEFAULT_OVERHEAD_COSTS 2 = Inr (Fin 216187.5)"
    by (simp add: float_of_int_def fl_eval)
  have e: "1250 * 0.15 + 108000 * 2 = (216187.5 :: real)" by simp
  show ?thesis by (intro conjI a b c d e)
qed

section \<open>Claims about the cash-flow endpoint\<close>

text \<open>
  Claim C2, as stated: the \<open>cumulative_net_flow\<close> of the last result equals the sum of
  the \<open>net_flow\<close> values of all results. For two valid deliverables charged 1000.10 and
  2000.20 the endpoint emits the net flows -106999.9 and -105999.8 and the last running
  total -212999.7 (the doubles nearest to these), and the sum of the two net flows is not
  that running total: the addition that produced it was rounded.
\<close>

theorem cumulative_net_flow_counterexample:
  "valid_DeliverableData example_cents_1 \<and> valid_DeliverableData example_cents_2
   \<and> calculate_deliverable_cashflow SERVICES_CATALOG DEFAULT_OVERHEAD_COSTS
        \<lparr>req_deliverables = [example_cents_1, example_cents_2]\<rparr>
       = Inr \<lparr>resp_deliverables = [example_result_cents_1, example_result_cents_2],
              resp_summary = example_summary_cents\<rparr>
   \<and> net_flow example_result_cents_1 = fl (- 1069999 / 10)
   \<and> net_flow example_result_cents_2 = fl (- 1059998 / 10)
   \<and> cumulative_net_flow example_result_cents_2 = fl (- 2129997 / 10)
   \<and> value_of (cumulative_net_flow (last [example_result_cents_1, example_result_cents_2]))
       \<noteq> sum_list (map (value_of \<circ> net_flow) [example_result_cents_1, example_result_cents_2])"
proof -
  have v: "valid_DeliverableData example_cents_1" "valid_DeliverableData example_cents_2"
    by (simp_all add: valid_DeliverableData_def example_cents_1_def example_cents_2_def fl_eval)
  have n: "net_flow example_result_cents_1 = fl (- 1069999 / 10)"
    "net_flow example_result_cents_2 = fl (- 1059998 / 10)"
    "cumulative_net_flow example_result_cents_2 = fl (- 2129997 / 10)"
    by (simp_all add: example_result_cents_1_def example_result_cents_2_def fl_eval)
  have s: "value_of (cumulative_net_flow (last [example_result_cents_1, example_result_cents_2]))
       \<noteq> sum_list (map (value_of \<circ> net_flow) [example_result_cents_1, example_result_cents_2])"
    by (simp add: example_result_cents_1_def example_result_cents_2_def)
  show ?thesis by (intro conjI v example_cents_result n s)
qed

text \<open>
  Claim C2, amended. Whenever the cash-flow endpoint accepts a request, the emitted results
  are the deliverables of the request in input order, and each result's
  \<open>cumulative_net_flow\<close> is the running total of the \<open>net_flow\<close> values up to and
  including it, added left to right from zero in double precision, each addition rounded;
  so the last result carries that running total over all of them. The running total
  starts at zero in every call, whatever was computed before.
\<close>

theorem cumulative_net_flow_running_total:
  assumes "calculate_deliverable_cashflow cat oh request = Inr r"
  shows "map deliverable_name (resp_deliverables r) = map dd_name (req_deliverables request)
    \<and> (\<forall>i<length (resp_deliverables r).
           cumulative_net_flow (resp_deliverables r ! i) =
             foldl fadd (Fin 0) (map net_flow (take (Suc i) (resp_deliverables r))))
    \<and> (resp_deliverables r \<noteq> [] \<longrightarrow>
           cumulative_net_flow (last (resp_deliverables r)) =
             foldl fadd (Fin 0) (map net_flow (resp_deliverables r)))"
proof -
  from cashflow_Inr[OF assms] obtain c where
    l: "cashflow_loop cat oh (req_deliverables request) [] (Fin 0) = Inr (resp_deliverables r, c)"
    by blast
  have n: "map deliverable_name (resp_deliverables r) = map dd_name (req_deliverables request)"
    using cashflow_loop_names[OF l] by simp
  have "running_inv [] (Fin 0)" by (simp add: running_inv_def)
  from cashflow_loop_running[OF l this]
  have p: "\<forall>i<length (resp_deliverables r).
           cumulative_net_flow (resp_deliverables r ! i) =
             foldl fadd (Fin 0) (map net_flow (take (Suc i) (resp_deliverables r)))"
    by (simp add: running_inv_def py_sum_def)
  have "cumulative_net_flow (last (resp_deliverables r)) =
             foldl fadd (Fin 0) (map net_flow (resp_deliverables r))" if "resp_deliverables r \<noteq> []"
    using that p by (simp add: last_conv_nth)
  with n p show ?thesis by blast
qed

theorem cumulative_net_flow_running_total_witness:
  "calculate_deliverable_cashflow SERVICES_CATALOG DEFAULT_OVERHEAD_COSTS
     \<lparr>req_deliverables = [example_cents_1, example_cents_2]\<rparr>
     = Inr \<lparr>resp_deliverables = [example_result_cents_1, example_result_cents_2],
            resp_summary = example_summary_cents\<rparr>
   \<and> map deliverable_name [example_result_cents_1, example_result_cents_2]
       = [''Phase 1'', ''Phase 2'']
   \<and> cumulative_net_flow example_result_cents_1
       = fadd (Fin 0) (net_flow example_result_cents_1)
   \<and> cumulative_net_flow example_result_cents_2
       = fadd (fadd (Fin 0) (net_flow example_result_cents_1)) (net_flow example_result_cents_2)
   \<and> cumulative_net_flow example_result_cents_2 = fl (- 2129997 / 10)"
proof -
  let ?req = "\<lparr>req_deliverables = [example_cents_1, example_cents_2]\<rparr>"
  let ?res = "\<lparr>resp_deliverables = [example_result_cents_1, example_result_cents_2],
            resp_summary = example_summary_cents\<rparr>"
  note t = cumulative_net_flow_running_total[OF example_cents_result]
  have a: "map deliverable_name [example_result_cents_1, example_result_cents_2]
       = [''Phase 1'', ''Phase 2'']"
    using t by (simp add: example_cents_1_def example_cents_2_def)
  from t have p: "cumulative_net_flow ([example_result_cents_1, example_result_cents_2] ! i) =
      foldl fadd (Fin 0) (map net_flow (take (Suc i) [example_result_cents_1, example_result_cents_2]))"
    if "i < 2" for i
    using that by simp
  have b: "cumulative_net_flow example_result_cents_1
       = fadd (Fin 0) (net_flow example_result_cents_1)"
    using p[of 0] by simp
  have c: "cumulative_net_flow example_result_cents_2
       = fadd (fadd (Fin 0) (net_flow example_result_cents_1)) (net_flow example_result_cents_2)"
    using p[of 1] by simp
  have d: "cumulative_net_flow example_result_cents_2 = fl (- 2129997 / 10)"
    by (simp add: example_result_cents_2_def fl_eval)
  show ?thesis by (intro conjI example_cents_result a b c d)
qed

text \<open>
  Claim C3, as stated: when the revenue is not zero the margin is profit / revenue * 100
  rounded to two decimals. For one valid deliverable charged 148000 with salaries of 31340
  the profit is 3959 and the revenue 148000, so that profit / revenue * 100 is 2.675, which
  rounds to 2.68; the endpoint returns 2.67, because the double it rounds, the rounded
  product of the rounded quotient, lies just below 2.675.
\<close>

theorem profit_margin_counterexample:
  "valid_DeliverableData example_margin
   \<and> calculate_deliverable_cashflow SERVICES_CATALOG DEFAULT_OVERHEAD_COSTS
        \<lparr>req_deliverables = [example_margin]\<rparr>
       = Inr \<lparr>resp_deliverables = [example_result_margin],
              resp_summary = example_summary_margin\<rparr>
   \<and> total_profit example_summary_margin = Fin 3959
   \<and> total_revenue example_summary_margin = Fin 148000
   \<and> py_round (value_of (total_profit example_summary_margin)
               / value_of (total_revenue example_summary_margin) * 100) 2 = 2.68
   \<and> profit_margin example_summary_margin = fl 2.67
   \<and> fl 2.67 \<noteq> fl 2.68"
proof -
  have v: "valid_DeliverableData example_margin"
    by (simp add: valid_DeliverableData_def example_margin_def)
  have a: "total_profit example_summary_margin = Fin 3959"
    "total_revenue example_summary_margin = Fin 148000"
    by (simp_all add: example_summary_margin_def)
  have b: "py_round (value_of (total_profit example_summary_margin)
               / value_of (total_revenue example_summary_margin) * 100) 2 = 2.68"
    by (simp add: example_summary_margin_def py_round_def round_half_even_def)
  have c: "profit_margin example_summary_margin = fl 2.67"
    by (simp add: example_summary_margin_def fl_eval)
  have d: "fl 2.67 \<noteq> fl 2.68"
    by (simp add: fl_eval)
  show ?thesis by (intro conjI v example_margin_result a b c d)
qed

text \<open>
  Claim C3, amended. For every request whose deliverables satisfy the field constraints,
  over a catalog without negative prices: the call never fails with a division error (its
  only failures are the two errors of the loop and the overflow of an integer conversion,
  wrapped by the handler); the empty request succeeds with revenue and margin \<open>0\<close>; and
  in every successful result the totals are the left-to-right double-precision sums of
  \<open>cash_in\<close> and \<open>cash_out\<close>, the profit is their rounded difference, the margin is
  \<open>0\<close> when the revenue is \<open>0\<close>, and otherwise the margin is what \<^verbatim>\<open>round(x, 2)\<close>
  gives for the double \<open>x\<close> that results from dividing the profit by the revenue and
  multiplying by 100, each of the two operations rounded.
\<close>

theorem profit_margin_zero_revenue:
  assumes valid: "\<forall>d\<in>set (req_deliverables request). valid_DeliverableData d"
    and prices: "\<forall>s\<in>ran cat. fle (Fin 0) (svc_price s)"
  shows "calculate_deliverable_cashflow cat oh request \<noteq> Inl (cashflow_failure ZeroDivisionError)
    \<and> (\<forall>e. calculate_deliverable_cashflow cat oh request = Inl e \<longrightarrow>
          e = cashflow_failure missing_amount_error
        \<or> (\<exists>sid. e = cashflow_failure (unknown_service_error sid))
        \<or> e = cashflow_failure OverflowError)
    \<and> (req_deliverables request = [] \<longrightarrow>
         (\<exists>r. calculate_deliverable_cashflow cat oh request = Inr r
              \<and> total_revenue (resp_summary r) = Fin 0 \<and> profit_margin (resp_summary r) = Fin 0))
    \<and> (\<forall>r. calculate_deliverable_cashflow cat oh request = Inr r \<longrightarrow>
          total_revenue (resp_summary r) = foldl fadd (Fin 0) (map cash_in (resp_deliverables r))
        \<and> total_costs (resp_summary r) = foldl fadd (Fin 0) (map cash_out (resp_deliverables r))
        \<and> total_profit (resp_summary r)
            = fsub (total_revenue (resp_summary r)) (total_costs (resp_summary r))
        \<and> (total_revenue (resp_summary r) = Fin 0 \<longrightarrow> profit_margin (resp_summary r) = Fin 0)
        \<and> (total_revenue (resp_summary r) \<noteq> Fin 0 \<longrightarrow>
              profit_margin (resp_summary r) =
                py_round_float
                  (fmul (fquot (total_profit (resp_summary r)) (total_revenue (resp_summary r)))
                        (Fin 100)) 2))"
proof (intro conjI allI impI)
  have errs: "e' = missing_amount_error \<or> (\<exists>sid. e' = unknown_service_error sid) \<or> e' = OverflowError"
    if "cashflow_loop cat oh (req_deliverables request) [] (Fin 0) = Inl e'" for e'
    using cashflow_loop_Inl[OF that] resolve_amount_Inl by blast
  show "calculate_deliverable_cashflow cat oh request \<noteq> Inl (cashflow_failure ZeroDivisionError)"
  proof
    assume "calculate_deliverable_cashflow cat oh request = Inl (cashflow_failure ZeroDivisionError)"
    from cashflow_Inl[OF this]
    have "cashflow_loop cat oh (req_deliverables request) [] (Fin 0) = Inl ZeroDivisionError"
      by (simp add: cashflow_failure_inj)
    from errs[OF this] show False by (auto simp: exc_distinct[symmetric])
  qed
  show "e = cashflow_failure missing_amount_error
        \<or> (\<exists>sid. e = cashflow_failure (unknown_service_error sid))
        \<or> e = cashflow_failure OverflowError"
    if "calculate_deliverable_cashflow cat oh request = Inl e" for e
  proof -
    from cashflow_Inl[OF that] obtain e' where
      e: "e = cashflow_failure e'" and
      l: "cashflow_loop cat oh (req_deliverables request) [] (Fin 0) = Inl e'"
      by blast
    from errs[OF l] e show ?thesis by blast
  qed
  show "\<exists>r. calculate_deliverable_cashflow cat oh request = Inr r
              \<and> total_revenue (resp_summary r) = Fin 0 \<and> profit_margin (resp_summary r) = Fin 0"
    if "req_deliverables request = []"
    using that by (simp add: calculate_deliverable_cashflow_def calculate_summary_total)
next
  fix r assume res: "calculate_deliverable_cashflow cat oh request = Inr r"
  from cashflow_Inr[OF res] obtain c where
    l: "cashflow_loop cat oh (req_deliverables request) [] (Fin 0) = Inr (resp_deliverables r, c)" and
    s: "calculate_summary (resp_deliverables r) = Inr (resp_summary r)" by blast
  let ?rev = "py_sum (map cash_in (resp_deliverables r))"
  let ?costs = "py_sum (map cash_out (resp_deliverables r))"
  from s have sm: "resp_summary r = \<lparr>total_revenue = ?rev, total_costs = ?costs,
          total_profit = fsub ?rev ?costs,
          profit_margin = (if flt (Fin 0) ?rev
             then py_round_float (fmul (fquot (fsub ?rev ?costs) ?rev) (Fin 100)) 2 else Fin 0),
          summary_is_profitable = flt (Fin 0) (fsub ?rev ?costs)\<rparr>"
    by (simp add: calculate_summary_total)
  have nonneg: "fle (Fin 0) ?rev"
    using cashflow_loop_cash_in_nonneg[OF l valid prices] by (auto intro!: py_sum_nonneg)
  show "total_revenue (resp_summary r) = foldl fadd (Fin 0) (map cash_in (resp_deliverables r))"
    by (simp add: sm py_sum_def)
  show "total_costs (resp_summary r) = foldl fadd (Fin 0) (map cash_out (resp_deliverables r))"
    by (simp add: sm py_sum_def)
  show "total_profit (resp_summary r)
      = fsub (total_revenue (resp_summary r)) (total_costs (resp_summary r))"
    by (simp add: sm)
  show "profit_margin (resp_summary r) = Fin 0" if "total_revenue (resp_summary r) = Fin 0"
    using that by (simp add: sm)
  show "profit_margin (resp_summary r) =
          py_round_float
            (fmul (fquot (total_profit (resp_summary r)) (total_revenue (resp_summary r)))
                  (Fin 100)) 2"
    if "total_revenue (resp_summary r) \<noteq> Fin 0"
    using that fle_zero_neq[OF nonneg] by (simp add: sm)
qed

theorem profit_margin_zero_revenue_witness:
  "valid_DeliverableData example_override \<and> valid_DeliverableData (example_D1 ''2025-03-31'')
   \<and> calculate_deliverable_cashflow SERVICES_CATALOG DEFAULT_OVERHEAD_COSTS
        \<lparr>req_deliverables = [example_override, example_D1 ''2025-03-31'']\<rparr>
       = Inr \<lparr>resp_deliverables = [example_result_D2, example_result_D1],
              resp_summary = example_summary\<rparr>
   \<and> total_revenue example_summary = Fin 280000
   \<and> profit_margin example_summary
       = py_round_float
           (fmul (fquot (total_profit example_summary) (total_revenue example_summary))
                 (Fin 100)) 2
   \<and> profit_margin example_summary = fl (- 55.31)
   \<and> (\<exists>r. calculate_deliverable_cashflow SERVICES_CATALOG DEFAULT_OVERHEAD_COSTS
               \<lparr>req_deliverables = []\<rparr> = Inr r
           \<and> total_revenue (resp_summary r) = Fin 0 \<and> profit_margin (resp_summary r) = Fin 0)"
proof -
  let ?two = "\<lparr>req_deliverables = [example_override, example_D1 ''2025-03-31'']\<rparr>"
  let ?none = "\<lparr>req_deliverables = []\<rparr> :: CashFlowRequest"
  have v: "valid_DeliverableData example_override" "valid_DeliverableData (example_D1 ''2025-03-31'')"
    by (simp_all add: valid_DeliverableData_def example_override_def example_D1_def)
  then have v2: "\<forall>d\<in>set (req_deliverables ?two). valid_DeliverableData d" by simp
  have v0: "\<forall>d\<in>set (req_deliverables ?none). valid_DeliverableData d" by simp
  have pr: "\<forall>s\<in>ran SERVICES_CATALOG. fle (Fin 0) (svc_price s)"
    using catalog_prices_pos by (simp add: flt_imp_fle)
  have rev: "total_revenue example_summary = Fin 280000"
    and mar: "profit_margin example_summary = fl (- 55.31)"
    by (simp_all add: example_summary_def fl_eval)
  let ?res = "\<lparr>resp_deliverables = [example_result_D2, example_result_D1],
              resp_summary = example_summary\<rparr>"
  have rev0: "total_revenue (resp_summary ?res) \<noteq> Fin 0"
    by (simp add: example_summary_def)
  from profit_margin_zero_revenue[OF v2 pr, of DEFAULT_OVERHEAD_COSTS] example_two_result rev0
  have "profit_margin (resp_summary ?res)
       = py_round_float
           (fmul (fquot (total_profit (resp_summary ?res)) (total_revenue (resp_summary ?res)))
                 (Fin 100)) 2"
    by blast
  then have two: "profit_margin example_summary
       = py_round_float
           (fmul (fquot (total_profit example_summary) (total_revenue example_summary))
                 (Fin 100)) 2"
    by (simp only: cashflow_response.select_convs)
  from profit_margin_zero_revenue[OF v0 pr, of DEFAULT_OVERHEAD_COSTS]
  have none: "\<exists>r. calculate_deliverable_cashflow SERVICES_CATALOG DEFAULT_OVERHEAD_COSTS ?none = Inr r
           \<and> total_revenue (resp_summary r) = Fin 0 \<and> profit_margin (resp_summary r) = Fin 0"
    by simp
  show ?thesis
    by (intro conjI v example_two_result rev two mar none)
qed

text \<open>
  Claim C5. In every successful result, a deliverable whose \<open>service_id\<close> resolves in
  the catalog has as \<open>cash_in\<close> its explicit amount when it gave one, and the catalog
  price when it gave none. Results correspond to inputs position by position.
\<close>

theorem explicit_amount_overrides_catalog:
  assumes "calculate_deliverable_cashflow cat oh request = Inr r"
    and "i < length (req_deliverables request)"
    and "dd_service_id (req_deliverables request ! i) = Some sid"
    and "cat sid = Some svc"
  shows "length (resp_deliverables r) = length (req_deliverables request)
       \<and> cash_in (resp_deliverables r ! i) =
           (case dd_amount (req_deliverables request ! i) of
              Some a \<Rightarrow> a
            | None \<Rightarrow> svc_price svc)"
proof -
  from cashflow_Inr[OF assms(1)] obtain c where
    l: "cashflow_loop cat oh (req_deliverables request) [] (Fin 0) = Inr (resp_deliverables r, c)"
    by blast
  from cashflow_loop_shape[OF l] assms(2) obtain s a cum where
    len: "length (resp_deliverables r) = length (req_deliverables request)" and
    ra: "resolve_amount cat (req_deliverables request ! i) = Inr (s, a)" and
    d: "make_deliverable oh cum (req_deliverables request ! i) s a = Inr (resp_deliverables r ! i)"
    by auto
  from resolve_amount_Inr_amount[OF ra] assms(3,4)
  have "a = (case dd_amount (req_deliverables request ! i) of Some a \<Rightarrow> a | None \<Rightarrow> svc_price svc)"
    by auto
  with len make_deliverable_Inr(2)[OF d] show ?thesis by simp
qed

theorem explicit_amount_overrides_catalog_witness:
  "calculate_deliverable_cashflow SERVICES_CATALOG DEFAULT_OVERHEAD_COSTS
     \<lparr>req_deliverables = [example_override, example_D1 ''2025-03-31'']\<rparr>
     = Inr \<lparr>resp_deliverables = [example_result_D2, example_result_D1],
            resp_summary = example_summary\<rparr>
   \<and> dd_amount example_override = Some (Fin 250000)
   \<and> dd_amount (example_D1 ''2025-03-31'') = None
   \<and> svc_price example_svc = Fin 30000
   \<and> cash_in example_result_D2 = Fin 250000
   \<and> cash_in example_result_D1 = Fin 30000"
proof -
  let ?req = "\<lparr>req_deliverables = [example_override, example_D1 ''2025-03-31'']\<rparr>"
  let ?res = "\<lparr>resp_deliverables = [example_result_D2, example_result_D1],
            resp_summary = example_summary\<rparr>"
  note t = explicit_amount_overrides_catalog[of SERVICES_CATALOG DEFAULT_OVERHEAD_COSTS ?req ?res
      _ "''1.2''" example_svc, OF example_two_result _ _ catalog_example_svc]
  have a: "dd_amount example_override = Some (Fin 250000)"
    and b: "dd_amount (example_D1 ''2025-03-31'') = None"
    and c: "svc_price example_svc = Fin 30000"
    by (simp_all add: example_override_def example_D1_def example_svc_def)
  have "cash_in (resp_deliverables ?res ! 0) = Fin 250000"
    using t[of 0] by (simp add: example_override_def)
  then have d: "cash_in example_result_D2 = Fin 250000" by simp
  have "cash_in (resp_deliverables ?res ! 1) = Fin 30000"
    using t[of 1] by (simp add: example_D1_def example_svc_def)
  then have e: "cash_in example_result_D1 = Fin 30000" by simp
  show ?thesis
    by (intro conjI example_two_result a b c d e)
qed

text \<open>
  Claim C6. A request whose one deliverable has neither \<open>service_id\<close> nor \<open>amount\<close>
  makes the loop raise the missing-amount error with status 400. The endpoint's own
  handler catches it, and what the caller receives is an error of status 500 whose detail
  quotes the caught one.
\<close>

theorem missing_amount_status_500:
  "calculate_deliverable_cashflow SERVICES_CATALOG DEFAULT_OVERHEAD_COSTS
     \<lparr>req_deliverables = [example_missing]\<rparr>
   = Inl (HTTPException 500
       [Lit ''Error calculating cash flow: '',
        Exc (HTTPException 400 [Lit ''Amount is required when service ID is not provided''])])"
  by (simp add: calculate_deliverable_cashflow_def resolve_amount_def example_missing_def
      missing_amount_error_def cashflow_failure_def)

text \<open>
  Claim C7. For the single deliverable D1 (service 1.2; salaries 1000, tools 200, others
  50; no explicit amount), a catalog that prices service 1.2 at 30000 over 2 months and
  overhead rates that sum to 108000 a month, the endpoint succeeds with one result whose
  overhead is 1250 * 0.15 + 108000 * 2 = 216187.5, whose \<open>cash_out\<close> is 217437.5,
  whose \<open>net_flow\<close> is -187437.5 and which is not profitable. Every figure is a double,
  and it is the double that double-precision arithmetic delivers: the product of 1250 and
  the double nearest to 0.15 rounds to 187.5, and the additions and the subtraction are
  exact.
\<close>

theorem example_D1_cashflow:
  assumes "cat ''1.2'' = Some svc" and "svc_price svc = Fin 30000" and "svc_duration svc = 2"
    and "py_sum_num (dict_values oh) = Inr (PyInt 108000)
       \<or> py_sum_num (dict_values oh) = Inr (PyFloat (Fin 108000))"
  shows "\<exists>d s. calculate_deliverable_cashflow cat oh \<lparr>req_deliverables = [example_D1 due]\<rparr>
             = Inr \<lparr>resp_deliverables = [d], resp_summary = s\<rparr>
          \<and> cash_in d = Fin 30000
          \<and> overhead d = Fin (1250 * 0.15 + 108000 * 2)
          \<and> overhead d = Fin 216187.5
          \<and> cash_out d = Fin 217437.5
          \<and> net_flow d = Fin (- 187437.5)
          \<and> \<not> is_profitable d"
proof -
  have ov: "calculate_overhead (Fin 1250) oh 2 = Inr (Fin 216187.5)"
    using assms(4)
  proof
    assume "py_sum_num (dict_values oh) = Inr (PyInt 108000)"
    then show ?thesis
      by (simp add: calculate_overhead_ints float_of_int_def fl_eval)
  next
    assume "py_sum_num (dict_values oh) = Inr (PyFloat (Fin 108000))"
    then show ?thesis
      by (simp add: calculate_overhead_floats float_of_int_def fl_eval)
  qed
  show ?thesis
    using assms(1-3)
    by (simp add: calculate_deliverable_cashflow_def calculate_summary_total resolve_amount_def
        make_deliverable_def ov fsub_def example_D1_def Let_def fl_eval)
qed

theorem example_D1_cashflow_witness:
  "\<exists>svc. SERVICES_CATALOG ''1.2'' = Some svc \<and> svc_price svc = Fin 30000 \<and> svc_duration svc = 2
     \<and> py_sum_num (dict_values DEFAULT_OVERHEAD_COSTS) = Inr (PyInt 108000)
     \<and> (\<exists>d s. calculate_deliverable_cashflow SERVICES_CATALOG DEFAULT_OVERHEAD_COSTS
                  \<lparr>req_deliverables = [example_D1 ''2025-03-31'']\<rparr>
                = Inr \<lparr>resp_deliverables = [d], resp_summary = s\<rparr>
          \<and> overhead d = Fin 216187.5 \<and> cash_out d = Fin 217437.5
          \<and> net_flow d = Fin (- 187437.5) \<and> \<not> is_profitable d)"
proof -
  from example_D1_cashflow[of SERVICES_CATALOG _ DEFAULT_OVERHEAD_COSTS "''2025-03-31''",
      OF catalog_1_2 _ _ disjI1[OF default_overhead_sum]]
  obtain d s where
    "calculate_deliverable_cashflow SERVICES_CATALOG DEFAULT_OVERHEAD_COSTS
       \<lparr>req_deliverables = [example_D1 ''2025-03-31'']\<rparr>
     = Inr \<lparr>resp_deliverables = [d], resp_summary = s\<rparr>"
    "overhead d = Fin 216187.5" "cash_out d = Fin 217437.5" "net_flow d = Fin (- 187437.5)"
    "\<not> is_profitable d"
    by auto
  with catalog_1_2 default_overhead_sum show ?thesis by auto
qed

section \<open>The validation of the payment terms\<close>

lemma lit_0_01_value [fl_eval]: "lit_0_01 = Fin (5764607523034235 / 576460752303423488)"
  by (simp add: lit_0_01_def fl_eval)

lemma terms_rejected_Fin:
  "terms_rejected (Fin s) = flt lit_0_01 (fabs (fl (s - 100)))"
  by (simp add: terms_rejected_def fsub_def)

lemma terms_accept_band:
  assumes "\<bar>s - 100\<bar> \<le> 0.0099"
  shows "\<not> terms_rejected (Fin s)"
proof -
  define y where "y = s - 100"
  have y: "\<bar>y\<bar> \<le> 99 / 10000" using assms by (simp add: y_def)
  then have "\<bar>y\<bar> \<le> 2 ^ 1023" by simp
  then have f: "fl y = Fin (rd y)" by (rule fl_Fin)
  have e: "\<bar>rd y - y\<bar> \<le> \<bar>y\<bar> / 9007199254740992 + 1 / 2 ^ 1075"
    using rd_error[of y] by simp
  have "(1::real) / 2 ^ 1075 \<le> 1 / 1000000" by simp
  with e y have "\<bar>rd y\<bar> \<le> 5764607523034235 / 576460752303423488" by linarith
  then show ?thesis
    by (simp add: terms_rejected_Fin y_def[symmetric] f lit_0_01_value)
qed

lemma terms_reject_band:
  assumes "0.0101 \<le> \<bar>s - 100\<bar>"
  shows "terms_rejected (Fin s)"
proof -
  define y where "y = s - 100"
  have y: "101 / 10000 \<le> \<bar>y\<bar>" using assms by (simp add: y_def)
  have e: "\<bar>rd y - y\<bar> \<le> \<bar>y\<bar> / 9007199254740992 + 1 / 2 ^ 1075"
    using rd_error[of y] by simp
  have "(1::real) / 2 ^ 1075 \<le> 1 / 1000000" by simp
  with e y have r: "5764607523034235 / 576460752303423488 < \<bar>rd y\<bar>" by linarith
  from fl_cases[of y] show ?thesis
    using r by (auto simp: terms_rejected_Fin y_def[symmetric] lit_0_01_value)
qed

lemma proposal_accepted:
  assumes "\<not> terms_rejected (foldl fadd (Fin 0) (map pt_percentage (payment_terms_in request)))"
  shows "\<exists>resp. create_financial_proposal clk uuid store request
          = (Inr resp, store(pr_quotation_code resp \<mapsto>
               \<lparr>st_metadata = None, st_proposal = Some (pr_proposal resp),
                st_created_at = isoformat (clk 3)\<rparr>))"
  using assms by (simp add: create_financial_proposal_def py_sum_def Let_def)

lemma proposal_rejected:
  assumes "terms_rejected (foldl fadd (Fin 0) (map pt_percentage (payment_terms_in request)))"
  shows "create_financial_proposal clk uuid store request
          = (Inl (proposal_failure (payment_terms_error
                (foldl fadd (Fin 0) (map pt_percentage (payment_terms_in request))))), store)"
  using assms by (simp add: create_financial_proposal_def py_sum_def Let_def)

lemma example_code_1:
  "generate_quotation_code (example_clock 0) example_uuid_1 = ''MUT-20250301-0F8FAD5B''"
  by (simp add: generate_quotation_code_def example_clock_def py_upper_def example_uuid_1_def)

text \<open>
  Claim C4, as stated: terms whose percentages sum to a value within 0.01 of 100 are
  accepted. The two valid terms 10.01 and 90 (the doubles these literals denote) sum to
  a number below 100.01, so within 0.01 of 100; the endpoint adds them in double
  precision, gets the double nearest to 100.01, which lies above the number 100.01, finds
  it more than 0.01 away from 100 and rejects the request.
\<close>

theorem payment_terms_counterexample:
  "list_all valid_PaymentTerm (example_terms [fl 10.01, Fin 90])
   \<and> \<bar>sum_list (map (value_of \<circ> pt_percentage) (example_terms [fl 10.01, Fin 90])) - 100\<bar>
       \<le> 0.01
   \<and> create_financial_proposal example_clock example_uuid_1 Map.empty
        \<lparr>proposal_items = example_items, payment_terms_in = example_terms [fl 10.01, Fin 90]\<rparr>
       = (Inl (proposal_failure (payment_terms_error (fl 100.01))), Map.empty)"
proof -
  have a: "list_all valid_PaymentTerm (example_terms [fl 10.01, Fin 90])"
    by (simp add: example_terms_def valid_PaymentTerm_def fl_eval)
  have b: "\<bar>sum_list (map (value_of \<circ> pt_percentage) (example_terms [fl 10.01, Fin 90])) - 100\<bar>
       \<le> 0.01"
    by (simp add: example_terms_def fl_eval)
  have c: "create_financial_proposal example_clock example_uuid_1 Map.empty
        \<lparr>proposal_items = example_items, payment_terms_in = example_terms [fl 10.01, Fin 90]\<rparr>
       = (Inl (proposal_failure (payment_terms_error (fl 100.01))), Map.empty)"
    by (simp add: create_financial_proposal_def terms_rejected_def py_sum_def fsub_def
        example_terms_def Let_def fl_eval)
  show ?thesis by (intro conjI a b c)
qed

text \<open>
  Claim C4, amended. The endpoint adds the percentages left to right in double precision
  and rejects the request exactly when \<^verbatim>\<open>abs(total - 100) > 0.01\<close> holds of that double
  sum in double precision. So for every set of payment terms whose double-precision sum is
  within 0.0099 of 100 the assembly succeeds and the proposal is stored under its quotation
  code, and for every set whose double-precision sum differs from 100 by 0.0101 or more
  the request is rejected: the endpoint raises and the store is left as it was.
\<close>

theorem payment_terms_validation:
  "(\<not> terms_rejected (foldl fadd (Fin 0) (map pt_percentage (payment_terms_in request))) \<longrightarrow>
      (\<exists>resp. create_financial_proposal clk uuid store request
          = (Inr resp, store(pr_quotation_code resp \<mapsto>
               \<lparr>st_metadata = None, st_proposal = Some (pr_proposal resp),
                st_created_at = isoformat (clk 3)\<rparr>))))
   \<and> (terms_rejected (foldl fadd (Fin 0) (map pt_percentage (payment_terms_in request))) \<longrightarrow>
        (\<exists>e. create_financial_proposal clk uuid store request = (Inl e, store)))
   \<and> (\<forall>s. foldl fadd (Fin 0) (map pt_percentage (payment_terms_in request)) = Fin s
            \<and> \<bar>s - 100\<bar> \<le> 0.0099 \<longrightarrow>
        (\<exists>resp. create_financial_proposal clk uuid store request
          = (Inr resp, store(pr_quotation_code resp \<mapsto>
               \<lparr>st_metadata = None, st_proposal = Some (pr_proposal resp),
                st_created_at = isoformat (clk 3)\<rparr>))))
   \<and> (\<forall>s. foldl fadd (Fin 0) (map pt_percentage (payment_terms_in request)) = Fin s
            \<and> 0.0101 \<le> \<bar>s - 100\<bar> \<longrightarrow>
        (\<exists>e. create_financial_proposal clk uuid store request = (Inl e, store)))"
proof (intro conjI allI impI)
  let ?total = "foldl fadd (Fin 0) (map pt_percentage (payment_terms_in request))"
  show "\<exists>resp. create_financial_proposal clk uuid store request
          = (Inr resp, store(pr_quotation_code resp \<mapsto>
               \<lparr>st_metadata = None, st_proposal = Some (pr_proposal resp),
                st_created_at = isoformat (clk 3)\<rparr>))"
    if "\<not> terms_rejected ?total"
    using that by (rule proposal_accepted)
  show "\<exists>e. create_financial_proposal clk uuid store request = (Inl e, store)"
    if "terms_rejected ?total"
    by (rule exI, rule proposal_rejected[OF that])
  show "\<exists>resp. create_financial_proposal clk uuid store request
          = (Inr resp, store(pr_quotation_code resp \<mapsto>
               \<lparr>st_metadata = None, st_proposal = Some (pr_proposal resp),
                st_created_at = isoformat (clk 3)\<rparr>))"
    if h: "?total = Fin s \<and> \<bar>s - 100\<bar> \<le> 0.0099" for s
  proof -
    from h terms_accept_band[of s] have "\<not> terms_rejected ?total" by simp
    then show ?thesis by (rule proposal_accepted)
  qed
  show "\<exists>e. create_financial_proposal clk uuid store request = (Inl e, store)"
    if h: "?total = Fin s \<and> 0.0101 \<le> \<bar>s - 100\<bar>" for s
  proof -
    from h terms_reject_band[of s] have r: "terms_rejected ?total" by simp
    show ?thesis by (rule exI, rule proposal_rejected[OF r])
  qed
qed

theorem payment_terms_validation_witness:
  "foldl fadd (Fin 0) (map pt_percentage (example_terms [Fin 30, Fin 30, Fin 40])) = Fin 100
   \<and> (\<exists>resp s. create_financial_proposal example_clock example_uuid_1 Map.empty
         \<lparr>proposal_items = example_items,
          payment_terms_in = example_terms [Fin 30, Fin 30, Fin 40]\<rparr> = (Inr resp, s))
   \<and> foldl fadd (Fin 0) (map pt_percentage (example_terms [Fin 30, Fin 30, Fin 39])) = Fin 99
   \<and> (\<exists>e. create_financial_proposal example_clock example_uuid_1 Map.empty
         \<lparr>proposal_items = example_items,
          payment_terms_in = example_terms [Fin 30, Fin 30, Fin 39]\<rparr> = (Inl e, Map.empty))"
proof -
  let ?ok = "\<lparr>proposal_items = example_items,
    payment_terms_in = example_terms [Fin 30, Fin 30, Fin 40]\<rparr>"
  let ?bad = "\<lparr>proposal_items = example_items,
    payment_terms_in = example_terms [Fin 30, Fin 30, Fin 39]\<rparr>"
  have a: "foldl fadd (Fin 0) (map pt_percentage (example_terms [Fin 30, Fin 30, Fin 40])) = Fin 100"
    by (simp add: example_terms_def)
  have b: "foldl fadd (Fin 0) (map pt_percentage (example_terms [Fin 30, Fin 30, Fin 39])) = Fin 99"
    by (simp add: example_terms_def)
  have a': "foldl fadd (Fin 0) (map pt_percentage (payment_terms_in ?ok)) = Fin 100
      \<and> \<bar>100 - 100\<bar> \<le> (0.0099 :: real)"
    using a by simp
  have b': "foldl fadd (Fin 0) (map pt_percentage (payment_terms_in ?bad)) = Fin 99
      \<and> (0.0101 :: real) \<le> \<bar>99 - 100\<bar>"
    using b by simp
  note t1 = payment_terms_validation[of ?ok example_clock example_uuid_1 Map.empty]
  note t2 = payment_terms_validation[of ?bad example_clock example_uuid_1 Map.empty]
  from conjunct1[OF conjunct2[OF conjunct2[OF t1]], rule_format, OF a']
  have c: "\<exists>resp s. create_financial_proposal example_clock example_uuid_1 Map.empty ?ok
      = (Inr resp, s)"
    by blast
  from conjunct2[OF conjunct2[OF conjunct2[OF t2]], rule_format, OF b']
  have d: "\<exists>e. create_financial_proposal example_clock example_uuid_1 Map.empty ?bad
      = (Inl e, Map.empty)" .
  show ?thesis by (intro conjI a c b d)
qed

section \<open>The amounts of the payment terms\<close>

lemma amount_error:
  assumes T: "0 \<le> T" and c: "0 \<le> c"
  shows "\<bar>rd (T * rd c) - T * c\<bar> \<le> T * c * (3 / 2 ^ 53) + (1 + 2 * T) / 2 ^ 1075"
proof -
  define q where "q = rd c"
  define u :: real where "u = 1 / 2 ^ 53"
  define h :: real where "h = 1 / 2 ^ 1075"
  have u: "0 \<le> u" "u \<le> 1" by (simp_all add: u_def)
  have h: "0 \<le> h" by (simp add: h_def)
  have q0: "0 \<le> q" using rd_nonneg[OF c] by (simp add: q_def)
  have qc: "\<bar>q - c\<bar> \<le> c * u + h"
    using rd_error[of c] c by (simp add: q_def u_def h_def)
  then have q_le: "q \<le> c * (1 + u) + h"
    by (simp add: algebra_simps abs_le_iff)
  have Tq0: "0 \<le> T * q" using T q0 by simp
  have "\<bar>rd (T * q) - T * q\<bar> \<le> T * q * u + h"
    using rd_error[of "T * q"] Tq0 by (simp add: u_def h_def)
  also have "T * q * u \<le> T * (c * (1 + u) + h) * u"
    using q_le T u by (intro mult_right_mono mult_left_mono) auto
  finally have e1: "\<bar>rd (T * q) - T * q\<bar> \<le> T * (c * (1 + u) + h) * u + h" by simp
  have "\<bar>T * q - T * c\<bar> = T * \<bar>q - c\<bar>"
    using T by (simp add: abs_mult right_diff_distrib[symmetric])
  also have "\<dots> \<le> T * (c * u + h)"
    using qc T by (intro mult_left_mono) auto
  finally have e2: "\<bar>T * q - T * c\<bar> \<le> T * (c * u + h)" .
  have "u * u \<le> u" using u by (simp add: mult_left_le)
  then have a: "T * c * (u * u) \<le> T * c * u"
    using T c by (intro mult_left_mono) auto
  have b: "T * h * u \<le> T * h"
    using T h u by (simp add: mult_left_le)
  have e3: "T * (c * (1 + u) + h) * u + h + T * (c * u + h) \<le> T * c * (3 * u) + (1 + 2 * T) * h"
    using a b by (simp add: algebra_simps)
  have "\<bar>rd (T * q) - T * c\<bar> \<le> \<bar>rd (T * q) - T * q\<bar> + \<bar>T * q - T * c\<bar>"
    by simp
  with e1 e2 e3 have "\<bar>rd (T * q) - T * c\<bar> \<le> T * c * (3 * u) + (1 + 2 * T) * h" by linarith
  then show ?thesis by (simp add: q_def u_def h_def)
qed

lemma amounts_sum_error:
  assumes T: "0 \<le> T" and ps: "\<forall>p\<in>set ps. 0 \<le> p"
  shows "\<bar>sum_list (map (\<lambda>p. rd (T * rd (p / 100))) ps) - T * (sum_list ps / 100)\<bar>
           \<le> T * (sum_list ps / 100) * (3 / 2 ^ 53) + real (length ps) * ((1 + 2 * T) / 2 ^ 1075)"
  using ps
proof (induction ps)
  case Nil
  then show ?case by simp
next
  case (Cons p ps)
  define k :: real where "k = (1 + 2 * T) / 2 ^ 1075"
  have a: "\<bar>rd (T * rd (p / 100)) - T * (p / 100)\<bar> \<le> T * (p / 100) * (3 / 2 ^ 53) + k"
    using amount_error[OF T, of "p / 100"] Cons.prems by (simp add: k_def)
  have b: "\<bar>sum_list (map (\<lambda>p. rd (T * rd (p / 100))) ps) - T * (sum_list ps / 100)\<bar>
           \<le> T * (sum_list ps / 100) * (3 / 2 ^ 53) + real (length ps) * k"
    using Cons by (simp add: k_def)
  have "sum_list (map (\<lambda>p. rd (T * rd (p / 100))) (p # ps)) - T * (sum_list (p # ps) / 100)
      = (rd (T * rd (p / 100)) - T * (p / 100))
        + (sum_list (map (\<lambda>p. rd (T * rd (p / 100))) ps) - T * (sum_list ps / 100))"
    by (simp add: algebra_simps add_divide_distrib)
  then have "\<bar>sum_list (map (\<lambda>p. rd (T * rd (p / 100))) (p # ps)) - T * (sum_list (p # ps) / 100)\<bar>
      \<le> (T * (p / 100) * (3 / 2 ^ 53) + k) + (T * (sum_list ps / 100) * (3 / 2 ^ 53) + real (length ps) * k)"
    using a b by linarith
  also have "\<dots> = T * (sum_list (p # ps) / 100) * (3 / 2 ^ 53) + real (length (p # ps)) * k"
    by (simp add: algebra_simps add_divide_distrib)
  finally show ?case by (simp only: k_def)
qed

lemma valid_PaymentTerm_Fin:
  assumes "valid_PaymentTerm t"
  shows "\<exists>p. pt_percentage t = Fin p \<and> 0 < p \<and> p \<le> 100"
  using assms by (cases "pt_percentage t") (auto simp: valid_PaymentTerm_def)

lemma term_amount_value:
  assumes "0 \<le> T" and "T \<le> 2 ^ 1000" and "0 < p" and "p \<le> 100"
  shows "fmul (Fin T) (fquot (Fin p) (Fin 100)) = Fin (rd (T * rd (p / 100)))"
proof -
  have c: "0 \<le> p / 100" "p / 100 \<le> 1" using assms(3,4) by simp_all
  then have "\<bar>p / 100\<bar> \<le> 2 ^ 1023" by simp
  then have f1: "fl (p / 100) = Fin (rd (p / 100))" by (rule fl_Fin)
  have q0: "0 \<le> rd (p / 100)" using rd_nonneg[OF c(1)] .
  have "\<bar>rd (p / 100) - p / 100\<bar> \<le> (p / 100) / 2 ^ 53 + 1 / 2 ^ 1075"
    using rd_error[of "p / 100"] c(1) by simp
  with c have q2: "rd (p / 100) \<le> 2" by (simp add: abs_le_iff)
  have "T * rd (p / 100) \<le> 2 ^ 1000 * 2"
    using assms(1,2) q0 q2 by (intro mult_mono) auto
  then have "\<bar>T * rd (p / 100)\<bar> \<le> 2 ^ 1023"
    using assms(1) q0 by simp
  then have f2: "fl (T * rd (p / 100)) = Fin (rd (T * rd (p / 100)))" by (rule fl_Fin)
  show ?thesis by (simp add: f1 f2)
qed

lemma term_amounts_values:
  assumes "0 \<le> T" and "T \<le> 2 ^ 1000" and "list_all valid_PaymentTerm ts"
  shows "map (\<lambda>t. value_of (fmul (Fin T) (fquot (pt_percentage t) (Fin 100)))) ts
       = map (\<lambda>p. rd (T * rd (p / 100))) (map (value_of \<circ> pt_percentage) ts)"
  using assms(3)
proof (induction ts)
  case Nil
  then show ?case by simp
next
  case (Cons t ts)
  from Cons.prems have "valid_PaymentTerm t" by simp
  from valid_PaymentTerm_Fin[OF this] obtain p where
    p: "pt_percentage t = Fin p" "0 < p" "p \<le> 100" by blast
  from term_amount_value[OF assms(1,2) p(2,3)] p(1) Cons show ?case by simp
qed

lemma example_rounding_created:
  "fst (create_financial_proposal example_clock example_uuid_1 Map.empty example_rounding_request)
     = Inr \<lparr>pr_success = True, pr_quotation_code = ''MUT-20250301-0F8FAD5B'',
            pr_proposal = example_rounding_proposal\<rparr>"
  by (simp add: create_financial_proposal_def terms_rejected_def py_sum_def fsub_def Let_def
      example_rounding_request_def example_rounding_proposal_def example_terms_def
      generate_quotation_code_def py_upper_def example_uuid_1_def example_clock_def fl_eval)

text \<open>
  Claim C8, as stated: in every accepted proposal whose percentages sum to exactly 100
  the amounts of the payment terms sum to \<open>total_amount\<close>. It does not hold: the
  amounts are computed in double precision. One item of total price 3 with terms of 20 and
  80 percent is accepted; its amounts are the doubles nearest to 0.6 and 2.4 after the
  two rounded operations (printed 0.6000000000000001 and 2.4000000000000004), and they sum
  to \<open>3 + 2\<^sup>-\<^sup>5\<^sup>1\<close>, not to 3, whether added exactly or in double precision.
\<close>

theorem proposal_amounts_counterexample:
  "fst (create_financial_proposal example_clock example_uuid_1 Map.empty example_rounding_request)
     = Inr \<lparr>pr_success = True, pr_quotation_code = ''MUT-20250301-0F8FAD5B'',
            pr_proposal = example_rounding_proposal\<rparr>
   \<and> sum_list (map (value_of \<circ> pt_percentage) (payment_terms_in example_rounding_request)) = 100
   \<and> total_amount example_rounding_proposal = Fin 3
   \<and> sum_list (map (value_of \<circ> amount) (payment_terms example_rounding_proposal)) = 3 + 1 / 2 ^ 51
   \<and> foldl fadd (Fin 0) (map amount (payment_terms example_rounding_proposal))
       = Fin (3 + 1 / 2 ^ 51)
   \<and> foldl fadd (Fin 0) (map amount (payment_terms example_rounding_proposal))
       \<noteq> total_amount example_rounding_proposal"
proof -
  have a: "sum_list (map (value_of \<circ> pt_percentage) (payment_terms_in example_rounding_request)) = 100"
    by (simp add: example_rounding_request_def example_terms_def)
  have b: "total_amount example_rounding_proposal = Fin 3"
    by (simp add: example_rounding_proposal_def)
  have c: "sum_list (map (value_of \<circ> amount) (payment_terms example_rounding_proposal)) = 3 + 1 / 2 ^ 51"
    by (simp add: example_rounding_proposal_def)
  have d: "foldl fadd (Fin 0) (map amount (payment_terms example_rounding_proposal))
       = Fin (3 + 1 / 2 ^ 51)"
    by (simp add: example_rounding_proposal_def fl_eval)
  have e: "foldl fadd (Fin 0) (map amount (payment_terms example_rounding_proposal))
       \<noteq> total_amount example_rounding_proposal"
    by (simp add: example_rounding_proposal_def fl_eval)
  show ?thesis by (intro conjI example_rounding_created a b c d e)
qed

text \<open>
  Claim C8, amended. In every accepted proposal, \<open>total_amount\<close> is the left-to-right
  double-precision sum of the items' \<open>total_price\<close>, the items are kept, and the payment
  terms are the input terms in input order, each with amount =
  \<open>total_amount * (percentage / 100)\<close> as double precision computes it, the division and
  the multiplication each rounded. When the terms satisfy their field constraints, their
  percentages sum to exactly 100 and \<open>total_amount\<close> is a number \<open>T\<close> between 0 and
  \<open>2\<^sup>1\<^sup>0\<^sup>0\<^sup>0\<close>, the amounts are finite and sum to \<open>T\<close> up to rounding: the difference
  is at most \<open>3 * 2\<^sup>-\<^sup>5\<^sup>3\<close> times \<open>T\<close>, plus \<open>(1 + 2 * T) * 2\<^sup>-\<^sup>1\<^sup>0\<^sup>7\<^sup>5\<close> for each
  payment term, and is not always zero. Items that total 500000 with terms of 40 and 60
  percent give the amounts 200000 and 300000 exactly.
\<close>

theorem proposal_amounts:
  assumes "create_financial_proposal clk uuid store request = (Inr resp, store')"
  shows "total_amount (pr_proposal resp)
       = foldl fadd (Fin 0) (map pi_total_price (proposal_items request))
     \<and> items (pr_proposal resp) = proposal_items request
     \<and> payment_terms (pr_proposal resp) =
         map (\<lambda>t. \<lparr>description = pt_description t, percentage = pt_percentage t,
                    amount = fmul (total_amount (pr_proposal resp))
                                  (fquot (pt_percentage t) (Fin 100))\<rparr>)
             (payment_terms_in request)
     \<and> (\<forall>T. total_amount (pr_proposal resp) = Fin T \<and> 0 \<le> T \<and> T \<le> 2 ^ 1000
          \<and> list_all valid_PaymentTerm (payment_terms_in request)
          \<and> sum_list (map (value_of \<circ> pt_percentage) (payment_terms_in request)) = 100 \<longrightarrow>
          \<bar>sum_list (map (value_of \<circ> amount) (payment_terms (pr_proposal resp))) - T\<bar>
            \<le> T * (3 / 2 ^ 53)
               + real (length (payment_terms_in request)) * ((1 + 2 * T) / 2 ^ 1075))
     \<and> (total_amount (pr_proposal resp) = Fin 500000
          \<and> map pt_percentage (payment_terms_in request) = [Fin 40, Fin 60] \<longrightarrow>
          map amount (payment_terms (pr_proposal resp)) = [Fin 200000, Fin 300000])"
proof -
  let ?total = "py_sum (map pi_total_price (proposal_items request))"
  let ?terms = "map (\<lambda>t. \<lparr>description = pt_description t, percentage = pt_percentage t,
                    amount = fmul ?total (fquot (pt_percentage t) (Fin 100))\<rparr>)
                  (payment_terms_in request)"
  from assms have p: "total_amount (pr_proposal resp) = ?total"
    "items (pr_proposal resp) = proposal_items request"
    "payment_terms (pr_proposal resp) = ?terms"
    by (auto simp: create_financial_proposal_def Let_def split: if_splits)
  have s: "\<bar>sum_list (map (value_of \<circ> amount) ?terms) - T\<bar>
            \<le> T * (3 / 2 ^ 53)
               + real (length (payment_terms_in request)) * ((1 + 2 * T) / 2 ^ 1075)"
    if h: "?total = Fin T" "0 \<le> T" "T \<le> 2 ^ 1000"
      "list_all valid_PaymentTerm (payment_terms_in request)"
      "sum_list (map (value_of \<circ> pt_percentage) (payment_terms_in request)) = 100" for T
  proof -
    let ?ps = "map (value_of \<circ> pt_percentage) (payment_terms_in request)"
    have am: "map (value_of \<circ> amount) ?terms = map (\<lambda>p. rd (T * rd (p / 100))) ?ps"
      using term_amounts_values[OF h(2,3,4)] by (simp add: h(1) comp_def)
    have ps: "\<forall>p\<in>set ?ps. 0 \<le> p"
      using h(4) valid_PaymentTerm_Fin by (fastforce simp: list_all_iff)
    have "\<bar>sum_list (map (\<lambda>p. rd (T * rd (p / 100))) ?ps) - T\<bar>
            \<le> T * (3 / 2 ^ 53) + real (length ?ps) * ((1 + 2 * T) / 2 ^ 1075)"
      using amounts_sum_error[OF h(2) ps] unfolding h(5) by simp
    then show ?thesis unfolding am by simp
  qed
  have e: "map amount ?terms = [Fin 200000, Fin 300000]"
    if "?total = Fin 500000" "map pt_percentage (payment_terms_in request) = [Fin 40, Fin 60]"
  proof -
    have "map amount ?terms
        = map (\<lambda>x. fmul ?total (fquot x (Fin 100))) (map pt_percentage (payment_terms_in request))"
      by (simp add: comp_def)
    also have "\<dots> = [Fin 200000, Fin 300000]"
      by (simp add: that fl_eval)
    finally show ?thesis .
  qed
  from p s e show ?thesis by (simp add: py_sum_def)
qed

theorem proposal_amounts_witness:
  "\<exists>resp s. create_financial_proposal example_clock example_uuid_1 Map.empty
       \<lparr>proposal_items = example_items,
        payment_terms_in = example_terms [Fin 40, Fin 60]\<rparr> = (Inr resp, s)
     \<and> list_all valid_PaymentTerm (example_terms [Fin 40, Fin 60])
     \<and> sum_list (map (value_of \<circ> pt_percentage) (example_terms [Fin 40, Fin 60])) = 100
     \<and> total_amount (pr_proposal resp) = Fin 500000
     \<and> map amount (payment_terms (pr_proposal resp)) = [Fin 200000, Fin 300000]
     \<and> \<bar>sum_list (map (value_of \<circ> amount) (payment_terms (pr_proposal resp))) - 500000\<bar>
         \<le> 500000 * (3 / 2 ^ 53) + 2 * ((1 + 2 * 500000) / 2 ^ 1075)"
proof -
  let ?req = "\<lparr>proposal_items = example_items,
    payment_terms_in = example_terms [Fin 40, Fin 60]\<rparr>"
  obtain resp s where
    r: "create_financial_proposal example_clock example_uuid_1 Map.empty ?req = (Inr resp, s)"
    by (simp add: create_financial_proposal_def terms_rejected_def py_sum_def fsub_def Let_def
        example_terms_def fl_eval)
  have a: "foldl fadd (Fin 0) (map pi_total_price (proposal_items ?req)) = Fin 500000"
    by (simp add: example_items_def)
  have b: "map pt_percentage (payment_terms_in ?req) = [Fin 40, Fin 60]"
    by (simp add: example_terms_def)
  have c: "sum_list (map (value_of \<circ> pt_percentage) (example_terms [Fin 40, Fin 60])) = 100"
    by (simp add: example_terms_def)
  have v: "list_all valid_PaymentTerm (example_terms [Fin 40, Fin 60])"
    by (simp add: example_terms_def valid_PaymentTerm_def)
  note pa = proposal_amounts[OF r]
  from pa have "total_amount (pr_proposal resp)
      = foldl fadd (Fin 0) (map pi_total_price (proposal_items ?req))"
    by (rule conjunct1)
  then have t1: "total_amount (pr_proposal resp) = Fin 500000"
    using a by (rule trans)
  have h2: "total_amount (pr_proposal resp) = Fin 500000
      \<and> map pt_percentage (payment_terms_in ?req) = [Fin 40, Fin 60]"
    using t1 b by (rule conjI)
  from conjunct2[OF conjunct2[OF conjunct2[OF conjunct2[OF pa]]], rule_format, OF h2]
  have t2: "map amount (payment_terms (pr_proposal resp)) = [Fin 200000, Fin 300000]" .
  have h3: "total_amount (pr_proposal resp) = Fin 500000 \<and> 0 \<le> (500000::real)
      \<and> (500000::real) \<le> 2 ^ 1000
      \<and> list_all valid_PaymentTerm (payment_terms_in ?req)
      \<and> sum_list (map (value_of \<circ> pt_percentage) (payment_terms_in ?req)) = 100"
    using t1 v c by simp
  from conjunct1[OF conjunct2[OF conjunct2[OF conjunct2[OF pa]]], rule_format, OF h3]
  have t3: "\<bar>sum_list (map (value_of \<circ> amount) (payment_terms (pr_proposal resp))) - 500000\<bar>
         \<le> 500000 * (3 / 2 ^ 53) + 2 * ((1 + 2 * 500000) / 2 ^ 1075)"
    by (simp add: example_terms_def)
  show ?thesis
    by (rule exI[of _ resp], rule exI[of _ s]) (intro conjI r v c t1 t2 t3)
qed

section \<open>Claims about the price justification\<close>

lemma justification_cases:
  "generate_price_justification cat key generate sid price =
     Inr (case cat sid of
        None \<Rightarrow> fallback_not_found
      | Some svc \<Rightarrow>
          (case key of
             None \<Rightarrow> fallback_no_key
           | Some k \<Rightarrow>
               if k = [] then fallback_no_key
               else (case generate k svc price of
                       Raises e \<Rightarrow> fallback_error
                     | Returns None \<Rightarrow> fallback_empty
                     | Returns (Some (TextRaises e)) \<Rightarrow> fallback_error
                     | Returns (Some (Text t)) \<Rightarrow> if t = [] then fallback_empty else py_strip t)))"
  by (simp add: generate_price_justification_def justification_body_def
      split: option.splits provider_outcome.splits response_text.splits)

lemma strip_example: "py_strip example_text = literal ''Priced fairly.''"
  by (simp add: py_strip_def py_isspace_def example_text_def literal_def)

lemma example_text_not_empty: "example_text \<noteq> []"
  by (simp add: example_text_def)

text \<open>
  Claim C9. The justification endpoint returns a response for every request, whatever
  the text-generation service does: the function it calls always returns a string. That
  string is the fixed not-found string when the service id is not in the catalog; the
  fixed configuration string when the API key is absent or empty; the service's text,
  stripped of the whitespace (that of Unicode) at its two ends, when the service returns a
  non-empty text; a fixed string when it returns no response or an empty text; and another
  fixed string when the call or the reading of the text raises.
\<close>

theorem price_justification_never_fails:
  "(\<exists>j. generate_price_justification cat key generate
            (pj_service_id request) (pj_proposed_price request) = Inr j
        \<and> generate_price_justification_endpoint cat key generate request
            = Inr \<lparr>jr_service_id = pj_service_id request,
                   jr_proposed_price = pj_proposed_price request,
                   jr_justification = j\<rparr>)
   \<and> (cat sid = None \<longrightarrow>
         generate_price_justification cat key generate sid price = Inr fallback_not_found)
   \<and> (cat sid = Some svc \<and> (key = None \<or> key = Some []) \<longrightarrow>
         generate_price_justification cat key generate sid price = Inr fallback_no_key)
   \<and> (cat sid = Some svc \<and> key = Some k \<and> k \<noteq> [] \<longrightarrow>
         (\<forall>t. generate k svc price = Returns (Some (Text t)) \<and> t \<noteq> [] \<longrightarrow>
               generate_price_justification cat key generate sid price = Inr (py_strip t))
       \<and> (generate k svc price = Returns (Some (Text [])) \<or> generate k svc price = Returns None \<longrightarrow>
               generate_price_justification cat key generate sid price = Inr fallback_empty)
       \<and> ((\<exists>e. generate k svc price = Raises e
                \<or> generate k svc price = Returns (Some (TextRaises e))) \<longrightarrow>
               generate_price_justification cat key generate sid price = Inr fallback_error))"
  by (auto simp: justification_cases generate_price_justification_endpoint_def)

theorem price_justification_never_fails_witness:
  "generate_price_justification SERVICES_CATALOG (Some ''key'')
       (example_provider (Returns (Some (Text example_text)))) ''1.2'' (Fin 25000)
     = Inr (literal ''Priced fairly.'')
   \<and> generate_price_justification SERVICES_CATALOG (Some ''key'')
       (example_provider (Raises (OtherError ''timeout''))) ''1.2'' (Fin 25000) = Inr fallback_error
   \<and> generate_price_justification SERVICES_CATALOG (Some ''key'')
       (example_provider (Returns None)) ''1.2'' (Fin 25000) = Inr fallback_empty
   \<and> generate_price_justification SERVICES_CATALOG None
       (example_provider (Returns None)) ''1.2'' (Fin 25000) = Inr fallback_no_key
   \<and> generate_price_justification SERVICES_CATALOG (Some ''key'')
       (example_provider (Returns None)) ''9.9'' (Fin 25000) = Inr fallback_not_found
   \<and> generate_price_justification_endpoint SERVICES_CATALOG (Some ''key'')
       (example_provider (Raises (OtherError ''timeout'')))
       \<lparr>pj_service_id = ''1.2'', pj_proposed_price = Fin 25000\<rparr>
     = Inr \<lparr>jr_service_id = ''1.2'', jr_proposed_price = Fin 25000,
            jr_justification = fallback_error\<rparr>"
proof -
  note c1 = catalog_example_svc and c9 = catalog_9_9
  note t = price_justification_never_fails[of SERVICES_CATALOG _ _ _ _ _ example_svc "''key''"]
  have "generate_price_justification SERVICES_CATALOG (Some ''key'')
       (example_provider (Returns (Some (Text example_text)))) ''1.2'' (Fin 25000)
     = Inr (py_strip example_text)"
    using t[of "Some ''key''" "example_provider (Returns (Some (Text example_text)))" _ "''1.2''"
        "Fin 25000"] c1 example_text_not_empty
    by (simp add: example_provider_def)
  then have a: "generate_price_justification SERVICES_CATALOG (Some ''key'')
       (example_provider (Returns (Some (Text example_text)))) ''1.2'' (Fin 25000)
     = Inr (literal ''Priced fairly.'')"
    by (simp add: strip_example)
  have b: "generate_price_justification SERVICES_CATALOG (Some ''key'')
       (example_provider (Raises (OtherError ''timeout''))) ''1.2'' (Fin 25000) = Inr fallback_error"
    using t[of "Some ''key''" "example_provider (Raises (OtherError ''timeout''))" _ "''1.2''"
        "Fin 25000"] c1
    by (simp add: example_provider_def)
  have c: "generate_price_justification SERVICES_CATALOG (Some ''key'')
       (example_provider (Returns None)) ''1.2'' (Fin 25000) = Inr fallback_empty"
    using t[of "Some ''key''" "example_provider (Returns None)" _ "''1.2''" "Fin 25000"] c1
    by (simp add: example_provider_def)
  have d: "generate_price_justification SERVICES_CATALOG None
       (example_provider (Returns None)) ''1.2'' (Fin 25000) = Inr fallback_no_key"
    using t[of None "example_provider (Returns None)" _ "''1.2''" "Fin 25000"] c1
    by simp
  have e: "generate_price_justification SERVICES_CATALOG (Some ''key'')
       (example_provider (Returns None)) ''9.9'' (Fin 25000) = Inr fallback_not_found"
    using t[of "Some ''key''" "example_provider (Returns None)" _ "''9.9''" "Fin 25000"] c9
    by simp
  have f: "generate_price_justification_endpoint SERVICES_CATALOG (Some ''key'')
       (example_provider (Raises (OtherError ''timeout'')))
       \<lparr>pj_service_id = ''1.2'', pj_proposed_price = Fin 25000\<rparr>
     = Inr \<lparr>jr_service_id = ''1.2'', jr_proposed_price = Fin 25000,
            jr_justification = fallback_error\<rparr>"
    using t[of "Some ''key''" "example_provider (Raises (OtherError ''timeout''))"
        "\<lparr>pj_service_id = ''1.2'', pj_proposed_price = Fin 25000\<rparr>" "''1.2''" "Fin 25000"] b
    by simp
  show ?thesis by (intro conjI a b c d e f)
qed

section \<open>Claims about the proposal store\<close>

lemma create_project_metadata_store:
  "create_project_metadata strptime clk uuid s m = (res, s') \<Longrightarrow>
     (\<exists>e. res = Inl e \<and> s' = s)
   \<or> (\<exists>resp. res = Inr resp
         \<and> mr_quotation_code resp = generate_quotation_code (clk 0) uuid
         \<and> s' = s(mr_quotation_code resp \<mapsto>
                  \<lparr>st_metadata = Some (mr_metadata resp), st_proposal = None,
                   st_created_at = isoformat (clk 2)\<rparr>))"
  by (auto simp: create_project_metadata_def Let_def
      split: sum.splits exc.splits if_splits prod.splits)

lemma create_financial_proposal_store:
  "create_financial_proposal clk uuid s request = (res, s') \<Longrightarrow>
     (\<exists>e. res = Inl e \<and> s' = s)
   \<or> (\<exists>resp. res = Inr resp
         \<and> pr_quotation_code resp = generate_quotation_code (clk 0) uuid
         \<and> s' = s(pr_quotation_code resp \<mapsto>
                  \<lparr>st_metadata = None, st_proposal = Some (pr_proposal resp),
                   st_created_at = isoformat (clk 3)\<rparr>))"
  by (auto simp: create_financial_proposal_def Let_def split: if_splits)

lemma delete_proposal_store:
  "delete_proposal s code = (res, s') \<Longrightarrow> s' = s \<or> s' = s(code := None)"
  by (auto simp: delete_proposal_def split: option.splits)

lemma reachable_one_entry:
  "reachable s \<Longrightarrow> s code = Some data \<Longrightarrow> st_metadata data = None \<or> st_proposal data = None"
proof (induction arbitrary: code data rule: reachable.induct)
  case initial
  then show ?case by simp
next
  case (metadata s strptime clk uuid m res s')
  from create_project_metadata_store[OF metadata.hyps(2)] metadata.IH metadata.prems
  show ?case by (fastforce split: if_splits)
next
  case (proposal s clk uuid request res s')
  from create_financial_proposal_store[OF proposal.hyps(2)] proposal.IH proposal.prems
  show ?case by (fastforce split: if_splits)
next
  case (delete s code' res s')
  from delete_proposal_store[OF delete.hyps(2)] delete.IH delete.prems
  show ?case by (fastforce split: if_splits)
qed

lemma summary_incomplete:
  "s code = Some data \<Longrightarrow> st_metadata data = None \<or> st_proposal data = None \<Longrightarrow>
     get_proposal_summary s code = Inr [Lit ''Incomplete proposal data'']"
  by (auto simp: get_proposal_summary_def split: option.splits)

lemma example_duration: "calculate_duration_months example_strptime ''2025-01-01'' ''2025-12-31'' = Inr 12"
  by (simp add: calculate_duration_months_def example_strptime_def float_of_int_def
      py_truediv_def py_round_int_def lit_30_44_def round_half_even_def fl_eval)

lemma example_code_2: "generate_quotation_code (example_clock 0) example_uuid_2 = ''MUT-20250301-7C9E6679''"
  by (simp add: generate_quotation_code_def example_clock_def py_upper_def example_uuid_2_def)

lemma example_metadata_created:
  "\<exists>resp. create_project_metadata example_strptime example_clock example_uuid_1 Map.empty
            example_metadata = (Inr resp, example_store_1)
         \<and> mr_quotation_code resp = ''MUT-20250301-0F8FAD5B''
         \<and> duration_months (mr_metadata resp) = 12"
  by (simp add: example_store_1_def create_project_metadata_def example_duration example_code_1
      example_strptime_def example_metadata_def Let_def ProjectMetadata.defs processed_metadata.defs)

lemma example_proposal_created:
  "\<exists>resp. create_financial_proposal example_clock example_uuid_2 example_store_1 example_request
            = (Inr resp, example_store_2)
         \<and> pr_quotation_code resp = ''MUT-20250301-7C9E6679''"
  by (simp add: example_store_2_def create_financial_proposal_def example_code_2 example_request_def
      example_terms_def terms_rejected_def py_sum_def fsub_def Let_def fl_eval)

lemma example_store_reachable: "reachable example_store_2"
proof -
  from example_metadata_created have "reachable example_store_1"
    using reachable.metadata[OF reachable.initial] by blast
  with example_proposal_created show ?thesis
    using reachable.proposal by blast
qed

lemma example_store_dom:
  "dom example_store_2 = {''MUT-20250301-0F8FAD5B'', ''MUT-20250301-7C9E6679''}"
proof -
  from example_metadata_created obtain r1 where
    "create_project_metadata example_strptime example_clock example_uuid_1 Map.empty
            example_metadata = (Inr r1, example_store_1)" by blast
  from create_project_metadata_store[OF this]
  have e1: "example_store_1 = [''MUT-20250301-0F8FAD5B'' \<mapsto>
             \<lparr>st_metadata = Some (mr_metadata r1), st_proposal = None,
                st_created_at = isoformat (example_clock 2)\<rparr>]"
    by (auto simp: example_code_1)
  have d1: "dom example_store_1 = {''MUT-20250301-0F8FAD5B''}"
    by (subst e1) simp
  from example_proposal_created obtain r2 where
    "create_financial_proposal example_clock example_uuid_2 example_store_1 example_request
            = (Inr r2, example_store_2)" by blast
  from create_financial_proposal_store[OF this]
  have e2: "example_store_2 = example_store_1(''MUT-20250301-7C9E6679'' \<mapsto>
             \<lparr>st_metadata = None, st_proposal = Some (pr_proposal r2),
                st_created_at = isoformat (example_clock 3)\<rparr>)"
    by (auto simp: example_code_2)
  show ?thesis
    by (subst e2) (simp add: d1 insert_commute)
qed

text \<open>
  Claim C10. A record written by the metadata endpoint has a \<open>metadata\<close> entry and no
  \<open>proposal\<close> entry; a record written by the proposal endpoint has a \<open>proposal\<close>
  entry and no \<open>metadata\<close> entry; each write replaces the whole record under its
  code. Hence in every reachable state of the store the summary endpoint answers
  "Incomplete proposal data" for every stored quotation code.
\<close>

theorem stored_records_incomplete:
  "(\<forall>resp s'. create_project_metadata strptime clk uuid s m = (Inr resp, s') \<longrightarrow>
       (\<exists>data. s' = s(mr_quotation_code resp \<mapsto> data)
           \<and> st_metadata data \<noteq> None \<and> st_proposal data = None))
   \<and> (\<forall>resp s'. create_financial_proposal clk uuid s request = (Inr resp, s') \<longrightarrow>
       (\<exists>data. s' = s(pr_quotation_code resp \<mapsto> data)
           \<and> st_proposal data \<noteq> None \<and> st_metadata data = None))
   \<and> (reachable s \<longrightarrow>
        (\<forall>code\<in>dom s. get_proposal_summary s code = Inr [Lit ''Incomplete proposal data'']))"
proof (intro conjI allI impI ballI)
  fix resp s' assume "create_project_metadata strptime clk uuid s m = (Inr resp, s')"
  from create_project_metadata_store[OF this]
  show "\<exists>data. s' = s(mr_quotation_code resp \<mapsto> data)
           \<and> st_metadata data \<noteq> None \<and> st_proposal data = None"
    by auto
next
  fix resp s' assume "create_financial_proposal clk uuid s request = (Inr resp, s')"
  from create_financial_proposal_store[OF this]
  show "\<exists>data. s' = s(pr_quotation_code resp \<mapsto> data)
           \<and> st_proposal data \<noteq> None \<and> st_metadata data = None"
    by auto
next
  fix code assume "reachable s" "code \<in> dom s"
  then obtain data where d: "s code = Some data" by blast
  from reachable_one_entry[OF \<open>reachable s\<close> d] d
  show "get_proposal_summary s code = Inr [Lit ''Incomplete proposal data'']"
    by (rule summary_incomplete[rotated])
qed

theorem stored_records_incomplete_witness:
  "(\<exists>resp data. create_project_metadata example_strptime example_clock example_uuid_1 Map.empty
         example_metadata = (Inr resp, Map.empty(mr_quotation_code resp \<mapsto> data))
       \<and> st_metadata data \<noteq> None \<and> st_proposal data = None)
   \<and> (\<exists>resp data. create_financial_proposal example_clock example_uuid_2 example_store_1
         example_request = (Inr resp, example_store_1(pr_quotation_code resp \<mapsto> data))
       \<and> st_proposal data \<noteq> None \<and> st_metadata data = None)
   \<and> reachable example_store_2
   \<and> dom example_store_2 = {''MUT-20250301-0F8FAD5B'', ''MUT-20250301-7C9E6679''}
   \<and> get_proposal_summary example_store_2 ''MUT-20250301-0F8FAD5B''
        = Inr [Lit ''Incomplete proposal data'']
   \<and> get_proposal_summary example_store_2 ''MUT-20250301-7C9E6679''
        = Inr [Lit ''Incomplete proposal data'']"
proof -
  note t1 = stored_records_incomplete[of example_strptime example_clock example_uuid_1 Map.empty
      example_metadata example_request]
  note t2 = stored_records_incomplete[of example_strptime example_clock example_uuid_2
      example_store_1 example_metadata example_request]
  note t3 = stored_records_incomplete[of example_strptime example_clock example_uuid_2
      example_store_2 example_metadata example_request]
  from example_metadata_created t1 have a:
    "\<exists>resp data. create_project_metadata example_strptime example_clock example_uuid_1 Map.empty
         example_metadata = (Inr resp, Map.empty(mr_quotation_code resp \<mapsto> data))
       \<and> st_metadata data \<noteq> None \<and> st_proposal data = None"
    by metis
  from example_proposal_created t2 have b:
    "\<exists>resp data. create_financial_proposal example_clock example_uuid_2 example_store_1
         example_request = (Inr resp, example_store_1(pr_quotation_code resp \<mapsto> data))
       \<and> st_proposal data \<noteq> None \<and> st_metadata data = None"
    by metis
  from t3 example_store_reachable
  have c: "\<forall>code\<in>dom example_store_2.
      get_proposal_summary example_store_2 code = Inr [Lit ''Incomplete proposal data'']"
    by blast
  from c have d: "get_proposal_summary example_store_2 ''MUT-20250301-0F8FAD5B''
        = Inr [Lit ''Incomplete proposal data'']"
    "get_proposal_summary example_store_2 ''MUT-20250301-7C9E6679''
        = Inr [Lit ''Incomplete proposal data'']"
    by (simp_all add: example_store_dom)
  show ?thesis
    by (intro conjI a b example_store_reachable example_store_dom d)
qed

end
